theory Spec2Isabelle
  imports Complex_Main
begin

section \<open>The 3D model viewer: a shallow embedding of its three scripts\<close>

text \<open>
  The repository holds three iterations of one browser script. \<^verbatim>\<open>src/main.js\<close> is two
  scripts, one after the other: the first (lines 1 to 322) gives every list entry its own
  visibility button, opacity buttons and slider, and keeps a per-mesh flag
  \<^verbatim>\<open>mesh.userData.visible\<close>; the second (lines 322 to 658) has one static set of
  controls and shifts every clipping plane by the centre of the selected mesh.
  \<^verbatim>\<open>src/unnamed/part_000\<close> is the third: static controls, clipping planes through a
  point read from the sliders, and an upload that selects the new mesh at once.
  They are called \<open>MainA\<close>, \<open>MainB\<close> and \<open>Part0\<close> below.

  Modelling decisions.
  \<^item> JavaScript numbers are the reals: rounding, \<open>NaN\<close> and the infinities are outside the model.
  \<^item> Objects that the script shares and mutates live in two stores: \<open>mesh_store\<close> holds
    the \<^verbatim>\<open>THREE.Mesh\<close> objects (a registry entry holds a reference, a natural number),
    \<open>plane_store\<close> holds the \<^verbatim>\<open>THREE.Plane\<close> objects (the clipping configuration
    and the materials hold references).
  \<^item> \<^verbatim>\<open>undefined\<close> is \<open>None\<close>: \<open>visible\<close> and \<open>userData_visible\<close> are \<open>bool option\<close>.
  \<^item> What the script cannot compute is an argument: the file name and the parsed geometry
    of a load, \<^verbatim>\<open>Date.now()\<close> and \<^verbatim>\<open>Math.floor(Math.random()*1000)\<close>.
  \<^item> The page is assumed to hold every element the scripts look up by id. Of the page,
    the model keeps what the scripts write and read back: the list entries, the slice
    sliders, the static opacity slider and the icon of the static visibility button.
  \<^item> Of the graphics library, the model keeps \<^verbatim>\<open>Vector3\<close>, \<^verbatim>\<open>Plane\<close>,
    \<^verbatim>\<open>Box3\<close> and the fields of mesh, material and camera that the scripts touch.
  \<^item> The tooltip under the pointer, the theme switch and the resizing of the canvas read
    the state below and write none of it; they are left out.
\<close>

subsection \<open>Vectors, planes and boxes of the graphics library\<close>

datatype vec3 = Vector3 (vx: real) (vy: real) (vz: real)

datatype plane = Plane (normal: vec3) (plane_constant: real)

datatype axis = AxisX | AxisY | AxisZ

definition dot :: "vec3 \<Rightarrow> vec3 \<Rightarrow> real" where
  "dot a b = vx a * vx b + vy a * vy b + vz a * vz b"

definition setFromNormalAndCoplanarPoint :: "vec3 \<Rightarrow> vec3 \<Rightarrow> plane" where
  \<comment> \<open>\<^verbatim>\<open>Plane.setFromNormalAndCoplanarPoint\<close>: the normal is copied, the constant is \<open>- point . normal\<close>.\<close>
  "setFromNormalAndCoplanarPoint n p = Plane n (- dot p n)"

definition coord :: "axis \<Rightarrow> vec3 \<Rightarrow> real" where
  \<comment> \<open>\<^verbatim>\<open>v[axis]\<close>\<close>
  "coord a v = (case a of AxisX \<Rightarrow> vx v | AxisY \<Rightarrow> vy v | AxisZ \<Rightarrow> vz v)"

definition axis_normal :: "axis \<Rightarrow> vec3" where
  \<comment> \<open>The three normals the scripts write out: \<^verbatim>\<open>(-1,0,0)\<close>, \<^verbatim>\<open>(0,-1,0)\<close>, \<^verbatim>\<open>(0,0,-1)\<close>.\<close>
  "axis_normal a = (case a of AxisX \<Rightarrow> Vector3 (- 1) 0 0
                            | AxisY \<Rightarrow> Vector3 0 (- 1) 0
                            | AxisZ \<Rightarrow> Vector3 0 0 (- 1))"

text \<open>
  A \<^verbatim>\<open>Box3\<close> is empty (\<open>None\<close>; the library keeps \<open>min = +\<infinity>\<close>, \<open>max = -\<infinity>\<close>) or
  has a lower and an upper corner.
\<close>

type_synonym box3 = "(vec3 \<times> vec3) option"

definition vmin :: "vec3 \<Rightarrow> vec3 \<Rightarrow> vec3" where
  "vmin a b = Vector3 (min (vx a) (vx b)) (min (vy a) (vy b)) (min (vz a) (vz b))"

definition vmax :: "vec3 \<Rightarrow> vec3 \<Rightarrow> vec3" where
  "vmax a b = Vector3 (max (vx a) (vx b)) (max (vy a) (vy b)) (max (vz a) (vz b))"

definition expandByPoint :: "box3 \<Rightarrow> vec3 \<Rightarrow> box3" where
  "expandByPoint b p = (case b of None \<Rightarrow> Some (p, p)
                                | Some (lo, hi) \<Rightarrow> Some (vmin lo p, vmax hi p))"

definition union_box :: "box3 \<Rightarrow> box3 \<Rightarrow> box3" where
  \<comment> \<open>\<^verbatim>\<open>Box3.union\<close>: componentwise \<open>min\<close> of the lower and \<open>max\<close> of the upper corners.\<close>
  "union_box b c = (case (b, c) of
       (None, _) \<Rightarrow> c
     | (_, None) \<Rightarrow> b
     | (Some (lo, hi), Some (lo', hi')) \<Rightarrow> Some (vmin lo lo', vmax hi hi'))"

definition getSize :: "box3 \<Rightarrow> vec3" where
  \<comment> \<open>\<^verbatim>\<open>Box3.getSize\<close>: the zero vector for the empty box.\<close>
  "getSize b = (case b of None \<Rightarrow> Vector3 0 0 0
     | Some (lo, hi) \<Rightarrow> Vector3 (vx hi - vx lo) (vy hi - vy lo) (vz hi - vz lo))"

definition getCenter :: "box3 \<Rightarrow> vec3" where
  \<comment> \<open>\<^verbatim>\<open>Box3.getCenter\<close>: the zero vector for the empty box.\<close>
  "getCenter b = (case b of None \<Rightarrow> Vector3 0 0 0
     | Some (lo, hi) \<Rightarrow> Vector3 ((vx lo + vx hi) * 0.5) ((vy lo + vy hi) * 0.5) ((vz lo + vz hi) * 0.5))"

subsection \<open>Meshes, the registry and the page\<close>

datatype side = FrontSide | BackSide | DoubleSide

record phong_material =
  color :: nat
  shininess :: real
  transparent :: bool
  opacity :: real
  side :: side
  clippingPlanes :: "nat list option"
  needsUpdate :: bool

record mesh_obj =
  name :: string
  geometry :: "vec3 list"
  material :: phong_material
  visible :: "bool option"
  userData_visible :: "bool option"

text \<open>
  An entry of \<^verbatim>\<open>meshes\<close>: \<^verbatim>\<open>{ id, mesh }\<close>, in \<open>MainA\<close> also \<^verbatim>\<open>{ id, mesh, slider }\<close>
  (the slider is the one of the list entry with that index).
\<close>

record entry =
  entry_id :: string
  entry_mesh :: nat
  entry_slider :: "nat option"

text \<open>
  The per-entry controls that \<open>MainA\<close> builds: the icon of the visibility button (\<open>True\<close>
  is \<^verbatim>\<open>show-icon.svg\<close>) and the value of the transparency slider.
\<close>

record item_controls =
  visImg_show :: bool
  slider_value :: real

text \<open>
  A child of \<^verbatim>\<open>#objects-list\<close>: its id and title, whether its class list holds
  \<^verbatim>\<open>selected\<close>, the mesh its listeners close over, and its controls if it has any.
\<close>

record list_item =
  item_id :: string
  item_title :: string
  item_selected :: bool
  item_mesh :: nat
  item_ctrl :: "item_controls option"

record clip_axis =
  enabled :: bool
  plane_ref :: nat

record range_input =
  range_min :: real
  range_max :: real
  range_value :: real

record state =
  selectedMeshId :: "string option"
  meshes :: "entry list"
  clipping :: "axis \<Rightarrow> clip_axis"
  plane_store :: "nat \<Rightarrow> plane"
  n_planes :: nat
  mesh_store :: "nat \<Rightarrow> mesh_obj"
  n_meshes :: nat
  camera_position :: vec3
  camera_fov :: real
  camera_lookAt :: vec3
  controls_target :: vec3
  objects_list :: "list_item list"
  slice_pos :: "axis \<Rightarrow> range_input"
  opacitySlider :: real
  visBtn_show :: bool

datatype script = MainA | MainB | Part0

subsection \<open>Strings of the scripts\<close>

definition digit_char :: "nat \<Rightarrow> char" where
  "digit_char d = (if d = 0 then CHR ''0'' else if d = 1 then CHR ''1''
     else if d = 2 then CHR ''2'' else if d = 3 then CHR ''3''
     else if d = 4 then CHR ''4'' else if d = 5 then CHR ''5''
     else if d = 6 then CHR ''6'' else if d = 7 then CHR ''7''
     else if d = 8 then CHR ''8'' else CHR ''9'')"

fun decimal :: "nat \<Rightarrow> string" where
  "decimal n = (if n < 10 then [digit_char n] else decimal (n div 10) @ [digit_char (n mod 10)])"

declare decimal.simps [simp del]

fun replace_first :: "string \<Rightarrow> string \<Rightarrow> string \<Rightarrow> string" where
  \<comment> \<open>\<^verbatim>\<open>s.replace(pat, rep)\<close> with a string pattern: the first occurrence only.\<close>
  "replace_first pat rep [] = (if pat = [] then rep else [])"
| "replace_first pat rep (c # cs) =
     (if take (length pat) (c # cs) = pat then rep @ drop (length pat) (c # cs)
      else c # replace_first pat rep cs)"

definition last_segment :: "string \<Rightarrow> string" where
  \<comment> \<open>\<^verbatim>\<open>path.split('/').pop()\<close>\<close>
  "last_segment p = rev (takeWhile (\<lambda>c. c \<noteq> CHR ''/'') (rev p))"

definition or_else :: "string \<Rightarrow> string \<Rightarrow> string" where
  \<comment> \<open>\<^verbatim>\<open>a || b\<close> on strings: the empty string is falsy.\<close>
  "or_else a b = (if a = [] then b else a)"

definition make_id :: "nat \<Rightarrow> nat \<Rightarrow> string" where
  \<comment> \<open>\<^verbatim>\<open>`obj-${Date.now()}-${Math.floor(Math.random()*1000)}`\<close>\<close>
  "make_id now rnd = ''obj-'' @ decimal now @ ''-'' @ decimal rnd"

definition truthy :: "bool option \<Rightarrow> bool" where
  \<comment> \<open>A flag in a condition: \<^verbatim>\<open>undefined\<close> counts as false.\<close>
  "truthy v = (v = Some True)"

definition truthy_id :: "string option \<Rightarrow> bool" where
  \<comment> \<open>\<^verbatim>\<open>selectedMeshId\<close> in a condition: \<^verbatim>\<open>null\<close> and the empty string are falsy.\<close>
  "truthy_id i = (case i of None \<Rightarrow> False | Some s \<Rightarrow> s \<noteq> [])"

subsection \<open>Camera framing\<close>

definition setFromObject :: "mesh_obj \<Rightarrow> box3" where
  \<comment> \<open>\<^verbatim>\<open>new THREE.Box3().setFromObject(mesh)\<close>: the box of the vertices (no mesh is ever moved).\<close>
  "setFromObject m = foldl expandByPoint None (geometry m)"

definition controls_update :: "state \<Rightarrow> state" where
  \<comment> \<open>\<^verbatim>\<open>controls.update()\<close> with no pointer motion pending: the camera is turned to the target.\<close>
  "controls_update s = s\<lparr>camera_lookAt := controls_target s\<rparr>"

definition fitCameraToObjects :: "real \<Rightarrow> state \<Rightarrow> state" where
  "fitCameraToObjects margin s =
     (if length (meshes s) = 0 then
        controls_update (s\<lparr>camera_position := Vector3 0 0 250, controls_target := Vector3 0 0 0\<rparr>)
      else
        let bbox = foldl (\<lambda>b e. union_box b (setFromObject (mesh_store s (entry_mesh e)))) None (meshes s);
            sz = getSize bbox;
            center = getCenter bbox;
            maxDim = max (max (vx sz) (vy sz)) (vz sz);
            fov = camera_fov s * (pi / 180);
            cameraZ = \<bar>maxDim / 2 / tan (fov / 2)\<bar> * margin;
            cameraZ = max cameraZ 50
        in controls_update (s\<lparr>camera_position := Vector3 (vx center) (vy center) (vz center + cameraZ),
                                camera_lookAt := center,
                                controls_target := center\<rparr>))"

definition cameraPosition :: "real \<Rightarrow> state \<Rightarrow> state" where
  \<comment> \<open>\<open>Part0\<close>'s name for the same function, with the same body.\<close>
  "cameraPosition margin s = fitCameraToObjects margin s"

definition fit :: "script \<Rightarrow> state \<Rightarrow> state" where
  \<comment> \<open>The call with the default argument, \<^verbatim>\<open>margin = 1.4\<close>.\<close>
  "fit v s = (case v of Part0 \<Rightarrow> cameraPosition 1.4 s | _ \<Rightarrow> fitCameraToObjects 1.4 s)"

definition resetView :: "script \<Rightarrow> state \<Rightarrow> state" where
  \<comment> \<open>\<^verbatim>\<open>controls.reset()\<close> restores the position and target saved when the controls were made.\<close>
  "resetView v s =
     fit v (controls_update (s\<lparr>camera_position := Vector3 0 0 250, controls_target := Vector3 0 0 0\<rparr>))"

subsection \<open>The clipping configuration\<close>

definition getActiveClippingPlanes :: "state \<Rightarrow> nat list" where
  "getActiveClippingPlanes s =
     (let arr = [];
          arr = (if enabled (clipping s AxisX) then arr @ [plane_ref (clipping s AxisX)] else arr);
          arr = (if enabled (clipping s AxisY) then arr @ [plane_ref (clipping s AxisY)] else arr);
          arr = (if enabled (clipping s AxisZ) then arr @ [plane_ref (clipping s AxisZ)] else arr)
      in arr)"

definition activeCliping :: "state \<Rightarrow> nat list" where
  \<comment> \<open>\<open>Part0\<close>'s name for the same function, with the same body.\<close>
  "activeCliping s = getActiveClippingPlanes s"

definition find_selected :: "state \<Rightarrow> entry option" where
  \<comment> \<open>\<^verbatim>\<open>meshes.find(m => m.id === selectedMeshId)\<close>\<close>
  "find_selected s = find (\<lambda>m. Some (entry_id m) = selectedMeshId s) (meshes s)"

definition set_clippingPlanes :: "nat \<Rightarrow> nat list \<Rightarrow> state \<Rightarrow> state" where
  \<comment> \<open>\<^verbatim>\<open>mesh.material.clippingPlanes = planes; mesh.material.needsUpdate = true\<close>\<close>
  "set_clippingPlanes m ps s =
     (let mo = mesh_store s m
      in s\<lparr>mesh_store := (mesh_store s)
             (m := mo\<lparr>material := (material mo)\<lparr>clippingPlanes := Some ps, needsUpdate := True\<rparr>\<rparr>)\<rparr>)"

definition new_plane :: "plane \<Rightarrow> state \<Rightarrow> nat \<times> state" where
  \<comment> \<open>\<^verbatim>\<open>new THREE.Plane(...)\<close>: a fresh object in the store of planes.\<close>
  "new_plane p s =
     (n_planes s, s\<lparr>plane_store := (plane_store s)(n_planes s := p), n_planes := n_planes s + 1\<rparr>)"

definition updateClippingPlanes_A :: "state \<Rightarrow> state" where
  \<comment> \<open>\<^verbatim>\<open>src/main.js\<close> lines 191 to 198: the configured planes themselves, by reference.\<close>
  "updateClippingPlanes_A s =
     (let active = getActiveClippingPlanes s
      in case find_selected s of
           None \<Rightarrow> s
         | Some obj \<Rightarrow> set_clippingPlanes (entry_mesh obj) active s)"

definition push_shifted :: "axis \<Rightarrow> vec3 \<Rightarrow> nat list \<times> state \<Rightarrow> nat list \<times> state" where
  \<comment> \<open>One of the three blocks of lines 480 to 488:
      \<^verbatim>\<open>if(clipping.x.enabled){ planes.push(new THREE.Plane(new THREE.Vector3(-1,0,0),
      clipping.x.plane.constant - center.x)); }\<close>\<close>
  "push_shifted a center acc =
     (case acc of (planes, s) \<Rightarrow>
        if enabled (clipping s a) then
          (case new_plane (Plane (axis_normal a)
                  (plane_constant (plane_store s (plane_ref (clipping s a))) - coord a center)) s of
             (r, s') \<Rightarrow> (planes @ [r], s'))
        else (planes, s))"

definition updateClippingPlanes_B :: "state \<Rightarrow> state" where
  \<comment> \<open>\<^verbatim>\<open>src/main.js\<close> lines 471 to 492: fresh planes, shifted by the centre of the selected mesh.\<close>
  "updateClippingPlanes_B s =
     (case find_selected s of
        None \<Rightarrow> s
      | Some obj \<Rightarrow>
          let bbox = setFromObject (mesh_store s (entry_mesh obj));
              center = getCenter bbox
          in case push_shifted AxisZ center
                    (push_shifted AxisY center (push_shifted AxisX center ([], s))) of
               (planes, s') \<Rightarrow> set_clippingPlanes (entry_mesh obj) planes s')"

definition coplanar_point :: "axis \<Rightarrow> real \<Rightarrow> vec3 \<Rightarrow> vec3" where
  \<comment> \<open>\<^verbatim>\<open>new THREE.Vector3(val, center.y, center.z)\<close> and its two siblings.\<close>
  "coplanar_point a val center = (case a of
       AxisX \<Rightarrow> Vector3 val (vy center) (vz center)
     | AxisY \<Rightarrow> Vector3 (vx center) val (vz center)
     | AxisZ \<Rightarrow> Vector3 (vx center) (vy center) val)"

definition push_through :: "axis \<Rightarrow> vec3 \<Rightarrow> nat list \<times> state \<Rightarrow> nat list \<times> state" where
  \<comment> \<open>One of the three blocks of \<^verbatim>\<open>part_000\<close> lines 213 to 241: the plane through the
      slider's value, pushed and stored as the axis's plane.\<close>
  "push_through a center acc =
     (case acc of (planes, s) \<Rightarrow>
        if enabled (clipping s a) then
          (let val = range_value (slice_pos s a);
               nrm = axis_normal a;
               pl = setFromNormalAndCoplanarPoint nrm (coplanar_point a val center)
           in case new_plane pl s of
                (r, s') \<Rightarrow> (planes @ [r],
                   s'\<lparr>clipping := (clipping s')(a := (clipping s' a)\<lparr>plane_ref := r\<rparr>)\<rparr>))
        else (planes, s))"

definition clip_target :: "entry \<Rightarrow> state \<Rightarrow> state" where
  \<comment> \<open>The body of \<^verbatim>\<open>targets.forEach(({ mesh }) => ...)\<close>.\<close>
  "clip_target t s =
     (let bbox = setFromObject (mesh_store s (entry_mesh t));
          center = getCenter bbox
      in case push_through AxisZ center
                (push_through AxisY center (push_through AxisX center ([], s))) of
           (planes, s') \<Rightarrow> set_clippingPlanes (entry_mesh t) planes s')"

definition updateClippingPlanes_C :: "state \<Rightarrow> state" where
  \<comment> \<open>\<^verbatim>\<open>part_000\<close> lines 196 to 251.\<close>
  "updateClippingPlanes_C s =
     (let targets = (if truthy_id (selectedMeshId s)
                     then (case find_selected s of Some obj \<Rightarrow> [obj] | None \<Rightarrow> [])
                     else meshes s)
      in if length targets = 0 then s else fold clip_target targets s)"

definition updateClippingPlanes :: "script \<Rightarrow> state \<Rightarrow> state" where
  "updateClippingPlanes v s = (case v of
       MainA \<Rightarrow> updateClippingPlanes_A s
     | MainB \<Rightarrow> updateClippingPlanes_B s
     | Part0 \<Rightarrow> updateClippingPlanes_C s)"

definition slice_checkbox :: "script \<Rightarrow> axis \<Rightarrow> bool \<Rightarrow> state \<Rightarrow> state" where
  \<comment> \<open>The \<^verbatim>\<open>change\<close> listener of \<^verbatim>\<open>#slice-x\<close> (and y, z).\<close>
  "slice_checkbox v a checked s =
     updateClippingPlanes v (s\<lparr>clipping := (clipping s)(a := (clipping s a)\<lparr>enabled := checked\<rparr>)\<rparr>)"

definition slice_range :: "script \<Rightarrow> axis \<Rightarrow> real \<Rightarrow> state \<Rightarrow> state" where
  \<comment> \<open>The \<^verbatim>\<open>input\<close> listener of \<^verbatim>\<open>#slice-x-pos\<close> (and y, z), the slider having moved to
      \<open>val\<close>: \<^verbatim>\<open>clipping[axis].plane.constant = parseFloat(e.target.value)\<close> writes into the
      plane object.\<close>
  "slice_range v a val s =
     (let s1 = s\<lparr>slice_pos := (slice_pos s)(a := (slice_pos s a)\<lparr>range_value := val\<rparr>)\<rparr>;
          r = plane_ref (clipping s1 a);
          s2 = s1\<lparr>plane_store := (plane_store s1)(r := Plane (normal (plane_store s1 r)) val)\<rparr>
      in updateClippingPlanes v s2)"

subsection \<open>Selection\<close>

fun toggle_selected :: "string \<Rightarrow> bool \<Rightarrow> list_item list \<Rightarrow> list_item list" where
  \<comment> \<open>\<^verbatim>\<open>const dom = document.getElementById(i); if(dom) dom.classList.toggle('selected', b)\<close>:
      the first element with that id.\<close>
  "toggle_selected i b [] = []"
| "toggle_selected i b (x # xs) =
     (if item_id x = i then x\<lparr>item_selected := b\<rparr> # xs else x # toggle_selected i b xs)"

definition set_slider :: "nat \<Rightarrow> real \<Rightarrow> list_item list \<Rightarrow> list_item list" where
  \<comment> \<open>\<^verbatim>\<open>slider.value = v\<close> for the slider of the \<open>k\<close>-th list entry.\<close>
  "set_slider k v items =
     (if k < length items then
        items[k := (items ! k)\<lparr>item_ctrl := map_option (\<lambda>c. c\<lparr>slider_value := v\<rparr>) (item_ctrl (items ! k))\<rparr>]
      else items)"

definition select_entry_A :: "string \<Rightarrow> entry \<Rightarrow> state \<Rightarrow> state" where
  \<comment> \<open>The body of \<^verbatim>\<open>meshes.forEach(o => ...)\<close> in \<^verbatim>\<open>src/main.js\<close> lines 308 to 313.\<close>
  "select_entry_A i e s =
     (let mo = mesh_store s (entry_mesh e);
          mo' = mo\<lparr>visible := (if entry_id e = i then userData_visible mo else Some False)\<rparr>;
          s1 = s\<lparr>mesh_store := (mesh_store s)(entry_mesh e := mo')\<rparr>;
          s2 = (case entry_slider e of
                  None \<Rightarrow> s1
                | Some k \<Rightarrow> s1\<lparr>objects_list := set_slider k (opacity (material mo')) (objects_list s1)\<rparr>)
      in s2\<lparr>objects_list := toggle_selected (entry_id e) (entry_id e = i) (objects_list s2)\<rparr>)"

definition selectMesh_A :: "string \<Rightarrow> state \<Rightarrow> state" where
  \<comment> \<open>\<^verbatim>\<open>src/main.js\<close> lines 307 to 316.\<close>
  "selectMesh_A i s =
     (let s1 = fold (select_entry_A i) (meshes s) s;
          s2 = s1\<lparr>selectedMeshId := Some i\<rparr>
      in updateClippingPlanes_A s2)"

definition select_entry :: "string \<Rightarrow> entry \<Rightarrow> state \<Rightarrow> state" where
  \<comment> \<open>The body of \<^verbatim>\<open>meshes.forEach(o => ...)\<close> in \<^verbatim>\<open>src/main.js\<close> lines 603 to 607 and
      \<^verbatim>\<open>part_000\<close> lines 399 to 403.\<close>
  "select_entry i e s =
     (let mo = mesh_store s (entry_mesh e);
          s1 = s\<lparr>mesh_store := (mesh_store s)(entry_mesh e := mo\<lparr>visible := Some (entry_id e = i)\<rparr>)\<rparr>
      in s1\<lparr>objects_list := toggle_selected (entry_id e) (entry_id e = i) (objects_list s1)\<rparr>)"

definition or_one :: "real \<Rightarrow> real" where
  \<comment> \<open>\<^verbatim>\<open>x || 1\<close> on numbers: zero is falsy.\<close>
  "or_one x = (if x = 0 then 1 else x)"

definition selectMesh_BC :: "script \<Rightarrow> string \<Rightarrow> state \<Rightarrow> state" where
  \<comment> \<open>\<^verbatim>\<open>src/main.js\<close> lines 602 to 618 and \<^verbatim>\<open>part_000\<close> lines 398 to 413: the same text,
      each calling its own script's \<^verbatim>\<open>updateClippingPlanes\<close>.\<close>
  "selectMesh_BC v i s =
     (let s1 = fold (select_entry i) (meshes s) s;
          s2 = s1\<lparr>selectedMeshId := Some i\<rparr>;
          s3 = updateClippingPlanes v s2
      in case find (\<lambda>m. entry_id m = i) (meshes s3) of
           None \<Rightarrow> s3
         | Some obj \<Rightarrow>
             s3\<lparr>visBtn_show := truthy (visible (mesh_store s3 (entry_mesh obj))),
                opacitySlider := or_one (opacity (material (mesh_store s3 (entry_mesh obj))))\<rparr>)"

definition selectMesh :: "script \<Rightarrow> string \<Rightarrow> state \<Rightarrow> state" where
  "selectMesh v i s = (case v of MainA \<Rightarrow> selectMesh_A i s | _ \<Rightarrow> selectMesh_BC v i s)"

subsection \<open>Registration and loading\<close>

definition addMeshToList_A :: "nat \<Rightarrow> nat \<Rightarrow> nat \<Rightarrow> state \<Rightarrow> string \<times> state" where
  \<comment> \<open>\<^verbatim>\<open>src/main.js\<close> lines 102 to 180; \<open>m\<close> is the mesh, already in the store.\<close>
  "addMeshToList_A m now rnd s =
     (let i = make_id now rnd;
          mo = (mesh_store s m)\<lparr>visible := Some False\<rparr>;
          s1 = s\<lparr>mesh_store := (mesh_store s)(m := mo)\<rparr>;
          k = length (objects_list s1);
          item = \<lparr>item_id = i, item_title = name mo, item_selected = False, item_mesh = m,
                  item_ctrl = Some \<lparr>visImg_show = True, slider_value = or_one (opacity (material mo))\<rparr>\<rparr>;
          s2 = s1\<lparr>objects_list := objects_list s1 @ [item]\<rparr>;
          s3 = s2\<lparr>meshes := meshes s2 @ [\<lparr>entry_id = i, entry_mesh = m, entry_slider = Some k\<rparr>]\<rparr>
      in (i, s3))"

definition addMeshToList_BC :: "nat \<Rightarrow> nat \<Rightarrow> nat \<Rightarrow> state \<Rightarrow> string \<times> state" where
  \<comment> \<open>\<^verbatim>\<open>src/main.js\<close> lines 423 to 460 and \<^verbatim>\<open>part_000\<close> lines 160 to 188.\<close>
  "addMeshToList_BC m now rnd s =
     (let i = make_id now rnd;
          item = \<lparr>item_id = i,
                  item_title = or_else (name (mesh_store s m)) (''Object '' @ decimal (length (meshes s) + 1)),
                  item_selected = False, item_mesh = m, item_ctrl = None\<rparr>;
          s1 = s\<lparr>objects_list := objects_list s @ [item]\<rparr>;
          s2 = s1\<lparr>mesh_store := (mesh_store s1)(m := (mesh_store s1 m)\<lparr>visible := Some False\<rparr>)\<rparr>;
          s3 = s2\<lparr>meshes := meshes s2 @ [\<lparr>entry_id = i, entry_mesh = m, entry_slider = None\<rparr>]\<rparr>
      in (i, s3))"

definition addMeshToList :: "script \<Rightarrow> nat \<Rightarrow> nat \<Rightarrow> nat \<Rightarrow> state \<Rightarrow> string \<times> state" where
  "addMeshToList v m now rnd s =
     (case v of MainA \<Rightarrow> addMeshToList_A m now rnd s | _ \<Rightarrow> addMeshToList_BC m now rnd s)"

definition new_mesh :: "mesh_obj \<Rightarrow> state \<Rightarrow> nat \<times> state" where
  \<comment> \<open>\<^verbatim>\<open>const mesh = new THREE.Mesh(geometry, material); ...; scene.add(mesh)\<close>\<close>
  "new_mesh mo s =
     (n_meshes s, s\<lparr>mesh_store := (mesh_store s)(n_meshes s := mo), n_meshes := n_meshes s + 1\<rparr>)"

definition register_twice :: "script \<Rightarrow> mesh_obj \<Rightarrow> nat \<Rightarrow> nat \<Rightarrow> state \<Rightarrow> state" where
  \<comment> \<open>The tail shared by \<^verbatim>\<open>handleFileUpload\<close> of \<^verbatim>\<open>src/main.js\<close> and by every
      \<^verbatim>\<open>loadLocalSTL\<close>: \<^verbatim>\<open>scene.add(mesh); const id = addMeshToList(mesh);
      meshes.push({ id, mesh }); fitCameraToObjects();\<close>\<close>
  "register_twice v mo now rnd s =
     (case new_mesh mo s of (m, s1) \<Rightarrow>
        case addMeshToList v m now rnd s1 of (i, s2) \<Rightarrow>
          fit v (s2\<lparr>meshes := meshes s2 @ [\<lparr>entry_id = i, entry_mesh = m, entry_slider = None\<rparr>]\<rparr>))"

definition handleFileUpload_AB ::
    "script \<Rightarrow> (string \<times> vec3 list) option \<Rightarrow> nat \<Rightarrow> nat \<Rightarrow> state \<Rightarrow> state" where
  \<comment> \<open>\<^verbatim>\<open>src/main.js\<close> lines 64 to 99 and 385 to 420, with the \<^verbatim>\<open>onload\<close> callback run on
      the file's name and parsed geometry. The colour is \<^verbatim>\<open>0xc8cfd6\<close>.\<close>
  "handleFileUpload_AB v file now rnd s =
     (case file of
        None \<Rightarrow> s
      | Some (fname, geom) \<Rightarrow>
          let mat = \<lparr>color = 13160406, shininess = 60, transparent = True, opacity = 1.0,
                     side = DoubleSide, clippingPlanes = Some (getActiveClippingPlanes s),
                     needsUpdate = False\<rparr>;
              mo = \<lparr>name = or_else (replace_first ''.stl'' [] fname)
                              (''Object '' @ decimal (length (meshes s) + 1)),
                    geometry = geom, material = mat, visible = Some True, userData_visible = None\<rparr>
          in register_twice v mo now rnd s)"

definition loadLocalSTL ::
    "script \<Rightarrow> string \<Rightarrow> string \<Rightarrow> vec3 list \<Rightarrow> nat \<Rightarrow> nat \<Rightarrow> state \<Rightarrow> state" where
  \<comment> \<open>\<^verbatim>\<open>src/main.js\<close> lines 289 to 305 and 584 to 600, \<^verbatim>\<open>part_000\<close> lines 374 to 390, with
      the loader's callback run on the parsed geometry. The colour is \<^verbatim>\<open>0xd1d7df\<close>.\<close>
  "loadLocalSTL v path nm geom now rnd s =
     (let active = (case v of Part0 \<Rightarrow> activeCliping s | _ \<Rightarrow> getActiveClippingPlanes s);
          mat = \<lparr>color = 13752287, shininess = 60, transparent = True, opacity = 1,
                 side = DoubleSide, clippingPlanes = Some active, needsUpdate = False\<rparr>;
          mo = \<lparr>name = or_else nm (last_segment path),
                geometry = geom, material = mat, visible = Some True, userData_visible = None\<rparr>
      in register_twice v mo now rnd s)"

definition set_range :: "axis \<Rightarrow> box3 \<Rightarrow> state \<Rightarrow> state" where
  \<comment> \<open>\<^verbatim>\<open>rangeEl.min = min[axis]; rangeEl.max = max[axis]; rangeEl.value = (max[axis] +
      min[axis]) / 2 + (max[axis] - min[axis]) * 0.25\<close>. For the empty box the script assigns
      infinities and \<^verbatim>\<open>NaN\<close>, which a range input replaces by its defaults 0, 100 and 50.
      The rounding of the value to the input's step is not modelled.\<close>
  "set_range a b s =
     (case b of
        None \<Rightarrow> s\<lparr>slice_pos := (slice_pos s)(a := \<lparr>range_min = 0, range_max = 100, range_value = 50\<rparr>)\<rparr>
      | Some (lo, hi) \<Rightarrow>
          s\<lparr>slice_pos := (slice_pos s)(a := \<lparr>range_min = coord a lo, range_max = coord a hi,
                range_value = (coord a hi + coord a lo) / 2 + (coord a hi - coord a lo) * 0.25\<rparr>)\<rparr>)"

definition reset_axis :: "box3 \<Rightarrow> axis \<Rightarrow> state \<Rightarrow> state" where
  \<comment> \<open>The body of the \<^verbatim>\<open>forEach\<close> of \<^verbatim>\<open>part_000\<close> lines 131 to 145: the slider's limits,
      then a new plane with constant 0 for the axis.\<close>
  "reset_axis b a s =
     (case new_plane (Plane (axis_normal a) 0) (set_range a b s) of
        (r, s') \<Rightarrow> s'\<lparr>clipping := (clipping s')(a := (clipping s' a)\<lparr>plane_ref := r\<rparr>)\<rparr>)"

definition handleFileUpload_C ::
    "(string \<times> vec3 list) option \<Rightarrow> nat \<Rightarrow> nat \<Rightarrow> state \<Rightarrow> state" where
  \<comment> \<open>\<^verbatim>\<open>part_000\<close> lines 98 to 153: no clipping planes on the material, one registration,
      the new mesh selected at once.\<close>
  "handleFileUpload_C file now rnd s =
     (case file of
        None \<Rightarrow> s
      | Some (fname, geom) \<Rightarrow>
          let mat = \<lparr>color = 13160406, shininess = 60, transparent = True, opacity = 1.0,
                     side = DoubleSide, clippingPlanes = None, needsUpdate = False\<rparr>;
              mo = \<lparr>name = or_else (replace_first ''.stl'' [] fname)
                              (''Object '' @ decimal (length (meshes s) + 1)),
                    geometry = geom, material = mat, visible = Some True, userData_visible = None\<rparr>
          in case new_mesh mo s of (m, s1) \<Rightarrow>
             case addMeshToList_BC m now rnd s1 of (i, s2) \<Rightarrow>
               let s3 = selectMesh_BC Part0 i s2;
                   bbox = setFromObject (mesh_store s3 m)
               in cameraPosition 1.4 (fold (reset_axis bbox) [AxisX, AxisY, AxisZ] s3))"

definition handleFileUpload ::
    "script \<Rightarrow> (string \<times> vec3 list) option \<Rightarrow> nat \<Rightarrow> nat \<Rightarrow> state \<Rightarrow> state" where
  "handleFileUpload v file now rnd s =
     (case v of Part0 \<Rightarrow> handleFileUpload_C file now rnd s
              | _ \<Rightarrow> handleFileUpload_AB v file now rnd s)"

subsection \<open>Visibility and opacity controls\<close>

definition js_not :: "bool option \<Rightarrow> bool option" where
  \<comment> \<open>\<^verbatim>\<open>!v\<close>: always a boolean; \<^verbatim>\<open>!undefined\<close> is \<^verbatim>\<open>true\<close>.\<close>
  "js_not v = Some (\<not> truthy v)"

definition set_visImg :: "nat \<Rightarrow> bool \<Rightarrow> list_item list \<Rightarrow> list_item list" where
  \<comment> \<open>\<^verbatim>\<open>visImg.src = b ? './icons/show-icon.svg' : './icons/hide-icon.svg'\<close> for the
      \<open>k\<close>-th list entry.\<close>
  "set_visImg k b items =
     (if k < length items then
        items[k := (items ! k)\<lparr>item_ctrl := map_option (\<lambda>c. c\<lparr>visImg_show := b\<rparr>) (item_ctrl (items ! k))\<rparr>]
      else items)"

definition item_visBtn_click :: "nat \<Rightarrow> state \<Rightarrow> state" where
  \<comment> \<open>\<^verbatim>\<open>src/main.js\<close> lines 135 to 141: the listener of the visibility button of the \<open>k\<close>-th
      list entry, which closes over that entry's \<^verbatim>\<open>mesh\<close> and \<^verbatim>\<open>id\<close>.\<close>
  "item_visBtn_click k s =
     (if k < length (objects_list s) \<and> item_ctrl (objects_list s ! k) \<noteq> None then
        let it = objects_list s ! k;
            m = item_mesh it;
            mo = mesh_store s m;
            mo1 = mo\<lparr>userData_visible := js_not (userData_visible mo)\<rparr>
        in if selectedMeshId s = Some (item_id it) then
             let mo2 = mo1\<lparr>visible := js_not (visible mo1)\<rparr>
             in s\<lparr>mesh_store := (mesh_store s)(m := mo2),
                  objects_list := set_visImg k (truthy (visible mo2)) (objects_list s)\<rparr>
           else s\<lparr>mesh_store := (mesh_store s)(m := mo1)\<rparr>
      else s)"

definition set_opacity :: "nat \<Rightarrow> real \<Rightarrow> state \<Rightarrow> state" where
  \<comment> \<open>\<^verbatim>\<open>mesh.material.opacity = value\<close>\<close>
  "set_opacity m value s =
     (let mo = mesh_store s m
      in s\<lparr>mesh_store := (mesh_store s)(m := mo\<lparr>material := (material mo)\<lparr>opacity := value\<rparr>\<rparr>)\<rparr>)"

definition item_opacityBtn_click :: "nat \<Rightarrow> real \<Rightarrow> state \<Rightarrow> state" where
  \<comment> \<open>\<^verbatim>\<open>src/main.js\<close> lines 148, 154 and 160, for the values 1, 0.5 and 0.15:
      \<^verbatim>\<open>if(selectedMeshId===id){ mesh.material.opacity = 1; if(slider) slider.value=1; }\<close>\<close>
  "item_opacityBtn_click k value s =
     (if k < length (objects_list s) \<and> item_ctrl (objects_list s ! k) \<noteq> None then
        let it = objects_list s ! k
        in if selectedMeshId s = Some (item_id it) then
             (set_opacity (item_mesh it) value s)\<lparr>objects_list := set_slider k value (objects_list s)\<rparr>
           else s
      else s)"

definition item_slider_input :: "nat \<Rightarrow> real \<Rightarrow> state \<Rightarrow> state" where
  \<comment> \<open>\<^verbatim>\<open>src/main.js\<close> line 166, the slider of the \<open>k\<close>-th list entry having moved to \<open>value\<close>:
      \<^verbatim>\<open>if(selectedMeshId===id) mesh.material.opacity = parseFloat(slider.value)\<close>\<close>
  "item_slider_input k value s =
     (if k < length (objects_list s) \<and> item_ctrl (objects_list s ! k) \<noteq> None then
        let it = objects_list s ! k;
            s1 = s\<lparr>objects_list := set_slider k value (objects_list s)\<rparr>
        in if selectedMeshId s1 = Some (item_id it) then set_opacity (item_mesh it) value s1 else s1
      else s)"

definition visBtn_click :: "state \<Rightarrow> state" where
  \<comment> \<open>\<^verbatim>\<open>src/main.js\<close> lines 628 to 635 and \<^verbatim>\<open>part_000\<close> lines 423 to 430: the listener of the
      static button \<^verbatim>\<open>#vis-btn\<close>.\<close>
  "visBtn_click s =
     (if \<not> truthy_id (selectedMeshId s) then s
      else case find_selected s of
             None \<Rightarrow> s
           | Some obj \<Rightarrow>
               let mo = mesh_store s (entry_mesh obj);
                   mo' = mo\<lparr>visible := js_not (visible mo)\<rparr>
               in s\<lparr>mesh_store := (mesh_store s)(entry_mesh obj := mo'),
                    visBtn_show := truthy (visible mo')\<rparr>)"

definition setOpacityForSelected :: "real \<Rightarrow> state \<Rightarrow> state" where
  \<comment> \<open>\<^verbatim>\<open>src/main.js\<close> lines 645 to 651.\<close>
  "setOpacityForSelected value s =
     (if \<not> truthy_id (selectedMeshId s) then s
      else case find_selected s of
             None \<Rightarrow> s
           | Some obj \<Rightarrow> (set_opacity (entry_mesh obj) value s)\<lparr>opacitySlider := value\<rparr>)"

definition dynamicSelectedOpacity :: "real \<Rightarrow> state \<Rightarrow> state" where
  \<comment> \<open>\<^verbatim>\<open>part_000\<close> lines 445 to 451.\<close>
  "dynamicSelectedOpacity value s =
     (if \<not> truthy_id (selectedMeshId s) then s
      else case find_selected s of
             None \<Rightarrow> s
           | Some obj \<Rightarrow> (set_opacity (entry_mesh obj) value s)\<lparr>opacitySlider := value\<rparr>)"

definition set_opacity_static :: "script \<Rightarrow> real \<Rightarrow> state \<Rightarrow> state" where
  \<comment> \<open>The static opacity controls exist in \<open>MainB\<close> and \<open>Part0\<close> only.\<close>
  "set_opacity_static v value s = (case v of
       MainA \<Rightarrow> s
     | MainB \<Rightarrow> setOpacityForSelected value s
     | Part0 \<Rightarrow> dynamicSelectedOpacity value s)"

subsection \<open>The start state and the operations\<close>

definition unused_mesh :: mesh_obj where
  \<comment> \<open>What the store holds where no mesh has been created yet.\<close>
  "unused_mesh = \<lparr>name = [], geometry = [],
      material = \<lparr>color = 0, shininess = 0, transparent = False, opacity = 1, side = FrontSide,
                   clippingPlanes = None, needsUpdate = False\<rparr>,
      visible = Some True, userData_visible = None\<rparr>"

definition axis_index :: "axis \<Rightarrow> nat" where
  "axis_index a = (case a of AxisX \<Rightarrow> 0 | AxisY \<Rightarrow> 1 | AxisZ \<Rightarrow> 2)"

definition init_state :: "(axis \<Rightarrow> range_input) \<Rightarrow> real \<Rightarrow> bool \<Rightarrow> state" where
  \<comment> \<open>The globals of lines 1 to 9 and the camera of \<^verbatim>\<open>init()\<close>; the arguments are what the
      page gives the slice sliders, the opacity slider and the icon of \<^verbatim>\<open>#vis-btn\<close>.\<close>
  "init_state sliders op_value icon =
     \<lparr>selectedMeshId = None,
      meshes = [],
      clipping = (\<lambda>a. \<lparr>enabled = False, plane_ref = axis_index a\<rparr>),
      plane_store = (\<lambda>r. if r = 0 then Plane (Vector3 (- 1) 0 0) 0
                          else if r = 1 then Plane (Vector3 0 (- 1) 0) 0
                          else Plane (Vector3 0 0 (- 1)) 0),
      n_planes = 3,
      mesh_store = (\<lambda>r. unused_mesh),
      n_meshes = 0,
      camera_position = Vector3 0 0 250,
      camera_fov = 60,
      camera_lookAt = Vector3 0 0 0,
      controls_target = Vector3 0 0 0,
      objects_list = [],
      slice_pos = sliders,
      opacitySlider = op_value,
      visBtn_show = icon\<rparr>"

text \<open>
  What can happen to a running script: the two kinds of load (the callbacks of the file
  reader and of the loader of bundled models), a call of \<^verbatim>\<open>selectMesh\<close> or of
  \<^verbatim>\<open>updateClippingPlanes\<close>, and the listeners. A click on a control of a list entry is
  first handled by the control and then, the control being inside the entry, by the
  entry's own click listener, which selects the entry. The static controls have
  listeners in \<open>MainB\<close> and \<open>Part0\<close> only, the entries have controls in \<open>MainA\<close> only.
\<close>

datatype op =
    Upload "(string \<times> vec3 list) option" nat nat
  | LocalLoaded string string "vec3 list" nat nat
  | Select string
  | Recompute
  | SetAxisEnabled axis bool
  | SetAxisOffset axis real
  | ResetView
  | ItemClick nat
  | ItemVis nat
  | ItemOpacity nat real
  | ItemSlider nat real
  | VisClick
  | SetOpacity real

definition item_click :: "script \<Rightarrow> nat \<Rightarrow> state \<Rightarrow> state" where
  \<comment> \<open>\<^verbatim>\<open>item.addEventListener('click', () => selectMesh(id))\<close> of the \<open>k\<close>-th list entry.\<close>
  "item_click v k s =
     (if k < length (objects_list s) then selectMesh v (item_id (objects_list s ! k)) s else s)"

fun step :: "script \<Rightarrow> op \<Rightarrow> state \<Rightarrow> state" where
  "step v (Upload file now rnd) s = handleFileUpload v file now rnd s"
| "step v (LocalLoaded path nm geom now rnd) s = loadLocalSTL v path nm geom now rnd s"
| "step v (Select i) s = selectMesh v i s"
| "step v Recompute s = updateClippingPlanes v s"
| "step v (SetAxisEnabled a b) s = slice_checkbox v a b s"
| "step v (SetAxisOffset a val) s = slice_range v a val s"
| "step v ResetView s = resetView v s"
| "step v (ItemClick k) s = item_click v k s"
| "step v (ItemVis k) s = item_click v k (item_visBtn_click k s)"
| "step v (ItemOpacity k val) s = item_click v k (item_opacityBtn_click k val s)"
| "step v (ItemSlider k val) s = item_slider_input k val s"
| "step v VisClick s = (case v of MainA \<Rightarrow> s | _ \<Rightarrow> visBtn_click s)"
| "step v (SetOpacity val) s = set_opacity_static v val s"

definition run :: "script \<Rightarrow> op list \<Rightarrow> state \<Rightarrow> state" where
  "run v ops s = fold (step v) ops s"

subsection \<open>Notions used in the statements\<close>

text \<open>
  The axes whose checkbox is ticked, in the order the scripts visit them; the plane an
  axis is configured with; the planes a mesh's material is clipped by, read through the
  references (a material without clipping planes is not clipped); the centre of a mesh's
  box; and the part of a list entry that no listener ever changes.
\<close>

definition enabled_axes :: "state \<Rightarrow> axis list" where
  "enabled_axes s = filter (\<lambda>a. enabled (clipping s a)) [AxisX, AxisY, AxisZ]"

definition configured :: "state \<Rightarrow> axis \<Rightarrow> plane" where
  "configured s a = plane_store s (plane_ref (clipping s a))"

definition applied_planes :: "state \<Rightarrow> nat \<Rightarrow> plane list" where
  "applied_planes s m = (case clippingPlanes (material (mesh_store s m)) of
       None \<Rightarrow> [] | Some refs \<Rightarrow> map (plane_store s) refs)"

definition mesh_center :: "state \<Rightarrow> nat \<Rightarrow> vec3" where
  "mesh_center s m = getCenter (setFromObject (mesh_store s m))"

definition skeleton :: "list_item list \<Rightarrow> (string \<times> nat \<times> bool) list" where
  "skeleton items = map (\<lambda>it. (item_id it, item_mesh it, item_ctrl it = None)) items"

text \<open>
  The spec's bounding box, "the minimal axis-aligned box containing all of a mesh's
  geometry", written with \<open>Min\<close> and \<open>Max\<close> over the coordinates; the vertices of all
  registered meshes; and the largest dimension of a box.
\<close>

definition minimal_box :: "vec3 list \<Rightarrow> box3" where
  "minimal_box vs = (if vs = [] then None else
      Some (Vector3 (Min (vx ` set vs)) (Min (vy ` set vs)) (Min (vz ` set vs)),
            Vector3 (Max (vx ` set vs)) (Max (vy ` set vs)) (Max (vz ` set vs))))"

definition registered_vertices :: "state \<Rightarrow> vec3 list" where
  "registered_vertices s = concat (map (\<lambda>e. geometry (mesh_store s (entry_mesh e))) (meshes s))"

definition max_dimension :: "box3 \<Rightarrow> real" where
  "max_dimension b = max (max (vx (getSize b)) (vy (getSize b))) (vz (getSize b))"

text \<open>
  Every plane object the configuration refers to has been created: a new plane is never
  one of them. This holds from the start on (\<open>clip_ok_run\<close> below).
\<close>

definition planes_allocated :: "state \<Rightarrow> bool" where
  "planes_allocated s = (plane_ref (clipping s AxisX) < n_planes s
     \<and> plane_ref (clipping s AxisY) < n_planes s \<and> plane_ref (clipping s AxisZ) < n_planes s)"

definition normals_fixed :: "state \<Rightarrow> bool" where
  "normals_fixed s = (normal (configured s AxisX) = Vector3 (- 1) 0 0
     \<and> normal (configured s AxisY) = Vector3 0 (- 1) 0
     \<and> normal (configured s AxisZ) = Vector3 0 0 (- 1))"

definition clip_ok :: "state \<Rightarrow> bool" where
  "clip_ok s = (planes_allocated s \<and> normals_fixed s)"

text \<open>
  For the first script: the meshes the list entries close over; every one of them has
  been created; and a mesh \<open>m\<close> that only the \<open>k\<close>-th entry closes over, whose per-mesh
  flag has never been written and whose visible flag is not \<^verbatim>\<open>true\<close>.
\<close>

definition item_meshes :: "state \<Rightarrow> nat list" where
  "item_meshes s = map item_mesh (objects_list s)"

definition items_ok :: "state \<Rightarrow> bool" where
  "items_ok s = list_all (\<lambda>m. m < n_meshes s) (item_meshes s)"

definition dormant :: "nat \<Rightarrow> nat \<Rightarrow> state \<Rightarrow> bool" where
  "dormant m k s = (m < n_meshes s
     \<and> (\<forall>j < length (item_meshes s). j \<noteq> k \<longrightarrow> item_meshes s ! j \<noteq> m)
     \<and> userData_visible (mesh_store s m) = None
     \<and> visible (mesh_store s m) \<noteq> Some True)"

subsection \<open>Example states\<close>

text \<open>
  A page whose slice sliders run from 0 to 100 and stand at 50; one triangle as a
  geometry (its box has the centre \<open>(2, 1, 1)\<close>); the state after the bundled model
  \<^verbatim>\<open>car.stl\<close> has finished loading, at time 5 with the random draw 7; the state after
  the second bundled model has loaded too, at time 6 with the draw 8; and that state
  with the car selected.
\<close>

definition page_sliders :: "axis \<Rightarrow> range_input" where
  "page_sliders a = \<lparr>range_min = 0, range_max = 100, range_value = 50\<rparr>"

definition start :: state where
  "start = init_state page_sliders 1 True"

definition triangle :: "vec3 list" where
  "triangle = [Vector3 0 0 0, Vector3 4 0 0, Vector3 0 2 2]"

definition car_loaded :: "script \<Rightarrow> state" where
  "car_loaded v = loadLocalSTL v ''./assets/models/car.stl'' ''car'' triangle 5 7 start"

definition both_loaded :: "script \<Rightarrow> state" where
  "both_loaded v = loadLocalSTL v ''./assets/models/Dragon 2.5_stl.stl'' ''Dragon 2.5''
                      [Vector3 1 1 1, Vector3 3 1 1, Vector3 1 5 1] 6 8 (car_loaded v)"

definition car_selected :: "script \<Rightarrow> state" where
  "car_selected v = selectMesh v (make_id 5 7) (both_loaded v)"

text \<open>The car selected, the X slider moved to 5 and the X checkbox ticked.\<close>

definition x_sliced :: "script \<Rightarrow> state" where
  "x_sliced v = slice_checkbox v AxisX True (slice_range v AxisX 5 (car_selected v))"

section \<open>Proofs\<close>

subsection \<open>What each function leaves alone\<close>

lemma controls_update_frame [simp]:
  "selectedMeshId (controls_update s) = selectedMeshId s"
  "meshes (controls_update s) = meshes s"
  "clipping (controls_update s) = clipping s"
  "plane_store (controls_update s) = plane_store s"
  "n_planes (controls_update s) = n_planes s"
  "mesh_store (controls_update s) = mesh_store s"
  "n_meshes (controls_update s) = n_meshes s"
  "objects_list (controls_update s) = objects_list s"
  "slice_pos (controls_update s) = slice_pos s"
  "opacitySlider (controls_update s) = opacitySlider s"
  "visBtn_show (controls_update s) = visBtn_show s"
  "camera_fov (controls_update s) = camera_fov s"
  by (simp_all add: controls_update_def)

lemma fitCameraToObjects_frame [simp]:
  "selectedMeshId (fitCameraToObjects mg s) = selectedMeshId s"
  "meshes (fitCameraToObjects mg s) = meshes s"
  "clipping (fitCameraToObjects mg s) = clipping s"
  "plane_store (fitCameraToObjects mg s) = plane_store s"
  "n_planes (fitCameraToObjects mg s) = n_planes s"
  "mesh_store (fitCameraToObjects mg s) = mesh_store s"
  "n_meshes (fitCameraToObjects mg s) = n_meshes s"
  "objects_list (fitCameraToObjects mg s) = objects_list s"
  "slice_pos (fitCameraToObjects mg s) = slice_pos s"
  "opacitySlider (fitCameraToObjects mg s) = opacitySlider s"
  "visBtn_show (fitCameraToObjects mg s) = visBtn_show s"
  "camera_fov (fitCameraToObjects mg s) = camera_fov s"
  by (simp_all add: fitCameraToObjects_def Let_def)

lemma fit_frame [simp]:
  "selectedMeshId (fit v s) = selectedMeshId s"
  "meshes (fit v s) = meshes s"
  "clipping (fit v s) = clipping s"
  "plane_store (fit v s) = plane_store s"
  "n_planes (fit v s) = n_planes s"
  "mesh_store (fit v s) = mesh_store s"
  "n_meshes (fit v s) = n_meshes s"
  "objects_list (fit v s) = objects_list s"
  "slice_pos (fit v s) = slice_pos s"
  "opacitySlider (fit v s) = opacitySlider s"
  "visBtn_show (fit v s) = visBtn_show s"
  "camera_fov (fit v s) = camera_fov s"
  by (simp_all add: fit_def cameraPosition_def split: script.split)

lemma resetView_frame [simp]:
  "selectedMeshId (resetView v s) = selectedMeshId s"
  "meshes (resetView v s) = meshes s"
  "clipping (resetView v s) = clipping s"
  "plane_store (resetView v s) = plane_store s"
  "n_planes (resetView v s) = n_planes s"
  "mesh_store (resetView v s) = mesh_store s"
  "n_meshes (resetView v s) = n_meshes s"
  "objects_list (resetView v s) = objects_list s"
  "slice_pos (resetView v s) = slice_pos s"
  "opacitySlider (resetView v s) = opacitySlider s"
  "visBtn_show (resetView v s) = visBtn_show s"
  "camera_fov (resetView v s) = camera_fov s"
  by (simp_all add: resetView_def)

lemma set_clippingPlanes_frame [simp]:
  "selectedMeshId (set_clippingPlanes m ps s) = selectedMeshId s"
  "meshes (set_clippingPlanes m ps s) = meshes s"
  "clipping (set_clippingPlanes m ps s) = clipping s"
  "plane_store (set_clippingPlanes m ps s) = plane_store s"
  "n_planes (set_clippingPlanes m ps s) = n_planes s"
  "n_meshes (set_clippingPlanes m ps s) = n_meshes s"
  "objects_list (set_clippingPlanes m ps s) = objects_list s"
  "slice_pos (set_clippingPlanes m ps s) = slice_pos s"
  "opacitySlider (set_clippingPlanes m ps s) = opacitySlider s"
  "visBtn_show (set_clippingPlanes m ps s) = visBtn_show s"
  "camera_fov (set_clippingPlanes m ps s) = camera_fov s"
  by (simp_all add: set_clippingPlanes_def Let_def)

lemma set_clippingPlanes_mesh [simp]:
  "visible (mesh_store (set_clippingPlanes m ps s) r) = visible (mesh_store s r)"
  "userData_visible (mesh_store (set_clippingPlanes m ps s) r) = userData_visible (mesh_store s r)"
  "geometry (mesh_store (set_clippingPlanes m ps s) r) = geometry (mesh_store s r)"
  "name (mesh_store (set_clippingPlanes m ps s) r) = name (mesh_store s r)"
  "opacity (material (mesh_store (set_clippingPlanes m ps s) r)) = opacity (material (mesh_store s r))"
  by (simp_all add: set_clippingPlanes_def Let_def)

lemma set_clippingPlanes_other:
  "r \<noteq> m \<Longrightarrow> mesh_store (set_clippingPlanes m ps s) r = mesh_store s r"
  by (simp add: set_clippingPlanes_def Let_def)

lemma set_clippingPlanes_same [simp]:
  "clippingPlanes (material (mesh_store (set_clippingPlanes m ps s) m)) = Some ps"
  by (simp add: set_clippingPlanes_def Let_def)

lemma setFromObject_cong:
  "geometry m = geometry m' \<Longrightarrow> setFromObject m = setFromObject m'"
  by (simp add: setFromObject_def)

lemma new_plane_frame [simp]:
  "selectedMeshId (snd (new_plane p s)) = selectedMeshId s"
  "meshes (snd (new_plane p s)) = meshes s"
  "clipping (snd (new_plane p s)) = clipping s"
  "mesh_store (snd (new_plane p s)) = mesh_store s"
  "n_meshes (snd (new_plane p s)) = n_meshes s"
  "camera_fov (snd (new_plane p s)) = camera_fov s"
  "objects_list (snd (new_plane p s)) = objects_list s"
  "slice_pos (snd (new_plane p s)) = slice_pos s"
  "opacitySlider (snd (new_plane p s)) = opacitySlider s"
  "visBtn_show (snd (new_plane p s)) = visBtn_show s"
  "n_planes (snd (new_plane p s)) = n_planes s + 1"
  "fst (new_plane p s) = n_planes s"
  "plane_store (snd (new_plane p s)) = (plane_store s)(n_planes s := p)"
  by (simp_all add: new_plane_def)

lemma push_shifted_frame [simp]:
  "selectedMeshId (snd (push_shifted a c acc)) = selectedMeshId (snd acc)"
  "meshes (snd (push_shifted a c acc)) = meshes (snd acc)"
  "clipping (snd (push_shifted a c acc)) = clipping (snd acc)"
  "mesh_store (snd (push_shifted a c acc)) = mesh_store (snd acc)"
  "n_meshes (snd (push_shifted a c acc)) = n_meshes (snd acc)"
  "camera_fov (snd (push_shifted a c acc)) = camera_fov (snd acc)"
  "objects_list (snd (push_shifted a c acc)) = objects_list (snd acc)"
  "slice_pos (snd (push_shifted a c acc)) = slice_pos (snd acc)"
  "opacitySlider (snd (push_shifted a c acc)) = opacitySlider (snd acc)"
  "visBtn_show (snd (push_shifted a c acc)) = visBtn_show (snd acc)"
  by (simp_all add: push_shifted_def split_beta)

lemma push_through_frame [simp]:
  "selectedMeshId (snd (push_through a c acc)) = selectedMeshId (snd acc)"
  "meshes (snd (push_through a c acc)) = meshes (snd acc)"
  "mesh_store (snd (push_through a c acc)) = mesh_store (snd acc)"
  "n_meshes (snd (push_through a c acc)) = n_meshes (snd acc)"
  "camera_fov (snd (push_through a c acc)) = camera_fov (snd acc)"
  "objects_list (snd (push_through a c acc)) = objects_list (snd acc)"
  "slice_pos (snd (push_through a c acc)) = slice_pos (snd acc)"
  "opacitySlider (snd (push_through a c acc)) = opacitySlider (snd acc)"
  "visBtn_show (snd (push_through a c acc)) = visBtn_show (snd acc)"
  "enabled (clipping (snd (push_through a c acc)) b) = enabled (clipping (snd acc) b)"
  by (simp_all add: push_through_def split_beta Let_def)

lemma updateClippingPlanes_A_frame [simp]:
  "selectedMeshId (updateClippingPlanes_A s) = selectedMeshId s"
  "meshes (updateClippingPlanes_A s) = meshes s"
  "clipping (updateClippingPlanes_A s) = clipping s"
  "plane_store (updateClippingPlanes_A s) = plane_store s"
  "n_planes (updateClippingPlanes_A s) = n_planes s"
  "n_meshes (updateClippingPlanes_A s) = n_meshes s"
  "camera_fov (updateClippingPlanes_A s) = camera_fov s"
  "objects_list (updateClippingPlanes_A s) = objects_list s"
  "slice_pos (updateClippingPlanes_A s) = slice_pos s"
  "opacitySlider (updateClippingPlanes_A s) = opacitySlider s"
  "visBtn_show (updateClippingPlanes_A s) = visBtn_show s"
  "visible (mesh_store (updateClippingPlanes_A s) r) = visible (mesh_store s r)"
  "userData_visible (mesh_store (updateClippingPlanes_A s) r) = userData_visible (mesh_store s r)"
  "geometry (mesh_store (updateClippingPlanes_A s) r) = geometry (mesh_store s r)"
  "opacity (material (mesh_store (updateClippingPlanes_A s) r)) = opacity (material (mesh_store s r))"
  by (simp_all add: updateClippingPlanes_A_def Let_def split: option.split)

lemma updateClippingPlanes_B_frame [simp]:
  "selectedMeshId (updateClippingPlanes_B s) = selectedMeshId s"
  "meshes (updateClippingPlanes_B s) = meshes s"
  "clipping (updateClippingPlanes_B s) = clipping s"
  "n_meshes (updateClippingPlanes_B s) = n_meshes s"
  "camera_fov (updateClippingPlanes_B s) = camera_fov s"
  "objects_list (updateClippingPlanes_B s) = objects_list s"
  "slice_pos (updateClippingPlanes_B s) = slice_pos s"
  "opacitySlider (updateClippingPlanes_B s) = opacitySlider s"
  "visBtn_show (updateClippingPlanes_B s) = visBtn_show s"
  "visible (mesh_store (updateClippingPlanes_B s) r) = visible (mesh_store s r)"
  "userData_visible (mesh_store (updateClippingPlanes_B s) r) = userData_visible (mesh_store s r)"
  "geometry (mesh_store (updateClippingPlanes_B s) r) = geometry (mesh_store s r)"
  "opacity (material (mesh_store (updateClippingPlanes_B s) r)) = opacity (material (mesh_store s r))"
  by (simp_all add: updateClippingPlanes_B_def Let_def split_beta split: option.split)

lemma clip_target_frame [simp]:
  "selectedMeshId (clip_target t s) = selectedMeshId s"
  "meshes (clip_target t s) = meshes s"
  "n_meshes (clip_target t s) = n_meshes s"
  "camera_fov (clip_target t s) = camera_fov s"
  "objects_list (clip_target t s) = objects_list s"
  "slice_pos (clip_target t s) = slice_pos s"
  "opacitySlider (clip_target t s) = opacitySlider s"
  "visBtn_show (clip_target t s) = visBtn_show s"
  "enabled (clipping (clip_target t s) b) = enabled (clipping s b)"
  "visible (mesh_store (clip_target t s) r) = visible (mesh_store s r)"
  "userData_visible (mesh_store (clip_target t s) r) = userData_visible (mesh_store s r)"
  "geometry (mesh_store (clip_target t s) r) = geometry (mesh_store s r)"
  "opacity (material (mesh_store (clip_target t s) r)) = opacity (material (mesh_store s r))"
  by (simp_all add: clip_target_def Let_def split_beta)

lemma fold_clip_target_frame [simp]:
  "selectedMeshId (fold clip_target ts s) = selectedMeshId s"
  "meshes (fold clip_target ts s) = meshes s"
  "n_meshes (fold clip_target ts s) = n_meshes s"
  "camera_fov (fold clip_target ts s) = camera_fov s"
  "objects_list (fold clip_target ts s) = objects_list s"
  "slice_pos (fold clip_target ts s) = slice_pos s"
  "opacitySlider (fold clip_target ts s) = opacitySlider s"
  "visBtn_show (fold clip_target ts s) = visBtn_show s"
  "enabled (clipping (fold clip_target ts s) b) = enabled (clipping s b)"
  "visible (mesh_store (fold clip_target ts s) r) = visible (mesh_store s r)"
  "userData_visible (mesh_store (fold clip_target ts s) r) = userData_visible (mesh_store s r)"
  "geometry (mesh_store (fold clip_target ts s) r) = geometry (mesh_store s r)"
  "opacity (material (mesh_store (fold clip_target ts s) r)) = opacity (material (mesh_store s r))"
  by (induction ts arbitrary: s; simp)+

lemma updateClippingPlanes_C_frame [simp]:
  "selectedMeshId (updateClippingPlanes_C s) = selectedMeshId s"
  "meshes (updateClippingPlanes_C s) = meshes s"
  "n_meshes (updateClippingPlanes_C s) = n_meshes s"
  "camera_fov (updateClippingPlanes_C s) = camera_fov s"
  "objects_list (updateClippingPlanes_C s) = objects_list s"
  "slice_pos (updateClippingPlanes_C s) = slice_pos s"
  "opacitySlider (updateClippingPlanes_C s) = opacitySlider s"
  "visBtn_show (updateClippingPlanes_C s) = visBtn_show s"
  "enabled (clipping (updateClippingPlanes_C s) b) = enabled (clipping s b)"
  "visible (mesh_store (updateClippingPlanes_C s) r) = visible (mesh_store s r)"
  "userData_visible (mesh_store (updateClippingPlanes_C s) r) = userData_visible (mesh_store s r)"
  "geometry (mesh_store (updateClippingPlanes_C s) r) = geometry (mesh_store s r)"
  "opacity (material (mesh_store (updateClippingPlanes_C s) r)) = opacity (material (mesh_store s r))"
  by (simp_all add: updateClippingPlanes_C_def Let_def)

lemma updateClippingPlanes_frame [simp]:
  "selectedMeshId (updateClippingPlanes v s) = selectedMeshId s"
  "meshes (updateClippingPlanes v s) = meshes s"
  "n_meshes (updateClippingPlanes v s) = n_meshes s"
  "camera_fov (updateClippingPlanes v s) = camera_fov s"
  "objects_list (updateClippingPlanes v s) = objects_list s"
  "slice_pos (updateClippingPlanes v s) = slice_pos s"
  "opacitySlider (updateClippingPlanes v s) = opacitySlider s"
  "visBtn_show (updateClippingPlanes v s) = visBtn_show s"
  "enabled (clipping (updateClippingPlanes v s) b) = enabled (clipping s b)"
  "visible (mesh_store (updateClippingPlanes v s) r) = visible (mesh_store s r)"
  "userData_visible (mesh_store (updateClippingPlanes v s) r) = userData_visible (mesh_store s r)"
  "geometry (mesh_store (updateClippingPlanes v s) r) = geometry (mesh_store s r)"
  "opacity (material (mesh_store (updateClippingPlanes v s) r)) = opacity (material (mesh_store s r))"
  by (simp_all add: updateClippingPlanes_def split: script.split)

lemma select_entry_frame [simp]:
  "selectedMeshId (select_entry i e s) = selectedMeshId s"
  "meshes (select_entry i e s) = meshes s"
  "clipping (select_entry i e s) = clipping s"
  "plane_store (select_entry i e s) = plane_store s"
  "n_planes (select_entry i e s) = n_planes s"
  "n_meshes (select_entry i e s) = n_meshes s"
  "camera_fov (select_entry i e s) = camera_fov s"
  "slice_pos (select_entry i e s) = slice_pos s"
  "opacitySlider (select_entry i e s) = opacitySlider s"
  "visBtn_show (select_entry i e s) = visBtn_show s"
  "material (mesh_store (select_entry i e s) r) = material (mesh_store s r)"
  "userData_visible (mesh_store (select_entry i e s) r) = userData_visible (mesh_store s r)"
  "geometry (mesh_store (select_entry i e s) r) = geometry (mesh_store s r)"
  "name (mesh_store (select_entry i e s) r) = name (mesh_store s r)"
  by (simp_all add: select_entry_def Let_def)

lemma select_entry_visible:
  "visible (mesh_store (select_entry i e s) r) =
     (if r = entry_mesh e then Some (entry_id e = i) else visible (mesh_store s r))"
  by (simp add: select_entry_def Let_def)

lemma fold_select_entry_frame [simp]:
  "selectedMeshId (fold (select_entry i) es s) = selectedMeshId s"
  "meshes (fold (select_entry i) es s) = meshes s"
  "clipping (fold (select_entry i) es s) = clipping s"
  "plane_store (fold (select_entry i) es s) = plane_store s"
  "n_planes (fold (select_entry i) es s) = n_planes s"
  "n_meshes (fold (select_entry i) es s) = n_meshes s"
  "camera_fov (fold (select_entry i) es s) = camera_fov s"
  "slice_pos (fold (select_entry i) es s) = slice_pos s"
  "opacitySlider (fold (select_entry i) es s) = opacitySlider s"
  "visBtn_show (fold (select_entry i) es s) = visBtn_show s"
  "material (mesh_store (fold (select_entry i) es s) r) = material (mesh_store s r)"
  "userData_visible (mesh_store (fold (select_entry i) es s) r) = userData_visible (mesh_store s r)"
  "geometry (mesh_store (fold (select_entry i) es s) r) = geometry (mesh_store s r)"
  "name (mesh_store (fold (select_entry i) es s) r) = name (mesh_store s r)"
  by (induction es arbitrary: s; simp)+

text \<open>The sweep visits the entries in order, so the last entry that holds a mesh decides its flag.\<close>

lemma fold_select_entry_visible:
  "visible (mesh_store (fold (select_entry i) es s) r) =
     (case find (\<lambda>e. entry_mesh e = r) (rev es) of
        None \<Rightarrow> visible (mesh_store s r)
      | Some e \<Rightarrow> Some (entry_id e = i))"
proof (induction es arbitrary: s rule: rev_induct)
  case Nil
  show ?case by simp
next
  case (snoc e es)
  show ?case by (simp add: select_entry_visible snoc.IH)
qed

lemma selectMesh_BC_frame [simp]:
  "selectedMeshId (selectMesh_BC v i s) = Some i"
  "meshes (selectMesh_BC v i s) = meshes s"
  "n_meshes (selectMesh_BC v i s) = n_meshes s"
  "camera_fov (selectMesh_BC v i s) = camera_fov s"
  "slice_pos (selectMesh_BC v i s) = slice_pos s"
  "enabled (clipping (selectMesh_BC v i s) b) = enabled (clipping s b)"
  "userData_visible (mesh_store (selectMesh_BC v i s) r) = userData_visible (mesh_store s r)"
  "geometry (mesh_store (selectMesh_BC v i s) r) = geometry (mesh_store s r)"
  "opacity (material (mesh_store (selectMesh_BC v i s) r)) = opacity (material (mesh_store s r))"
  by (simp_all add: selectMesh_BC_def Let_def split: option.split)

lemma selectMesh_BC_visible:
  "visible (mesh_store (selectMesh_BC v i s) r) =
     (case find (\<lambda>e. entry_mesh e = r) (rev (meshes s)) of
        None \<Rightarrow> visible (mesh_store s r)
      | Some e \<Rightarrow> Some (entry_id e = i))"
  by (simp add: selectMesh_BC_def Let_def fold_select_entry_visible split: option.split)

lemma new_mesh_simps [simp]:
  "fst (new_mesh mo s) = n_meshes s"
  "snd (new_mesh mo s) = s\<lparr>mesh_store := (mesh_store s)(n_meshes s := mo), n_meshes := n_meshes s + 1\<rparr>"
  by (simp_all add: new_mesh_def)

lemma meshes_register_twice:
  "meshes (register_twice v mo now rnd s) =
     meshes s @ [\<lparr>entry_id = make_id now rnd, entry_mesh = n_meshes s,
                   entry_slider = (case v of MainA \<Rightarrow> Some (length (objects_list s)) | _ \<Rightarrow> None)\<rparr>,
                 \<lparr>entry_id = make_id now rnd, entry_mesh = n_meshes s, entry_slider = None\<rparr>]"
  by (simp add: register_twice_def new_mesh_def addMeshToList_def addMeshToList_A_def
      addMeshToList_BC_def Let_def split: script.split)

lemma register_twice_frame [simp]:
  "selectedMeshId (register_twice v mo now rnd s) = selectedMeshId s"
  "clipping (register_twice v mo now rnd s) = clipping s"
  "plane_store (register_twice v mo now rnd s) = plane_store s"
  "n_planes (register_twice v mo now rnd s) = n_planes s"
  "n_meshes (register_twice v mo now rnd s) = n_meshes s + 1"
  "camera_fov (register_twice v mo now rnd s) = camera_fov s"
  "slice_pos (register_twice v mo now rnd s) = slice_pos s"
  "opacitySlider (register_twice v mo now rnd s) = opacitySlider s"
  "visBtn_show (register_twice v mo now rnd s) = visBtn_show s"
  "mesh_store (register_twice v mo now rnd s) = (mesh_store s)(n_meshes s := mo\<lparr>visible := Some False\<rparr>)"
  by (simp_all add: register_twice_def new_mesh_def addMeshToList_def addMeshToList_A_def
      addMeshToList_BC_def Let_def split: script.split)

lemma start_simps [simp]:
  "meshes start = []" "n_meshes start = 0" "selectedMeshId start = None" "objects_list start = []"
  "n_planes start = 3"
  by (simp_all add: start_def init_state_def)

subsection \<open>Selecting\<close>

lemma find_selected_absent:
  "i \<notin> entry_id ` set (meshes s) \<Longrightarrow> selectedMeshId s = Some i \<Longrightarrow> find_selected s = None"
  by (auto simp: find_selected_def find_None_iff)

lemma find_absent:
  "i \<notin> entry_id ` set es \<Longrightarrow> find (\<lambda>m. entry_id m = i) es = None"
  by (auto simp: find_None_iff)

lemma fold_select_entry_store:
  "mesh_store (fold (select_entry i) es s) r =
     (mesh_store s r)\<lparr>visible := visible (mesh_store (fold (select_entry i) es s) r)\<rparr>"
proof (induction es arbitrary: s)
  case Nil
  show ?case by simp
next
  case (Cons e es)
  have "mesh_store (select_entry i e s) r =
          (mesh_store s r)\<lparr>visible := visible (mesh_store (select_entry i e s) r)\<rparr>"
    by (simp add: select_entry_def Let_def)
  then show ?case
    using Cons.IH [of "select_entry i e s"] by simp
qed

lemma find_in_set: "find P xs = Some x \<Longrightarrow> x \<in> set xs \<and> P x"
  by (induction xs) (auto split: if_splits)

lemma find_rev_mesh:
  assumes "e \<in> set es"
  shows "\<exists>e' \<in> set es. find (\<lambda>x. entry_mesh x = entry_mesh e) (rev es) = Some e'"
proof (cases "find (\<lambda>x. entry_mesh x = entry_mesh e) (rev es)")
  case None
  with assms show ?thesis by (auto simp: find_None_iff)
next
  case (Some e')
  then show ?thesis using find_in_set [OF Some] by simp
qed

lemma sweep_absent_hides:
  assumes "i \<notin> entry_id ` set (meshes s)" "e \<in> set (meshes s)"
  shows "visible (mesh_store (fold (select_entry i) (meshes s) s) (entry_mesh e)) = Some False"
proof -
  obtain e' where e': "e' \<in> set (meshes s)"
      "find (\<lambda>x. entry_mesh x = entry_mesh e) (rev (meshes s)) = Some e'"
    using find_rev_mesh [OF assms(2)] by blast
  from e'(1) assms(1) have "entry_id e' \<noteq> i" by auto
  then show ?thesis by (simp add: fold_select_entry_visible e'(2))
qed

subsection \<open>Selecting in the first script\<close>

lemma skeleton_toggle_selected [simp]: "skeleton (toggle_selected i b items) = skeleton items"
  by (induction items) (simp_all add: skeleton_def)

lemma skeleton_set_slider [simp]: "skeleton (set_slider k v items) = skeleton items"
  by (simp add: skeleton_def set_slider_def map_update list_update_same_conv)

lemma skeleton_set_visImg [simp]: "skeleton (set_visImg k b items) = skeleton items"
  by (simp add: skeleton_def set_visImg_def map_update list_update_same_conv)

lemma skeleton_length: "skeleton xs = skeleton ys \<Longrightarrow> length xs = length ys"
  by (auto simp: skeleton_def dest: map_eq_imp_length_eq)

lemma skeleton_nth:
  assumes "skeleton xs = skeleton ys" "k < length ys"
  shows "item_id (xs ! k) = item_id (ys ! k)" "item_mesh (xs ! k) = item_mesh (ys ! k)"
        "(item_ctrl (xs ! k) = None) = (item_ctrl (ys ! k) = None)"
proof -
  have len: "length xs = length ys" using assms(1) by (rule skeleton_length)
  have "skeleton xs ! k = skeleton ys ! k" using assms(1) by simp
  then have "(item_id (xs ! k), item_mesh (xs ! k), item_ctrl (xs ! k) = None)
           = (item_id (ys ! k), item_mesh (ys ! k), item_ctrl (ys ! k) = None)"
    using assms(2) len by (simp add: skeleton_def)
  then show "item_id (xs ! k) = item_id (ys ! k)" "item_mesh (xs ! k) = item_mesh (ys ! k)"
        "(item_ctrl (xs ! k) = None) = (item_ctrl (ys ! k) = None)"
    by simp_all
qed

lemma select_entry_A_frame [simp]:
  "selectedMeshId (select_entry_A i e s) = selectedMeshId s"
  "meshes (select_entry_A i e s) = meshes s"
  "clipping (select_entry_A i e s) = clipping s"
  "plane_store (select_entry_A i e s) = plane_store s"
  "n_planes (select_entry_A i e s) = n_planes s"
  "n_meshes (select_entry_A i e s) = n_meshes s"
  "camera_fov (select_entry_A i e s) = camera_fov s"
  "slice_pos (select_entry_A i e s) = slice_pos s"
  "opacitySlider (select_entry_A i e s) = opacitySlider s"
  "visBtn_show (select_entry_A i e s) = visBtn_show s"
  "material (mesh_store (select_entry_A i e s) r) = material (mesh_store s r)"
  "userData_visible (mesh_store (select_entry_A i e s) r) = userData_visible (mesh_store s r)"
  "geometry (mesh_store (select_entry_A i e s) r) = geometry (mesh_store s r)"
  "name (mesh_store (select_entry_A i e s) r) = name (mesh_store s r)"
  "skeleton (objects_list (select_entry_A i e s)) = skeleton (objects_list s)"
  by (simp_all add: select_entry_A_def Let_def split: option.split)

lemma select_entry_A_visible:
  "visible (mesh_store (select_entry_A i e s) r) =
     (if r = entry_mesh e
      then (if entry_id e = i then userData_visible (mesh_store s r) else Some False)
      else visible (mesh_store s r))"
  by (simp add: select_entry_A_def Let_def split: option.split)

lemma fold_select_entry_A_frame [simp]:
  "selectedMeshId (fold (select_entry_A i) es s) = selectedMeshId s"
  "meshes (fold (select_entry_A i) es s) = meshes s"
  "clipping (fold (select_entry_A i) es s) = clipping s"
  "plane_store (fold (select_entry_A i) es s) = plane_store s"
  "n_planes (fold (select_entry_A i) es s) = n_planes s"
  "n_meshes (fold (select_entry_A i) es s) = n_meshes s"
  "camera_fov (fold (select_entry_A i) es s) = camera_fov s"
  "slice_pos (fold (select_entry_A i) es s) = slice_pos s"
  "opacitySlider (fold (select_entry_A i) es s) = opacitySlider s"
  "visBtn_show (fold (select_entry_A i) es s) = visBtn_show s"
  "material (mesh_store (fold (select_entry_A i) es s) r) = material (mesh_store s r)"
  "userData_visible (mesh_store (fold (select_entry_A i) es s) r) = userData_visible (mesh_store s r)"
  "geometry (mesh_store (fold (select_entry_A i) es s) r) = geometry (mesh_store s r)"
  "name (mesh_store (fold (select_entry_A i) es s) r) = name (mesh_store s r)"
  "skeleton (objects_list (fold (select_entry_A i) es s)) = skeleton (objects_list s)"
  by (induction es arbitrary: s; simp)+

lemma fold_select_entry_A_visible:
  "visible (mesh_store (fold (select_entry_A i) es s) r) =
     (case find (\<lambda>e. entry_mesh e = r) (rev es) of
        None \<Rightarrow> visible (mesh_store s r)
      | Some e \<Rightarrow> if entry_id e = i then userData_visible (mesh_store s r) else Some False)"
proof (induction es arbitrary: s rule: rev_induct)
  case Nil
  show ?case by simp
next
  case (snoc e es)
  show ?case by (simp add: select_entry_A_visible snoc.IH)
qed

lemma selectMesh_A_frame [simp]:
  "selectedMeshId (selectMesh_A i s) = Some i"
  "meshes (selectMesh_A i s) = meshes s"
  "clipping (selectMesh_A i s) = clipping s"
  "plane_store (selectMesh_A i s) = plane_store s"
  "n_planes (selectMesh_A i s) = n_planes s"
  "n_meshes (selectMesh_A i s) = n_meshes s"
  "camera_fov (selectMesh_A i s) = camera_fov s"
  "slice_pos (selectMesh_A i s) = slice_pos s"
  "opacitySlider (selectMesh_A i s) = opacitySlider s"
  "visBtn_show (selectMesh_A i s) = visBtn_show s"
  "userData_visible (mesh_store (selectMesh_A i s) r) = userData_visible (mesh_store s r)"
  "geometry (mesh_store (selectMesh_A i s) r) = geometry (mesh_store s r)"
  "opacity (material (mesh_store (selectMesh_A i s) r)) = opacity (material (mesh_store s r))"
  "skeleton (objects_list (selectMesh_A i s)) = skeleton (objects_list s)"
  by (simp_all add: selectMesh_A_def Let_def)

lemma selectMesh_A_visible:
  "visible (mesh_store (selectMesh_A i s) r) =
     (case find (\<lambda>e. entry_mesh e = r) (rev (meshes s)) of
        None \<Rightarrow> visible (mesh_store s r)
      | Some e \<Rightarrow> if entry_id e = i then userData_visible (mesh_store s r) else Some False)"
  by (simp add: selectMesh_A_def Let_def fold_select_entry_A_visible)

lemma objects_list_register_twice:
  "objects_list (register_twice v mo now rnd s) = objects_list s @
     [\<lparr>item_id = make_id now rnd,
       item_title = (case v of MainA \<Rightarrow> name mo
                     | _ \<Rightarrow> or_else (name mo) (''Object '' @ decimal (length (meshes s) + 1))),
       item_selected = False, item_mesh = n_meshes s,
       item_ctrl = (case v of MainA \<Rightarrow> Some \<lparr>visImg_show = True, slider_value = or_one (opacity (material mo))\<rparr>
                    | _ \<Rightarrow> None)\<rparr>]"
  by (simp add: register_twice_def new_mesh_def addMeshToList_def addMeshToList_A_def
      addMeshToList_BC_def Let_def split: script.split)

subsection \<open>The example states\<close>

lemma make_id_5_7 [simp]: "make_id 5 7 = ''obj-5-7''" "make_id 6 8 = ''obj-6-8''"
  by (simp_all add: make_id_def decimal.simps digit_char_def)

lemma skeleton_simps [simp]:
  "skeleton [] = []"
  "skeleton (xs @ ys) = skeleton xs @ skeleton ys"
  "skeleton [it] = [(item_id it, item_mesh it, item_ctrl it = None)]"
  "length (skeleton xs) = length xs"
  by (simp_all add: skeleton_def)

lemma length_objects_list_register_twice [simp]:
  "length (objects_list (register_twice v mo now rnd s)) = length (objects_list s) + 1"
  by (simp add: objects_list_register_twice)

lemma car_loaded_simps [simp]:
  "meshes (car_loaded v) =
     [\<lparr>entry_id = ''obj-5-7'', entry_mesh = 0, entry_slider = (case v of MainA \<Rightarrow> Some 0 | _ \<Rightarrow> None)\<rparr>,
      \<lparr>entry_id = ''obj-5-7'', entry_mesh = 0, entry_slider = None\<rparr>]"
  "n_meshes (car_loaded v) = 1"
  "selectedMeshId (car_loaded v) = None"
  "skeleton (objects_list (car_loaded v)) = [(''obj-5-7'', 0, v \<noteq> MainA)]"
  "geometry (mesh_store (car_loaded v) 0) = triangle"
  "visible (mesh_store (car_loaded v) 0) = Some False"
  "userData_visible (mesh_store (car_loaded v) 0) = None"
  "opacity (material (mesh_store (car_loaded v) 0)) = 1"
  "length (objects_list (car_loaded v)) = 1"
  by (cases v; simp add: car_loaded_def loadLocalSTL_def Let_def meshes_register_twice
      objects_list_register_twice)+

lemma both_loaded_simps [simp]:
  "meshes (both_loaded v) =
     [\<lparr>entry_id = ''obj-5-7'', entry_mesh = 0, entry_slider = (case v of MainA \<Rightarrow> Some 0 | _ \<Rightarrow> None)\<rparr>,
      \<lparr>entry_id = ''obj-5-7'', entry_mesh = 0, entry_slider = None\<rparr>,
      \<lparr>entry_id = ''obj-6-8'', entry_mesh = 1, entry_slider = (case v of MainA \<Rightarrow> Some 1 | _ \<Rightarrow> None)\<rparr>,
      \<lparr>entry_id = ''obj-6-8'', entry_mesh = 1, entry_slider = None\<rparr>]"
  "n_meshes (both_loaded v) = 2"
  "selectedMeshId (both_loaded v) = None"
  "skeleton (objects_list (both_loaded v)) = [(''obj-5-7'', 0, v \<noteq> MainA), (''obj-6-8'', 1, v \<noteq> MainA)]"
  "geometry (mesh_store (both_loaded v) 0) = triangle"
  "visible (mesh_store (both_loaded v) 0) = Some False"
  "visible (mesh_store (both_loaded v) (Suc 0)) = Some False"
  "userData_visible (mesh_store (both_loaded v) 0) = None"
  "userData_visible (mesh_store (both_loaded v) (Suc 0)) = None"
  "opacity (material (mesh_store (both_loaded v) 0)) = 1"
  "opacity (material (mesh_store (both_loaded v) (Suc 0))) = 1"
  "length (objects_list (both_loaded v)) = 2"
  by (cases v; simp add: both_loaded_def loadLocalSTL_def Let_def meshes_register_twice
      objects_list_register_twice)+

lemma car_selected_simps [simp]:
  "meshes (car_selected v) = meshes (both_loaded v)"
  "selectedMeshId (car_selected v) = Some ''obj-5-7''"
  "find_selected (car_selected v) =
     Some \<lparr>entry_id = ''obj-5-7'', entry_mesh = 0, entry_slider = (case v of MainA \<Rightarrow> Some 0 | _ \<Rightarrow> None)\<rparr>"
  "userData_visible (mesh_store (car_selected v) r) = userData_visible (mesh_store (both_loaded v) r)"
  "opacity (material (mesh_store (car_selected v) r)) = opacity (material (mesh_store (both_loaded v) r))"
  "visible (mesh_store (car_selected v) (Suc 0)) = Some False"
  "v \<noteq> MainA \<Longrightarrow> visible (mesh_store (car_selected v) 0) = Some True"
  "visible (mesh_store (car_selected MainA) 0) = None"
  by (simp_all add: car_selected_def selectMesh_def find_selected_def selectMesh_A_visible
      selectMesh_BC_visible split: script.split)

lemma select_entry_skeleton [simp]:
  "skeleton (objects_list (select_entry i e s)) = skeleton (objects_list s)"
  by (simp add: select_entry_def Let_def)

lemma fold_select_entry_skeleton [simp]:
  "skeleton (objects_list (fold (select_entry i) es s)) = skeleton (objects_list s)"
  by (induction es arbitrary: s) simp_all

lemma selectMesh_BC_skeleton [simp]:
  "skeleton (objects_list (selectMesh_BC v i s)) = skeleton (objects_list s)"
  by (simp add: selectMesh_BC_def Let_def split: option.split)

lemma selectMesh_skeleton [simp]:
  "skeleton (objects_list (selectMesh v i s)) = skeleton (objects_list s)"
  by (simp add: selectMesh_def split: script.split)

lemma skeleton_nth_eq:
  "k < length xs \<Longrightarrow> skeleton xs ! k = (item_id (xs ! k), item_mesh (xs ! k), item_ctrl (xs ! k) = None)"
  by (simp add: skeleton_def)

lemma car_selected_items [simp]:
  "length (objects_list (car_selected v)) = 2"
  "item_id (objects_list (car_selected v) ! 0) = ''obj-5-7''"
  "item_mesh (objects_list (car_selected v) ! 0) = 0"
  "(item_ctrl (objects_list (car_selected v) ! 0) = None) = (v \<noteq> MainA)"
  "item_id (objects_list (car_selected v) ! Suc 0) = ''obj-6-8''"
  "item_mesh (objects_list (car_selected v) ! Suc 0) = 1"
  "(item_ctrl (objects_list (car_selected v) ! Suc 0) = None) = (v \<noteq> MainA)"
proof -
  have sk: "skeleton (objects_list (car_selected v)) = [(''obj-5-7'', 0, v \<noteq> MainA), (''obj-6-8'', 1, v \<noteq> MainA)]"
    by (simp add: car_selected_def)
  have len: "length (objects_list (car_selected v)) = 2"
    using arg_cong [OF sk, of length] by simp
  have n0: "skeleton (objects_list (car_selected v)) ! 0 = (''obj-5-7'', 0, v \<noteq> MainA)"
   and n1: "skeleton (objects_list (car_selected v)) ! 1 = (''obj-6-8'', 1, v \<noteq> MainA)"
    by (simp_all add: sk)
  show "length (objects_list (car_selected v)) = 2" by (rule len)
  show "item_id (objects_list (car_selected v) ! 0) = ''obj-5-7''"
       "item_mesh (objects_list (car_selected v) ! 0) = 0"
       "(item_ctrl (objects_list (car_selected v) ! 0) = None) = (v \<noteq> MainA)"
    using n0 len by (simp_all add: skeleton_nth_eq)
  show "item_id (objects_list (car_selected v) ! Suc 0) = ''obj-6-8''"
       "item_mesh (objects_list (car_selected v) ! Suc 0) = 1"
       "(item_ctrl (objects_list (car_selected v) ! Suc 0) = None) = (v \<noteq> MainA)"
    using n1 len by (simp_all add: skeleton_nth_eq)
qed

subsection \<open>The planes a recomputation applies\<close>

lemma getActiveClippingPlanes_eq:
  "getActiveClippingPlanes s = map (\<lambda>a. plane_ref (clipping s a)) (enabled_axes s)"
  by (simp add: getActiveClippingPlanes_def enabled_axes_def Let_def)

lemma applied_planes_A:
  assumes "find_selected s = Some obj"
  shows "applied_planes (updateClippingPlanes_A s) (entry_mesh obj) = map (configured s) (enabled_axes s)"
  using assms
  by (simp add: applied_planes_def updateClippingPlanes_A_def Let_def getActiveClippingPlanes_eq
      configured_def comp_def)

lemma applied_planes_B:
  assumes "find_selected s = Some obj" "planes_allocated s"
  shows "applied_planes (updateClippingPlanes_B s) (entry_mesh obj) =
           map (\<lambda>a. Plane (axis_normal a)
                  (plane_constant (configured s a)
                     - coord a (getCenter (setFromObject (mesh_store s (entry_mesh obj))))))
               (enabled_axes s)"
  using assms
  by (simp add: applied_planes_def updateClippingPlanes_B_def Let_def push_shifted_def new_plane_def
      set_clippingPlanes_def enabled_axes_def configured_def split_beta planes_allocated_def)

lemma applied_planes_C:
  "applied_planes (clip_target t s) (entry_mesh t) =
           map (\<lambda>a. Plane (axis_normal a) (range_value (slice_pos s a))) (enabled_axes s)"
  by (simp add: applied_planes_def clip_target_def Let_def push_through_def new_plane_def
      set_clippingPlanes_def enabled_axes_def split_beta setFromNormalAndCoplanarPoint_def
      coplanar_point_def dot_def axis_normal_def)

lemma find_selected_cong:
  "meshes s' = meshes s \<Longrightarrow> selectedMeshId s' = selectedMeshId s \<Longrightarrow> find_selected s' = find_selected s"
  by (simp add: find_selected_def)

lemma mesh_center_cong:
  "geometry (mesh_store s' m) = geometry (mesh_store s m) \<Longrightarrow> mesh_center s' m = mesh_center s m"
  by (simp add: mesh_center_def setFromObject_def)

lemma push_shifted_planes:
  "n_planes (snd acc) \<le> n_planes (snd (push_shifted a c acc))"
  "r < n_planes (snd acc) \<Longrightarrow> plane_store (snd (push_shifted a c acc)) r = plane_store (snd acc) r"
  by (simp_all add: push_shifted_def new_plane_def split_beta)

lemma updateClippingPlanes_B_planes:
  "n_planes s \<le> n_planes (updateClippingPlanes_B s)"
  "r < n_planes s \<Longrightarrow> plane_store (updateClippingPlanes_B s) r = plane_store s r"
  by (simp_all add: updateClippingPlanes_B_def push_shifted_def new_plane_def split_beta Let_def
      split: option.split)

lemma planes_allocated_B:
  "planes_allocated s \<Longrightarrow> planes_allocated (updateClippingPlanes_B s)"
  using updateClippingPlanes_B_planes(1) [of s]
  by (simp add: planes_allocated_def)

lemma configured_B:
  "planes_allocated s \<Longrightarrow> configured (updateClippingPlanes_B s) a = configured s a"
  by (cases a) (simp_all add: configured_def planes_allocated_def updateClippingPlanes_B_planes(2))

lemma enabled_axes_cong:
  "(\<And>a. enabled (clipping s' a) = enabled (clipping s a)) \<Longrightarrow> enabled_axes s' = enabled_axes s"
  by (simp add: enabled_axes_def)

lemma only_x_A:
  assumes sel: "find_selected s = Some obj"
      and off: "\<not> enabled (clipping s AxisY)" "\<not> enabled (clipping s AxisZ)"
  shows "map plane_constant
           (applied_planes (slice_checkbox MainA AxisX True (slice_range MainA AxisX c s)) (entry_mesh obj)) = [c]"
    and "applied_planes (slice_checkbox MainA AxisX False
           (slice_checkbox MainA AxisX True (slice_range MainA AxisX c s))) (entry_mesh obj) = []"
proof -
  define s1 where "s1 = slice_range MainA AxisX c s"
  have s1: "meshes s1 = meshes s" "selectedMeshId s1 = selectedMeshId s" "clipping s1 = clipping s"
      "plane_constant (plane_store s1 (plane_ref (clipping s AxisX))) = c"
    by (simp_all add: s1_def slice_range_def updateClippingPlanes_def Let_def)
  define t where "t = s1\<lparr>clipping := (clipping s1)(AxisX := (clipping s1 AxisX)\<lparr>enabled := True\<rparr>)\<rparr>"
  have t: "find_selected t = Some obj" "enabled_axes t = [AxisX]"
      "plane_constant (configured t AxisX) = c"
    using sel off s1 by (simp_all add: t_def find_selected_def enabled_axes_def configured_def)
  have s2: "slice_checkbox MainA AxisX True s1 = updateClippingPlanes_A t"
    by (simp add: slice_checkbox_def updateClippingPlanes_def t_def)
  show "map plane_constant
           (applied_planes (slice_checkbox MainA AxisX True (slice_range MainA AxisX c s)) (entry_mesh obj)) = [c]"
    unfolding s1_def [symmetric] s2 by (simp add: applied_planes_A [OF t(1)] t)
  define u where "u = (updateClippingPlanes_A t)\<lparr>clipping :=
      (clipping (updateClippingPlanes_A t))(AxisX := (clipping (updateClippingPlanes_A t) AxisX)\<lparr>enabled := False\<rparr>)\<rparr>"
  have u: "find_selected u = Some obj" "enabled_axes u = []"
    using t(1) off s1 by (simp_all add: u_def find_selected_def enabled_axes_def t_def)
  have s3: "slice_checkbox MainA AxisX False (updateClippingPlanes_A t) = updateClippingPlanes_A u"
    by (simp add: slice_checkbox_def updateClippingPlanes_def u_def)
  show "applied_planes (slice_checkbox MainA AxisX False
           (slice_checkbox MainA AxisX True (slice_range MainA AxisX c s))) (entry_mesh obj) = []"
    unfolding s1_def [symmetric] s2 s3 by (simp add: applied_planes_A [OF u(1)] u)
qed

lemma only_x_B:
  assumes sel: "find_selected s = Some obj" and alloc: "planes_allocated s"
      and off: "\<not> enabled (clipping s AxisY)" "\<not> enabled (clipping s AxisZ)"
  shows "applied_planes (slice_checkbox MainB AxisX True (slice_range MainB AxisX c s)) (entry_mesh obj)
           = [Plane (Vector3 (- 1) 0 0) (c - vx (mesh_center s (entry_mesh obj)))]"
    and "applied_planes (slice_checkbox MainB AxisX False
           (slice_checkbox MainB AxisX True (slice_range MainB AxisX c s))) (entry_mesh obj) = []"
    and "enabled_axes (slice_checkbox MainB AxisX True (slice_range MainB AxisX c s)) = [AxisX]"
    and "plane_constant (configured
           (slice_checkbox MainB AxisX True (slice_range MainB AxisX c s)) AxisX) = c"
proof -
  define s0 where "s0 = s\<lparr>slice_pos := (slice_pos s)(AxisX := (slice_pos s AxisX)\<lparr>range_value := c\<rparr>),
      plane_store := (plane_store s)(plane_ref (clipping s AxisX) :=
         Plane (normal (plane_store s (plane_ref (clipping s AxisX)))) c)\<rparr>"
  have s0: "planes_allocated s0" "plane_constant (configured s0 AxisX) = c" "clipping s0 = clipping s"
      "meshes s0 = meshes s" "selectedMeshId s0 = selectedMeshId s" "mesh_store s0 = mesh_store s"
    using alloc by (simp_all add: s0_def planes_allocated_def configured_def)
  define s1 where "s1 = updateClippingPlanes_B s0"
  have r1: "slice_range MainB AxisX c s = s1"
    by (simp add: slice_range_def updateClippingPlanes_def Let_def s1_def s0_def)
  have s1: "planes_allocated s1" "plane_constant (configured s1 AxisX) = c" "clipping s1 = clipping s"
      "meshes s1 = meshes s" "selectedMeshId s1 = selectedMeshId s"
      "geometry (mesh_store s1 (entry_mesh obj)) = geometry (mesh_store s (entry_mesh obj))"
    using s0 by (simp_all add: s1_def planes_allocated_B configured_B)
  define t where "t = s1\<lparr>clipping := (clipping s1)(AxisX := (clipping s1 AxisX)\<lparr>enabled := True\<rparr>)\<rparr>"
  have t: "find_selected t = Some obj" "enabled_axes t = [AxisX]" "planes_allocated t"
      "plane_constant (configured t AxisX) = c"
      "mesh_center t (entry_mesh obj) = mesh_center s (entry_mesh obj)"
    using sel off s1 by (simp_all add: t_def find_selected_def enabled_axes_def configured_def
        planes_allocated_def mesh_center_def setFromObject_def)
  have s2: "slice_checkbox MainB AxisX True s1 = updateClippingPlanes_B t"
    by (simp add: slice_checkbox_def updateClippingPlanes_def t_def)
  show "applied_planes (slice_checkbox MainB AxisX True (slice_range MainB AxisX c s)) (entry_mesh obj)
           = [Plane (Vector3 (- 1) 0 0) (c - vx (mesh_center s (entry_mesh obj)))]"
    unfolding r1 s2 using t(4,5)
    by (simp add: applied_planes_B [OF t(1) t(3)] t(2) axis_normal_def coord_def mesh_center_def)
  define u where "u = (updateClippingPlanes_B t)\<lparr>clipping :=
      (clipping (updateClippingPlanes_B t))(AxisX := (clipping (updateClippingPlanes_B t) AxisX)\<lparr>enabled := False\<rparr>)\<rparr>"
  have u: "find_selected u = Some obj" "enabled_axes u = []" "planes_allocated u"
    using t(1) off s1 planes_allocated_B [OF t(3)]
    by (simp_all add: u_def find_selected_def enabled_axes_def t_def planes_allocated_def)
  have s3: "slice_checkbox MainB AxisX False (updateClippingPlanes_B t) = updateClippingPlanes_B u"
    by (simp add: slice_checkbox_def updateClippingPlanes_def u_def)
  show "applied_planes (slice_checkbox MainB AxisX False
           (slice_checkbox MainB AxisX True (slice_range MainB AxisX c s))) (entry_mesh obj) = []"
    unfolding r1 s2 s3 by (simp add: applied_planes_B [OF u(1) u(3)] u(2))
  show "enabled_axes (slice_checkbox MainB AxisX True (slice_range MainB AxisX c s)) = [AxisX]"
    unfolding r1 s2 using t(2) by (simp add: enabled_axes_def)
  show "plane_constant (configured
           (slice_checkbox MainB AxisX True (slice_range MainB AxisX c s)) AxisX) = c"
    unfolding r1 s2 by (simp add: configured_B [OF t(3)] t(4))
qed

lemma selectMesh_MainB_planes:
  "clipping (selectMesh_BC MainB i s) = clipping s"
  "n_planes s \<le> n_planes (selectMesh_BC MainB i s)"
  using updateClippingPlanes_B_planes(1) [of "(fold (select_entry i) (meshes s) s)\<lparr>selectedMeshId := Some i\<rparr>"]
  by (simp_all add: selectMesh_BC_def Let_def updateClippingPlanes_def split: option.split)

lemma start_clipping [simp]:
  "clipping start a = \<lparr>enabled = False, plane_ref = axis_index a\<rparr>"
  by (simp add: start_def init_state_def)

lemma both_loaded_clipping [simp]:
  "clipping (both_loaded v) = clipping start" "n_planes (both_loaded v) = 3"
  by (simp_all add: both_loaded_def car_loaded_def loadLocalSTL_def Let_def)

lemma car_selected_clipping [simp]:
  "v \<noteq> Part0 \<Longrightarrow> clipping (car_selected v) = clipping start"
  "v \<noteq> Part0 \<Longrightarrow> planes_allocated (car_selected v)"
proof -
  assume v: "v \<noteq> Part0"
  show c: "clipping (car_selected v) = clipping start"
    using v by (cases v) (simp_all add: car_selected_def selectMesh_MainB_planes selectMesh_def)
  have "3 \<le> n_planes (car_selected v)"
    using v selectMesh_MainB_planes(2) [of "both_loaded MainB" "''obj-5-7''"]
    by (cases v) (simp_all add: car_selected_def selectMesh_def)
  then show "planes_allocated (car_selected v)"
    by (simp add: planes_allocated_def c axis_index_def)
qed

lemma car_selected_center [simp]:
  "mesh_center (car_selected v) 0 = Vector3 2 1 1"
proof -
  have "geometry (mesh_store (car_selected v) 0) = triangle"
    by (cases v) (simp_all add: car_selected_def selectMesh_def)
  then show ?thesis
    by (simp add: mesh_center_def setFromObject_def triangle_def expandByPoint_def vmin_def vmax_def
        getCenter_def)
qed

subsection \<open>The clipping configuration stays well formed\<close>

lemmas clip_ok_defs = clip_ok_def planes_allocated_def normals_fixed_def configured_def

lemma clip_ok_cong:
  "clipping s' = clipping s \<Longrightarrow> plane_store s' = plane_store s \<Longrightarrow> n_planes s' = n_planes s
     \<Longrightarrow> clip_ok s' = clip_ok s"
  by (simp add: clip_ok_defs)

lemma clip_ok_enabled:
  "clip_ok (s\<lparr>clipping := (clipping s)(a := (clipping s a)\<lparr>enabled := b\<rparr>)\<rparr>) = clip_ok s"
  by (cases a) (simp_all add: clip_ok_defs)

lemma clip_ok_new_plane:
  "clip_ok s \<Longrightarrow> clip_ok (snd (new_plane p s))"
  by (simp add: clip_ok_defs new_plane_def)

lemma clip_ok_push_shifted:
  "clip_ok (snd acc) \<Longrightarrow> clip_ok (snd (push_shifted a c acc))"
  by (simp add: push_shifted_def split_beta clip_ok_new_plane)

lemma clip_ok_repoint:
  "clip_ok s \<Longrightarrow> clip_ok (snd (new_plane (Plane (axis_normal a) k) s)
      \<lparr>clipping := (clipping s)(a := (clipping s a)\<lparr>plane_ref := n_planes s\<rparr>)\<rparr>)"
  by (cases a) (simp_all add: clip_ok_defs new_plane_def axis_normal_def)

lemma clip_ok_push_through:
  "clip_ok (snd acc) \<Longrightarrow> clip_ok (snd (push_through a c acc))"
  using clip_ok_repoint [of "snd acc" a]
  by (simp add: push_through_def split_beta Let_def setFromNormalAndCoplanarPoint_def)

lemma clip_ok_set_clippingPlanes [simp]:
  "clip_ok (set_clippingPlanes m ps s) = clip_ok s"
  by (rule clip_ok_cong) simp_all

lemma clip_ok_updateClippingPlanes_A:
  "clip_ok s \<Longrightarrow> clip_ok (updateClippingPlanes_A s)"
  using clip_ok_cong [of "updateClippingPlanes_A s" s] by simp

lemma clip_ok_updateClippingPlanes_B:
  "clip_ok s \<Longrightarrow> clip_ok (updateClippingPlanes_B s)"
  by (simp add: updateClippingPlanes_B_def Let_def split_beta clip_ok_push_shifted split: option.split)

lemma clip_ok_clip_target:
  "clip_ok s \<Longrightarrow> clip_ok (clip_target t s)"
  by (simp add: clip_target_def Let_def split_beta clip_ok_push_through)

lemma clip_ok_fold_clip_target:
  "clip_ok s \<Longrightarrow> clip_ok (fold clip_target ts s)"
  by (induction ts arbitrary: s) (simp_all add: clip_ok_clip_target)

lemma clip_ok_updateClippingPlanes_C:
  "clip_ok s \<Longrightarrow> clip_ok (updateClippingPlanes_C s)"
  by (simp add: updateClippingPlanes_C_def Let_def clip_ok_fold_clip_target)

lemma clip_ok_updateClippingPlanes:
  "clip_ok s \<Longrightarrow> clip_ok (updateClippingPlanes v s)"
  by (cases v)
     (simp_all add: updateClippingPlanes_def clip_ok_updateClippingPlanes_A
        clip_ok_updateClippingPlanes_B clip_ok_updateClippingPlanes_C)

lemma clip_ok_slice_checkbox:
  "clip_ok s \<Longrightarrow> clip_ok (slice_checkbox v a b s)"
  by (simp add: slice_checkbox_def clip_ok_updateClippingPlanes clip_ok_enabled)

lemma clip_ok_set_constant:
  "clip_ok s \<Longrightarrow> clip_ok (s\<lparr>slice_pos := sp,
      plane_store := (plane_store s)(r := Plane (normal (plane_store s r)) val)\<rparr>)"
  by (auto simp: clip_ok_defs)

lemma clip_ok_slice_range:
  "clip_ok s \<Longrightarrow> clip_ok (slice_range v a val s)"
  by (simp add: slice_range_def Let_def clip_ok_updateClippingPlanes clip_ok_set_constant)

lemma clip_ok_selectMesh_A:
  assumes "clip_ok s" shows "clip_ok (selectMesh_A i s)"
proof -
  have "clip_ok (fold (select_entry_A i) (meshes s) s\<lparr>selectedMeshId := Some i\<rparr>) = clip_ok s"
    by (rule clip_ok_cong) simp_all
  with assms show ?thesis
    by (simp add: selectMesh_A_def Let_def clip_ok_updateClippingPlanes_A)
qed

lemma clip_ok_selectMesh_BC:
  assumes "clip_ok s" shows "clip_ok (selectMesh_BC v i s)"
proof -
  let ?s2 = "fold (select_entry i) (meshes s) s\<lparr>selectedMeshId := Some i\<rparr>"
  have "clip_ok ?s2 = clip_ok s"
    by (rule clip_ok_cong) simp_all
  with assms have s3: "clip_ok (updateClippingPlanes v ?s2)"
    by (simp add: clip_ok_updateClippingPlanes)
  have "clip_ok (updateClippingPlanes v ?s2\<lparr>visBtn_show := b, opacitySlider := x\<rparr>)
          = clip_ok (updateClippingPlanes v ?s2)" for b x
    by (rule clip_ok_cong) simp_all
  with s3 show ?thesis
    by (simp add: selectMesh_BC_def Let_def split: option.split)
qed

lemma clip_ok_selectMesh:
  "clip_ok s \<Longrightarrow> clip_ok (selectMesh v i s)"
  by (cases v) (simp_all add: selectMesh_def clip_ok_selectMesh_A clip_ok_selectMesh_BC)

lemma clip_ok_register_twice:
  "clip_ok s \<Longrightarrow> clip_ok (register_twice v mo now rnd s)"
  using clip_ok_cong [of "register_twice v mo now rnd s" s] by simp

lemma clip_ok_loadLocalSTL:
  "clip_ok s \<Longrightarrow> clip_ok (loadLocalSTL v path nm geom now rnd s)"
  by (simp add: loadLocalSTL_def Let_def clip_ok_register_twice)

lemma clip_ok_reset_axis:
  assumes "clip_ok s" shows "clip_ok (reset_axis b a s)"
proof -
  have "clip_ok (set_range a b s) = clip_ok s"
    by (rule clip_ok_cong) (simp_all add: set_range_def split: option.split)
  with assms have "clip_ok (set_range a b s)" by simp
  from clip_ok_repoint [OF this, of a 0] show ?thesis
    by (simp add: reset_axis_def split_beta)
qed

lemma clip_ok_fit:
  "clip_ok s \<Longrightarrow> clip_ok (fit v s)"
  using clip_ok_cong [of "fit v s" s] by simp

lemma clip_ok_handleFileUpload_C:
  assumes "clip_ok s" shows "clip_ok (handleFileUpload_C upl now rnd s)"
proof (cases upl)
  case None
  with assms show ?thesis by (simp add: handleFileUpload_C_def)
next
  case (Some fg)
  obtain fname geom where fg: "fg = (fname, geom)" by (cases fg)
  define mo where "mo = \<lparr>name = or_else (replace_first ''.stl'' [] fname)
                              (''Object '' @ decimal (length (meshes s) + 1)),
                    geometry = geom,
                    material = \<lparr>color = 13160406, shininess = 60, transparent = True, opacity = 1.0,
                     side = DoubleSide, clippingPlanes = None, needsUpdate = False\<rparr>,
                    visible = Some True, userData_visible = None\<rparr>"
  define s2 where "s2 = snd (addMeshToList_BC (n_meshes s) now rnd (snd (new_mesh mo s)))"
  have "clip_ok s2 = clip_ok s"
    by (rule clip_ok_cong) (simp_all add: s2_def addMeshToList_BC_def Let_def)
  with assms have "clip_ok s2" by simp
  then have s3: "clip_ok (selectMesh_BC Part0 (make_id now rnd) s2)"
    by (rule clip_ok_selectMesh_BC)
  define s3 where "s3 = selectMesh_BC Part0 (make_id now rnd) s2"
  define bb where "bb = setFromObject (mesh_store s3 (n_meshes s))"
  have s4: "clip_ok (fold (reset_axis bb) [AxisX, AxisY, AxisZ] s3)"
    using s3 by (simp add: clip_ok_reset_axis s3_def)
  have "clip_ok (cameraPosition 1.4 (fold (reset_axis bb) [AxisX, AxisY, AxisZ] s3))
      = clip_ok (fold (reset_axis bb) [AxisX, AxisY, AxisZ] s3)"
    by (rule clip_ok_cong) (simp_all add: cameraPosition_def)
  with s4 have "clip_ok (cameraPosition 1.4 (fold (reset_axis bb) [AxisX, AxisY, AxisZ] s3))"
    by simp
  moreover have "handleFileUpload_C upl now rnd s
      = cameraPosition 1.4 (fold (reset_axis bb) [AxisX, AxisY, AxisZ] s3)"
    by (simp add: handleFileUpload_C_def Some fg Let_def split_beta s3_def s2_def bb_def mo_def
        addMeshToList_BC_def)
  ultimately show ?thesis by simp
qed

lemma clip_ok_handleFileUpload:
  "clip_ok s \<Longrightarrow> clip_ok (handleFileUpload v upl now rnd s)"
  by (cases v; cases upl)
     (simp_all add: handleFileUpload_def handleFileUpload_AB_def clip_ok_handleFileUpload_C
        clip_ok_register_twice Let_def split_beta)

lemma clip_ok_item_listeners:
  "clip_ok (item_visBtn_click k s) = clip_ok s"
  "clip_ok (item_opacityBtn_click k val s) = clip_ok s"
  "clip_ok (item_slider_input k val s) = clip_ok s"
  "clip_ok (visBtn_click s) = clip_ok s"
  "clip_ok (set_opacity_static v val s) = clip_ok s"
  "clip_ok (resetView v s) = clip_ok s"
  by (rule clip_ok_cong;
      simp add: item_visBtn_click_def item_opacityBtn_click_def item_slider_input_def
        visBtn_click_def set_opacity_static_def setOpacityForSelected_def dynamicSelectedOpacity_def
        set_opacity_def Let_def split: option.split script.split)+

lemma clip_ok_item_click:
  "clip_ok s \<Longrightarrow> clip_ok (item_click v k s)"
  by (simp add: item_click_def clip_ok_selectMesh)

lemma clip_ok_step:
  "clip_ok s \<Longrightarrow> clip_ok (step v ev s)"
  by (cases ev)
     (simp_all add: clip_ok_handleFileUpload clip_ok_loadLocalSTL clip_ok_selectMesh
        clip_ok_updateClippingPlanes clip_ok_slice_checkbox clip_ok_slice_range
        clip_ok_item_listeners clip_ok_item_click split: script.split)

lemma clip_ok_run:
  "clip_ok s \<Longrightarrow> clip_ok (run v evs s)"
  unfolding run_def by (induction evs arbitrary: s) (simp_all add: clip_ok_step)

lemma clip_ok_init: "clip_ok (init_state sliders op_value icon)"
  by (simp add: clip_ok_defs init_state_def axis_index_def)

lemma selectMesh_frame [simp]:
  "selectedMeshId (selectMesh v i s) = Some i"
  "meshes (selectMesh v i s) = meshes s"
  "n_meshes (selectMesh v i s) = n_meshes s"
  "camera_fov (selectMesh v i s) = camera_fov s"
  by (cases v; simp add: selectMesh_def)+

lemma slice_checkbox_frame [simp]:
  "selectedMeshId (slice_checkbox v a b s) = selectedMeshId s"
  "meshes (slice_checkbox v a b s) = meshes s"
  "n_meshes (slice_checkbox v a b s) = n_meshes s"
  "camera_fov (slice_checkbox v a b s) = camera_fov s"
  "objects_list (slice_checkbox v a b s) = objects_list s"
  "enabled (clipping (slice_checkbox v a b s) c) = (if c = a then b else enabled (clipping s c))"
  "visible (mesh_store (slice_checkbox v a b s) r) = visible (mesh_store s r)"
  "userData_visible (mesh_store (slice_checkbox v a b s) r) = userData_visible (mesh_store s r)"
  "geometry (mesh_store (slice_checkbox v a b s) r) = geometry (mesh_store s r)"
  "opacity (material (mesh_store (slice_checkbox v a b s) r)) = opacity (material (mesh_store s r))"
  by (simp_all add: slice_checkbox_def)

lemma slice_range_frame [simp]:
  "selectedMeshId (slice_range v a val s) = selectedMeshId s"
  "meshes (slice_range v a val s) = meshes s"
  "n_meshes (slice_range v a val s) = n_meshes s"
  "camera_fov (slice_range v a val s) = camera_fov s"
  "objects_list (slice_range v a val s) = objects_list s"
  "enabled (clipping (slice_range v a val s) c) = enabled (clipping s c)"
  "visible (mesh_store (slice_range v a val s) r) = visible (mesh_store s r)"
  "userData_visible (mesh_store (slice_range v a val s) r) = userData_visible (mesh_store s r)"
  "geometry (mesh_store (slice_range v a val s) r) = geometry (mesh_store s r)"
  "opacity (material (mesh_store (slice_range v a val s) r)) = opacity (material (mesh_store s r))"
  by (simp_all add: slice_range_def Let_def)

lemma clip_ok_start: "clip_ok start"
  by (simp add: start_def clip_ok_init)

lemma clip_ok_examples [simp]:
  "clip_ok (car_loaded v)" "clip_ok (both_loaded v)" "clip_ok (car_selected v)" "clip_ok (x_sliced v)"
  by (simp_all add: car_loaded_def both_loaded_def car_selected_def x_sliced_def clip_ok_start
      clip_ok_loadLocalSTL clip_ok_selectMesh clip_ok_slice_range clip_ok_slice_checkbox)

lemma x_sliced_simps [simp]:
  "find_selected (x_sliced v) = find_selected (car_selected v)"
  "planes_allocated (x_sliced v)"
  "enabled (clipping (x_sliced v) AxisX)"
  "mesh_center (x_sliced v) 0 = Vector3 2 1 1"
proof -
  show "find_selected (x_sliced v) = find_selected (car_selected v)"
    by (rule find_selected_cong) (simp_all add: x_sliced_def)
  show "planes_allocated (x_sliced v)"
    using clip_ok_examples(4) [of v] by (simp add: clip_ok_def)
  show "enabled (clipping (x_sliced v) AxisX)"
    by (simp add: x_sliced_def)
  have "mesh_center (x_sliced v) 0 = mesh_center (car_selected v) 0"
    by (rule mesh_center_cong) (simp add: x_sliced_def)
  then show "mesh_center (x_sliced v) 0 = Vector3 2 1 1" by simp
qed

subsection \<open>The box of the registry\<close>

lemma minimal_box_Nil [simp]: "minimal_box [] = None"
  by (simp add: minimal_box_def)

lemma union_box_None [simp]: "union_box None c = c" "union_box b None = b"
  by (simp_all add: union_box_def split: option.split)

lemma union_minimal_box:
  "union_box (minimal_box us) (minimal_box vs) = minimal_box (us @ vs)"
proof (cases "us = [] \<or> vs = []")
  case True
  then show ?thesis by auto
next
  case False
  then have ne: "us \<noteq> []" "vs \<noteq> []" by simp_all
  have fin: "finite (f ` set us)" "finite (f ` set vs)" "f ` set us \<noteq> {}" "f ` set vs \<noteq> {}"
    for f :: "vec3 \<Rightarrow> real"
    using ne by simp_all
  show ?thesis
    using ne by (simp add: minimal_box_def union_box_def vmin_def vmax_def image_Un Min_Un Max_Un fin)
qed

lemma expandByPoint_eq_union: "expandByPoint b p = union_box b (minimal_box [p])"
  by (simp add: expandByPoint_def union_box_def minimal_box_def split: option.split)

lemma foldl_expandByPoint:
  "foldl expandByPoint (minimal_box us) vs = minimal_box (us @ vs)"
proof (induction vs arbitrary: us)
  case Nil
  show ?case by simp
next
  case (Cons p vs)
  show ?case
    using Cons.IH [of "us @ [p]"] by (simp add: expandByPoint_eq_union union_minimal_box)
qed

lemma setFromObject_minimal: "setFromObject m = minimal_box (geometry m)"
  using foldl_expandByPoint [of "[]" "geometry m"] by (simp add: setFromObject_def)

lemma foldl_union_minimal:
  "foldl (\<lambda>b e. union_box b (setFromObject (mesh_store s (entry_mesh e)))) (minimal_box us) es
     = minimal_box (us @ concat (map (\<lambda>e. geometry (mesh_store s (entry_mesh e))) es))"
proof (induction es arbitrary: us)
  case Nil
  show ?case by simp
next
  case (Cons e es)
  show ?case
    using Cons.IH [of "us @ geometry (mesh_store s (entry_mesh e))"]
    by (simp add: setFromObject_minimal union_minimal_box)
qed

lemma union_of_registry:
  "foldl (\<lambda>b e. union_box b (setFromObject (mesh_store s (entry_mesh e)))) None (meshes s)
     = minimal_box (registered_vertices s)"
  using foldl_union_minimal [of s "[]" "meshes s"] by (simp add: registered_vertices_def)

lemma max_dimension_nonneg: "0 \<le> max_dimension (minimal_box vs)"
proof (cases "vs = []")
  case True
  then show ?thesis by (simp add: max_dimension_def getSize_def)
next
  case False
  then obtain p where p: "p \<in> set vs" by (cases vs) auto
  have "Min (vx ` set vs) \<le> vx p" "vx p \<le> Max (vx ` set vs)"
    using p by simp_all
  then have "0 \<le> Max (vx ` set vs) - Min (vx ` set vs)" by linarith
  with False show ?thesis
    by (simp add: max_dimension_def getSize_def minimal_box_def le_max_iff_disj)
qed

lemma tan_half_fov_pos:
  assumes "0 < fov" "fov < 180"
  shows "0 < tan (fov * (pi / 180) / 2)"
proof (rule tan_gt_zero)
  show "0 < fov * (pi / 180) / 2" using assms(1) by simp
  have "fov * (pi / 180) / 2 < 180 * (pi / 180) / 2"
    using assms(2) by (simp add: field_simps)
  then show "fov * (pi / 180) / 2 < pi / 2" by simp
qed

lemma both_loaded_camera [simp]:
  "camera_fov (both_loaded v) = 60"
  "geometry (mesh_store (both_loaded v) (Suc 0)) = [Vector3 1 1 1, Vector3 3 1 1, Vector3 1 5 1]"
  by (simp_all add: both_loaded_def car_loaded_def loadLocalSTL_def Let_def start_def init_state_def)

lemma both_loaded_box:
  "minimal_box (registered_vertices (both_loaded v)) = Some (Vector3 0 0 0, Vector3 4 5 2)"
  by (simp add: registered_vertices_def minimal_box_def triangle_def)

lemma small_model_distance: "max 50 (5 / 2 / tan (60 * (pi / 180) / 2) * 1.4) = (50::real)"
proof -
  have "sqrt 3 \<le> sqrt 4" by (simp only: real_sqrt_le_iff)
  then have "sqrt 3 \<le> 2" by simp
  then have "5 / 2 / (1 / sqrt 3) * 1.4 \<le> (50::real)" by simp
  moreover have "tan (60 * (pi / 180) / 2) = 1 / sqrt 3"
    using tan_30 by simp
  ultimately show ?thesis by (simp only: max_def) simp
qed

subsection \<open>A mesh whose button was never pressed\<close>

lemma item_meshes_skeleton: "item_meshes s = map (\<lambda>t. fst (snd t)) (skeleton (objects_list s))"
  by (simp add: item_meshes_def skeleton_def comp_def)

lemma item_meshes_cong:
  "skeleton (objects_list s') = skeleton (objects_list s) \<Longrightarrow> item_meshes s' = item_meshes s"
  by (simp add: item_meshes_skeleton)

lemma dormant_cong:
  assumes "skeleton (objects_list s') = skeleton (objects_list s)" "n_meshes s' = n_meshes s"
      "userData_visible (mesh_store s' m) = userData_visible (mesh_store s m)"
      "visible (mesh_store s' m) = visible (mesh_store s m)"
  shows "dormant m k s' = dormant m k s"
  using assms item_meshes_cong [OF assms(1)] by (simp add: dormant_def)

lemma items_ok_cong:
  assumes "skeleton (objects_list s') = skeleton (objects_list s)" "n_meshes s' = n_meshes s"
  shows "items_ok s' = items_ok s"
  using assms item_meshes_cong [OF assms(1)] by (simp add: items_ok_def)

lemma updateClippingPlanes_skeleton [simp]:
  "skeleton (objects_list (updateClippingPlanes v s)) = skeleton (objects_list s)"
  by simp

lemma item_visBtn_click_frame [simp]:
  "selectedMeshId (item_visBtn_click k s) = selectedMeshId s"
  "meshes (item_visBtn_click k s) = meshes s"
  "n_meshes (item_visBtn_click k s) = n_meshes s"
  "camera_fov (item_visBtn_click k s) = camera_fov s"
  "skeleton (objects_list (item_visBtn_click k s)) = skeleton (objects_list s)"
  by (simp_all add: item_visBtn_click_def Let_def)

lemma item_visBtn_click_other:
  "\<not> (k < length (objects_list s) \<and> item_mesh (objects_list s ! k) = m) \<Longrightarrow>
     mesh_store (item_visBtn_click k s) m = mesh_store s m"
  by (auto simp: item_visBtn_click_def Let_def)

lemma item_opacityBtn_click_frame [simp]:
  "selectedMeshId (item_opacityBtn_click k val s) = selectedMeshId s"
  "meshes (item_opacityBtn_click k val s) = meshes s"
  "n_meshes (item_opacityBtn_click k val s) = n_meshes s"
  "camera_fov (item_opacityBtn_click k val s) = camera_fov s"
  "skeleton (objects_list (item_opacityBtn_click k val s)) = skeleton (objects_list s)"
  "visible (mesh_store (item_opacityBtn_click k val s) r) = visible (mesh_store s r)"
  "userData_visible (mesh_store (item_opacityBtn_click k val s) r) = userData_visible (mesh_store s r)"
  by (simp_all add: item_opacityBtn_click_def set_opacity_def Let_def)

lemma item_slider_input_frame [simp]:
  "selectedMeshId (item_slider_input k val s) = selectedMeshId s"
  "meshes (item_slider_input k val s) = meshes s"
  "n_meshes (item_slider_input k val s) = n_meshes s"
  "camera_fov (item_slider_input k val s) = camera_fov s"
  "skeleton (objects_list (item_slider_input k val s)) = skeleton (objects_list s)"
  "visible (mesh_store (item_slider_input k val s) r) = visible (mesh_store s r)"
  "userData_visible (mesh_store (item_slider_input k val s) r) = userData_visible (mesh_store s r)"
  by (simp_all add: item_slider_input_def set_opacity_def Let_def)

lemma dormant_selectMesh_A:
  assumes "dormant m k s" shows "dormant m k (selectMesh_A i s)"
proof -
  have u: "userData_visible (mesh_store s m) = None" and v: "visible (mesh_store s m) \<noteq> Some True"
    using assms by (simp_all add: dormant_def)
  have "visible (mesh_store (selectMesh_A i s) m) \<noteq> Some True"
    using u v by (simp add: selectMesh_A_visible split: option.split)
  moreover have "item_meshes (selectMesh_A i s) = item_meshes s"
    by (rule item_meshes_cong) simp
  ultimately show ?thesis
    using assms by (simp add: dormant_def)
qed

lemma dormant_updateClippingPlanes_A:
  "dormant m k (updateClippingPlanes_A s) = dormant m k s"
  by (rule dormant_cong) simp_all

lemma item_meshes_register_twice:
  "item_meshes (register_twice v mo now rnd s) = item_meshes s @ [n_meshes s]"
  by (simp add: item_meshes_def objects_list_register_twice)

lemma dormant_register_twice:
  assumes "dormant m k s" shows "dormant m k (register_twice MainA mo now rnd s)"
proof -
  have m: "m < n_meshes s" using assms by (simp add: dormant_def)
  have "item_meshes (register_twice MainA mo now rnd s) ! j \<noteq> m"
    if "j < length (item_meshes s) + 1" "j \<noteq> k" for j
  proof (cases "j < length (item_meshes s)")
    case True
    then show ?thesis
      using assms that(2) by (simp add: item_meshes_register_twice nth_append dormant_def)
  next
    case False
    with that(1) have "j = length (item_meshes s)" by simp
    then show ?thesis using m by (simp add: item_meshes_register_twice)
  qed
  then show ?thesis
    using assms m by (simp add: dormant_def item_meshes_register_twice)
qed

lemma dormant_item_visBtn_click:
  assumes "dormant m k s" "j \<noteq> k" shows "dormant m k (item_visBtn_click j s)"
proof -
  have "\<not> (j < length (objects_list s) \<and> item_mesh (objects_list s ! j) = m)"
    using assms by (auto simp: dormant_def item_meshes_def)
  then have "mesh_store (item_visBtn_click j s) m = mesh_store s m"
    by (rule item_visBtn_click_other)
  then have "dormant m k (item_visBtn_click j s) = dormant m k s"
    by (intro dormant_cong) simp_all
  with assms(1) show ?thesis by simp
qed

lemma dormant_item_click:
  "dormant m k s \<Longrightarrow> dormant m k (item_click MainA j s)"
  by (simp add: item_click_def selectMesh_def dormant_selectMesh_A)

lemma dormant_fit: "dormant m k (fit v s) = dormant m k s"
  by (rule dormant_cong) simp_all

lemma dormant_step:
  assumes "dormant m k s" "ev \<noteq> ItemVis k" shows "dormant m k (step MainA ev s)"
proof (cases ev)
  case (Upload upl now rnd)
  then show ?thesis
    using assms(1)
    by (cases upl)
       (auto simp: handleFileUpload_def handleFileUpload_AB_def Let_def dormant_register_twice)
next
  case (LocalLoaded path nm geom now rnd)
  then show ?thesis
    using assms(1) by (simp add: loadLocalSTL_def Let_def dormant_register_twice)
next
  case (Select i)
  then show ?thesis using assms(1) by (simp add: selectMesh_def dormant_selectMesh_A)
next
  case Recompute
  then show ?thesis
    using assms(1) by (simp add: updateClippingPlanes_def dormant_updateClippingPlanes_A)
next
  case (SetAxisEnabled a b)
  have "dormant m k (slice_checkbox MainA a b s) = dormant m k s"
    by (rule dormant_cong) simp_all
  with SetAxisEnabled assms(1) show ?thesis by simp
next
  case (SetAxisOffset a val)
  have "dormant m k (slice_range MainA a val s) = dormant m k s"
    by (rule dormant_cong) simp_all
  with SetAxisOffset assms(1) show ?thesis by simp
next
  case ResetView
  have "dormant m k (resetView MainA s) = dormant m k s"
    by (rule dormant_cong) simp_all
  with ResetView assms(1) show ?thesis by simp
next
  case (ItemClick j)
  then show ?thesis using assms(1) by (simp add: dormant_item_click)
next
  case (ItemVis j)
  with assms(2) have "j \<noteq> k" by simp
  then show ?thesis
    using ItemVis assms(1) by (simp add: dormant_item_click dormant_item_visBtn_click)
next
  case (ItemOpacity j val)
  have "dormant m k (item_opacityBtn_click j val s) = dormant m k s"
    by (rule dormant_cong) simp_all
  with ItemOpacity assms(1) show ?thesis by (simp add: dormant_item_click)
next
  case (ItemSlider j val)
  have "dormant m k (item_slider_input j val s) = dormant m k s"
    by (rule dormant_cong) simp_all
  with ItemSlider assms(1) show ?thesis by simp
next
  case VisClick
  then show ?thesis using assms(1) by simp
next
  case (SetOpacity val)
  then show ?thesis using assms(1) by (simp add: set_opacity_static_def)
qed

lemma dormant_run:
  "dormant m k s \<Longrightarrow> ItemVis k \<notin> set evs \<Longrightarrow> dormant m k (run MainA evs s)"
  unfolding run_def
proof (induction evs arbitrary: s)
  case Nil
  then show ?case by simp
next
  case (Cons ev evs)
  from Cons.prems have "dormant m k (step MainA ev s)"
    by (intro dormant_step) auto
  with Cons show ?case by simp
qed

lemma items_ok_register_twice:
  "items_ok s \<Longrightarrow> items_ok (register_twice v mo now rnd s)"
  by (auto simp: items_ok_def item_meshes_register_twice list_all_iff)

lemma items_ok_step:
  assumes "items_ok s" shows "items_ok (step MainA ev s)"
proof -
  have sel: "items_ok (selectMesh MainA i t) = items_ok t" for i t
    by (rule items_ok_cong) simp_all
  have clk: "items_ok (item_click MainA j t) = items_ok t" for j t
    by (simp add: item_click_def sel)
  show ?thesis
  proof (cases ev)
    case (Upload upl now rnd)
    then show ?thesis
      using assms
      by (cases upl)
         (auto simp: handleFileUpload_def handleFileUpload_AB_def Let_def items_ok_register_twice)
  next
    case (LocalLoaded path nm geom now rnd)
    then show ?thesis
      using assms by (simp add: loadLocalSTL_def Let_def items_ok_register_twice)
  next
    case (Select i)
    then show ?thesis using assms by (simp add: sel)
  next
    case Recompute
    have "items_ok (updateClippingPlanes MainA s) = items_ok s"
      by (rule items_ok_cong) simp_all
    with Recompute assms show ?thesis by simp
  next
    case (SetAxisEnabled a b)
    have "items_ok (slice_checkbox MainA a b s) = items_ok s"
      by (rule items_ok_cong) simp_all
    with SetAxisEnabled assms show ?thesis by simp
  next
    case (SetAxisOffset a val)
    have "items_ok (slice_range MainA a val s) = items_ok s"
      by (rule items_ok_cong) simp_all
    with SetAxisOffset assms show ?thesis by simp
  next
    case ResetView
    have "items_ok (resetView MainA s) = items_ok s"
      by (rule items_ok_cong) simp_all
    with ResetView assms show ?thesis by simp
  next
    case (ItemClick j)
    then show ?thesis using assms by (simp add: clk)
  next
    case (ItemVis j)
    have "items_ok (item_visBtn_click j s) = items_ok s"
      by (rule items_ok_cong) simp_all
    with ItemVis assms show ?thesis by (simp add: clk)
  next
    case (ItemOpacity j val)
    have "items_ok (item_opacityBtn_click j val s) = items_ok s"
      by (rule items_ok_cong) simp_all
    with ItemOpacity assms show ?thesis by (simp add: clk)
  next
    case (ItemSlider j val)
    have "items_ok (item_slider_input j val s) = items_ok s"
      by (rule items_ok_cong) simp_all
    with ItemSlider assms show ?thesis by simp
  next
    case VisClick
    then show ?thesis using assms by simp
  next
    case (SetOpacity val)
    then show ?thesis using assms by (simp add: set_opacity_static_def)
  qed
qed

lemma items_ok_run: "items_ok s \<Longrightarrow> items_ok (run MainA evs s)"
  unfolding run_def by (induction evs arbitrary: s) (simp_all add: items_ok_step)

lemma items_ok_init: "items_ok (init_state sliders op_value icon)"
  by (simp add: items_ok_def item_meshes_def init_state_def)

lemma dormant_after_registration:
  assumes "items_ok s" "userData_visible mo = None"
  shows "dormant (n_meshes s) (length (objects_list s)) (register_twice MainA mo now rnd s)"
proof -
  have lt: "item_meshes s ! j < n_meshes s" if "j < length (item_meshes s)" for j
    using assms(1) that by (simp add: items_ok_def list_all_length)
  have "(item_meshes s @ [n_meshes s]) ! j \<noteq> n_meshes s"
    if j: "j < length (item_meshes s) + 1" "j \<noteq> length (objects_list s)" for j
  proof -
    have "j < length (item_meshes s)" using j by (simp add: item_meshes_def)
    with lt [OF this] show ?thesis by (simp add: nth_append)
  qed
  then show ?thesis
    using assms(2) by (simp add: dormant_def item_meshes_register_twice)
qed

lemma skeleton_register_twice_A:
  "skeleton (objects_list (register_twice MainA mo now rnd s))
     = skeleton (objects_list s) @ [(make_id now rnd, n_meshes s, False)]"
  by (simp add: objects_list_register_twice)

lemma item_at_end:
  assumes "skeleton xs = skeleton ys @ [(i, m, c)]"
  shows "length ys < length xs" "item_id (xs ! length ys) = i" "item_mesh (xs ! length ys) = m"
        "(item_ctrl (xs ! length ys) = None) = c"
proof -
  have len: "length xs = length ys + 1"
    using arg_cong [OF assms, of length] by simp
  then show l: "length ys < length xs" by simp
  have "skeleton xs ! length ys = (i, m, c)"
    by (simp add: assms nth_append)
  then have "(item_id (xs ! length ys), item_mesh (xs ! length ys), item_ctrl (xs ! length ys) = None)
      = (i, m, c)"
    using l by (simp add: skeleton_nth_eq)
  then show "item_id (xs ! length ys) = i" "item_mesh (xs ! length ys) = m"
        "(item_ctrl (xs ! length ys) = None) = c"
    by simp_all
qed

lemma item_visBtn_click_self:
  assumes "k < length (objects_list s)" "item_ctrl (objects_list s ! k) \<noteq> None"
  shows "userData_visible (mesh_store (item_visBtn_click k s) (item_mesh (objects_list s ! k)))
           = Some (\<not> truthy (userData_visible (mesh_store s (item_mesh (objects_list s ! k)))))"
  using assms by (simp add: item_visBtn_click_def js_not_def Let_def)

lemma last_entry_selected:
  assumes "meshes s = es @ [e1, e2]" "entry_mesh e2 = m" "entry_id e2 = i"
  shows "visible (mesh_store (selectMesh_A i s) m) = userData_visible (mesh_store s m)"
  using assms by (simp add: selectMesh_A_visible)

text \<open>One click on the button of a freshly registered entry, after or without a selection.\<close>

lemma click_shows:
  assumes sk: "skeleton (objects_list t) = skeleton (objects_list s) @ [(i, m, False)]"
      and ms: "meshes t = es @ [e1, e2]" "entry_mesh e2 = m" "entry_id e2 = i"
      and u: "userData_visible (mesh_store t m) = None"
  shows "visible (mesh_store (step MainA (ItemVis (length (objects_list s))) t) m) = Some True"
proof -
  let ?k = "length (objects_list s)"
  let ?t' = "item_visBtn_click ?k t"
  note it = item_at_end [OF sk]
  have u': "userData_visible (mesh_store ?t' m) = Some True"
    using item_visBtn_click_self [of ?k t] it u by (simp add: truthy_def)
  have sk': "skeleton (objects_list ?t') = skeleton (objects_list s) @ [(i, m, False)]"
    using sk by simp
  note it' = item_at_end [OF sk']
  have "step MainA (ItemVis ?k) t = selectMesh_A i ?t'"
    using it' by (simp add: item_click_def selectMesh_def)
  moreover have "visible (mesh_store (selectMesh_A i ?t') m) = userData_visible (mesh_store ?t' m)"
    by (rule last_entry_selected [of _ es e1 e2]) (simp_all add: ms)
  ultimately show ?thesis using u' by simp
qed

lemma load_is_registration:
  assumes "ld = Upload (Some (fname, geom)) now rnd \<or> ld = LocalLoaded path nm geom now rnd"
  shows "\<exists>mo. userData_visible mo = None \<and> step MainA ld s = register_twice MainA mo now rnd s"
proof -
  let ?up = "\<lparr>name = or_else (replace_first ''.stl'' [] fname)
                        (''Object '' @ decimal (length (meshes s) + 1)),
              geometry = geom,
              material = \<lparr>color = 13160406, shininess = 60, transparent = True, opacity = 1.0,
                 side = DoubleSide, clippingPlanes = Some (getActiveClippingPlanes s),
                 needsUpdate = False\<rparr>,
              visible = Some True, userData_visible = None\<rparr>"
  let ?lo = "\<lparr>name = or_else nm (last_segment path),
              geometry = geom,
              material = \<lparr>color = 13752287, shininess = 60, transparent = True, opacity = 1,
                 side = DoubleSide, clippingPlanes = Some (getActiveClippingPlanes s),
                 needsUpdate = False\<rparr>,
              visible = Some True, userData_visible = None\<rparr>"
  from assms show ?thesis
  proof
    assume "ld = Upload (Some (fname, geom)) now rnd"
    then have "step MainA ld s = register_twice MainA ?up now rnd s"
      by (simp add: handleFileUpload_def handleFileUpload_AB_def Let_def)
    then show ?thesis by (intro exI [of _ ?up]) simp
  next
    assume "ld = LocalLoaded path nm geom now rnd"
    then have "step MainA ld s = register_twice MainA ?lo now rnd s"
      by (simp add: loadLocalSTL_def Let_def)
    then show ?thesis by (intro exI [of _ ?lo]) simp
  qed
qed

subsection \<open>The field of view, and a registry without doubled records\<close>

lemma reset_axis_frame [simp]:
  "selectedMeshId (reset_axis b a s) = selectedMeshId s"
  "meshes (reset_axis b a s) = meshes s"
  "n_meshes (reset_axis b a s) = n_meshes s"
  "camera_fov (reset_axis b a s) = camera_fov s"
  "mesh_store (reset_axis b a s) = mesh_store s"
  "objects_list (reset_axis b a s) = objects_list s"
  by (simp_all add: reset_axis_def set_range_def new_plane_def split_beta split: option.split)

lemma selectMesh_camera_fov [simp]: "camera_fov (selectMesh v i s) = camera_fov s"
  by (cases v; simp add: selectMesh_def)

lemma handleFileUpload_C_frame:
  "meshes (handleFileUpload_C (Some (fname, geom)) now rnd s) =
     meshes s @ [\<lparr>entry_id = make_id now rnd, entry_mesh = n_meshes s, entry_slider = None\<rparr>]"
  "camera_fov (handleFileUpload_C upl now rnd s) = camera_fov s"
  by (simp_all add: handleFileUpload_C_def Let_def split_beta addMeshToList_BC_def cameraPosition_def
      split: option.split)

lemma upload_registers_once_Part0:
  "length (meshes (handleFileUpload Part0 (Some (fname, geom)) now rnd s)) = length (meshes s) + 1"
  by (simp add: handleFileUpload_def handleFileUpload_C_frame)

lemma camera_fov_step: "camera_fov (step v ev s) = camera_fov s"
  by (cases ev; cases v)
     (simp_all add: handleFileUpload_def handleFileUpload_AB_def handleFileUpload_C_frame
        loadLocalSTL_def Let_def item_click_def item_visBtn_click_def item_opacityBtn_click_def
        item_slider_input_def visBtn_click_def set_opacity_static_def setOpacityForSelected_def
        dynamicSelectedOpacity_def set_opacity_def split: option.split)

lemma camera_fov_run: "camera_fov (run v evs (init_state sliders op_value icon)) = 60"
proof -
  have "camera_fov (fold (step v) evs s) = camera_fov s" for s
    by (induction evs arbitrary: s) (simp_all add: camera_fov_step)
  then show ?thesis by (simp add: run_def init_state_def)
qed

text \<open>On a registry without the doubled records the sweep leaves one record visible.\<close>

lemma find_rev_distinct:
  assumes "distinct (map entry_mesh es)" "e \<in> set es"
  shows "find (\<lambda>x. entry_mesh x = entry_mesh e) (rev es) = Some e"
proof -
  obtain e' where e': "e' \<in> set es" "find (\<lambda>x. entry_mesh x = entry_mesh e) (rev es) = Some e'"
    using find_rev_mesh [OF assms(2)] by blast
  from find_in_set [OF e'(2)] have "entry_mesh e' = entry_mesh e" by simp
  with assms e'(1) have "e' = e" by (simp add: distinct_map inj_on_def)
  with e'(2) show ?thesis by simp
qed

lemma select_exactly_one:
  assumes "distinct (map entry_mesh (meshes s))" "distinct (map entry_id (meshes s))" "v \<noteq> MainA"
  shows "filter (\<lambda>e. visible (mesh_store (selectMesh v i s) (entry_mesh e)) = Some True) (meshes s)
           = filter (\<lambda>e. entry_id e = i) (meshes s)"
    and "length (filter (\<lambda>e. entry_id e = i) (meshes s)) \<le> 1"
proof -
  have "visible (mesh_store (selectMesh v i s) (entry_mesh e)) = Some (entry_id e = i)"
    if "e \<in> set (meshes s)" for e
    using assms(3) find_rev_distinct [OF assms(1) that]
    by (cases v) (simp_all add: selectMesh_def selectMesh_BC_visible)
  then show "filter (\<lambda>e. visible (mesh_store (selectMesh v i s) (entry_mesh e)) = Some True) (meshes s)
           = filter (\<lambda>e. entry_id e = i) (meshes s)"
    by (intro filter_cong) simp_all
  have "length (filter (\<lambda>e. entry_id e = i) es) \<le> 1" if "distinct (map entry_id es)" for es
    using that
  proof (induction es)
    case Nil
    show ?case by simp
  next
    case (Cons a es)
    show ?case
    proof (cases "entry_id a = i")
      case True
      with Cons.prems have "i \<notin> entry_id ` set es" by simp
      then have "filter (\<lambda>e. entry_id e = i) es = []"
        by (auto simp: filter_empty_conv)
      with True show ?thesis by simp
    next
      case False
      with Cons show ?thesis by simp
    qed
  qed
  from this [OF assms(2)]
  show "length (filter (\<lambda>e. entry_id e = i) (meshes s)) \<le> 1" .
qed

subsection \<open>Selecting an id that no record has\<close>

lemma select_entry_other_id:
  "entry_id e \<noteq> i \<Longrightarrow>
     select_entry i e s =
       s\<lparr>mesh_store := (mesh_store s)(entry_mesh e := (mesh_store s (entry_mesh e))\<lparr>visible := Some False\<rparr>),
         objects_list := toggle_selected (entry_id e) False (objects_list s)\<rparr>"
  by (simp add: select_entry_def Let_def)

lemma sweep_absent_state:
  assumes "i \<notin> entry_id ` set es"
  shows "fold (select_entry i) es s =
     s\<lparr>mesh_store := (\<lambda>r. if r \<in> entry_mesh ` set es
                             then (mesh_store s r)\<lparr>visible := Some False\<rparr> else mesh_store s r),
       objects_list := fold (\<lambda>e. toggle_selected (entry_id e) False) es (objects_list s)\<rparr>"
  using assms
proof (induction es arbitrary: s)
  case Nil
  show ?case by simp
next
  case (Cons e es)
  then have ne: "entry_id e \<noteq> i" and rest: "i \<notin> entry_id ` set es" by auto
  let ?s1 = "s\<lparr>mesh_store := (mesh_store s)(entry_mesh e := (mesh_store s (entry_mesh e))\<lparr>visible := Some False\<rparr>),
         objects_list := toggle_selected (entry_id e) False (objects_list s)\<rparr>"
  have st: "(\<lambda>r. if r \<in> entry_mesh ` set es
                 then (mesh_store ?s1 r)\<lparr>visible := Some False\<rparr> else mesh_store ?s1 r)
          = (\<lambda>r. if r \<in> entry_mesh ` set (e # es)
                 then (mesh_store s r)\<lparr>visible := Some False\<rparr> else mesh_store s r)"
    by (rule ext) auto
  show ?case
    using Cons.IH [OF rest, of ?s1] st by (simp add: select_entry_other_id [OF ne])
qed

subsection \<open>A click on the visibility button of a list entry\<close>

lemma item_visBtn_click_userData:
  "userData_visible (mesh_store (item_visBtn_click k s) r) =
     (if k < length (objects_list s) \<and> item_ctrl (objects_list s ! k) \<noteq> None
         \<and> r = item_mesh (objects_list s ! k)
      then Some (\<not> truthy (userData_visible (mesh_store s r)))
      else userData_visible (mesh_store s r))"
  by (auto simp: item_visBtn_click_def js_not_def Let_def)

lemma item_visBtn_click_rest [simp]:
  "name (mesh_store (item_visBtn_click k s) r) = name (mesh_store s r)"
  "geometry (mesh_store (item_visBtn_click k s) r) = geometry (mesh_store s r)"
  "material (mesh_store (item_visBtn_click k s) r) = material (mesh_store s r)"
  by (simp_all add: item_visBtn_click_def Let_def)

lemma selectMesh_A_rest [simp]:
  "name (mesh_store (selectMesh_A i s) r) = name (mesh_store s r)"
  by (simp add: selectMesh_A_def Let_def updateClippingPlanes_A_def set_clippingPlanes_def
      split: option.split)

text \<open>
  The whole click on the visibility button of the \<open>k\<close>-th entry in the first script: the
  button's listener, then the entry's click listener.
\<close>

lemma vis_click_A:
  assumes k: "k < length (objects_list s)"
  shows "step MainA (ItemVis k) s = selectMesh_A (item_id (objects_list s ! k)) (item_visBtn_click k s)"
    and "selectedMeshId (step MainA (ItemVis k) s) = Some (item_id (objects_list s ! k))"
    and "meshes (step MainA (ItemVis k) s) = meshes s"
    and "userData_visible (mesh_store (step MainA (ItemVis k) s) r)
           = userData_visible (mesh_store (item_visBtn_click k s) r)"
    and "visible (mesh_store (step MainA (ItemVis k) s) r) =
           (case find (\<lambda>e. entry_mesh e = r) (rev (meshes s)) of
              None \<Rightarrow> visible (mesh_store (item_visBtn_click k s) r)
            | Some e \<Rightarrow> if entry_id e = item_id (objects_list s ! k)
                        then userData_visible (mesh_store (item_visBtn_click k s) r) else Some False)"
    and "geometry (mesh_store (step MainA (ItemVis k) s) r) = geometry (mesh_store s r)"
    and "name (mesh_store (step MainA (ItemVis k) s) r) = name (mesh_store s r)"
    and "opacity (material (mesh_store (step MainA (ItemVis k) s) r)) = opacity (material (mesh_store s r))"
proof -
  have sk: "skeleton (objects_list (item_visBtn_click k s)) = skeleton (objects_list s)"
    by simp
  have len: "k < length (objects_list (item_visBtn_click k s))"
    using skeleton_length [OF sk] k by simp
  have id: "item_id (objects_list (item_visBtn_click k s) ! k) = item_id (objects_list s ! k)"
    using skeleton_nth(1) [OF sk k] .
  show e: "step MainA (ItemVis k) s = selectMesh_A (item_id (objects_list s ! k)) (item_visBtn_click k s)"
    using len by (simp add: item_click_def selectMesh_def id)
  show "selectedMeshId (step MainA (ItemVis k) s) = Some (item_id (objects_list s ! k))"
       "meshes (step MainA (ItemVis k) s) = meshes s"
       "userData_visible (mesh_store (step MainA (ItemVis k) s) r)
           = userData_visible (mesh_store (item_visBtn_click k s) r)"
       "geometry (mesh_store (step MainA (ItemVis k) s) r) = geometry (mesh_store s r)"
       "name (mesh_store (step MainA (ItemVis k) s) r) = name (mesh_store s r)"
       "opacity (material (mesh_store (step MainA (ItemVis k) s) r)) = opacity (material (mesh_store s r))"
    unfolding e by simp_all
  show "visible (mesh_store (step MainA (ItemVis k) s) r) =
           (case find (\<lambda>e. entry_mesh e = r) (rev (meshes s)) of
              None \<Rightarrow> visible (mesh_store (item_visBtn_click k s) r)
            | Some e \<Rightarrow> if entry_id e = item_id (objects_list s ! k)
                        then userData_visible (mesh_store (item_visBtn_click k s) r) else Some False)"
    unfolding e by (simp add: selectMesh_A_visible)
qed

subsection \<open>Selecting the empty id in \<^verbatim>\<open>part_000\<close>\<close>

lemma clip_target_other:
  "r \<noteq> entry_mesh t \<Longrightarrow> mesh_store (clip_target t s) r = mesh_store s r"
  by (simp add: clip_target_def Let_def split_beta set_clippingPlanes_other push_through_def new_plane_def)

lemma updateClippingPlanes_C_other:
  assumes "truthy_id (selectedMeshId s)" "find_selected s = Some obj" "r \<noteq> entry_mesh obj"
  shows "mesh_store (updateClippingPlanes_C s) r = mesh_store s r"
  using assms by (simp add: updateClippingPlanes_C_def clip_target_other)

lemma select_entry_material:
  "material (mesh_store (select_entry i e s) r) = material (mesh_store s r)"
  by (simp add: select_entry_def Let_def)

lemma fold_select_entry_material:
  "material (mesh_store (fold (select_entry i) es s) r) = material (mesh_store s r)"
  by (induction es arbitrary: s) (simp_all add: select_entry_material)

lemma dragon_planes_loaded:
  "clippingPlanes (material (mesh_store (both_loaded Part0) (Suc 0))) = Some []"
  by (simp add: both_loaded_def loadLocalSTL_def Let_def register_twice_def new_mesh_def
      addMeshToList_def addMeshToList_BC_def fit_def cameraPosition_def activeCliping_def
      getActiveClippingPlanes_def car_loaded_def start_def init_state_def split_beta)

lemma dragon_planes_selected:
  "clippingPlanes (material (mesh_store (car_selected Part0) (Suc 0))) = Some []"
proof -
  let ?s2 = "(fold (select_entry ''obj-5-7'') (meshes (both_loaded Part0)) (both_loaded Part0))
               \<lparr>selectedMeshId := Some ''obj-5-7''\<rparr>"
  have f: "find_selected ?s2 = Some \<lparr>entry_id = ''obj-5-7'', entry_mesh = 0, entry_slider = None\<rparr>"
    by (simp add: find_selected_def)
  have t: "truthy_id (selectedMeshId ?s2)"
    by (simp add: truthy_id_def)
  have "mesh_store (updateClippingPlanes_C ?s2) (Suc 0) = mesh_store ?s2 (Suc 0)"
    using updateClippingPlanes_C_other [OF t f, of "Suc 0"] by simp
  then have "material (mesh_store (updateClippingPlanes_C ?s2) (Suc 0))
      = material (mesh_store (both_loaded Part0) (Suc 0))"
    by (simp add: fold_select_entry_material)
  then show ?thesis
    by (simp add: car_selected_def selectMesh_def selectMesh_BC_def Let_def updateClippingPlanes_def
        dragon_planes_loaded split: option.split)
qed

lemma dragon_planes_sliced:
  "clippingPlanes (material (mesh_store (x_sliced Part0) (Suc 0))) = Some []"
proof -
  let ?a = "(car_selected Part0)\<lparr>slice_pos := (slice_pos (car_selected Part0))
      (AxisX := (slice_pos (car_selected Part0) AxisX)\<lparr>range_value := 5\<rparr>)\<rparr>"
  let ?b = "?a\<lparr>plane_store := (plane_store ?a)(plane_ref (clipping ?a AxisX)
      := Plane (normal (plane_store ?a (plane_ref (clipping ?a AxisX)))) 5)\<rparr>"
  let ?c = "updateClippingPlanes_C ?b"
  let ?d = "?c\<lparr>clipping := (clipping ?c)(AxisX := (clipping ?c AxisX)\<lparr>enabled := True\<rparr>)\<rparr>"
  let ?obj = "\<lparr>entry_id = ''obj-5-7'', entry_mesh = 0, entry_slider = None\<rparr>"
  have fb: "find_selected ?b = Some ?obj" "truthy_id (selectedMeshId ?b)"
    by (simp_all add: find_selected_def truthy_id_def)
  have fd: "find_selected ?d = Some ?obj" "truthy_id (selectedMeshId ?d)"
    by (simp_all add: find_selected_def truthy_id_def)
  have 1: "mesh_store ?c (Suc 0) = mesh_store (car_selected Part0) (Suc 0)"
    using updateClippingPlanes_C_other [OF fb(2) fb(1), of "Suc 0"] by simp
  have 2: "mesh_store (updateClippingPlanes_C ?d) (Suc 0) = mesh_store ?d (Suc 0)"
    using updateClippingPlanes_C_other [OF fd(2) fd(1), of "Suc 0"] by simp
  have x: "x_sliced Part0 = updateClippingPlanes_C ?d"
    by (simp add: x_sliced_def slice_checkbox_def slice_range_def Let_def updateClippingPlanes_def)
  show ?thesis
    unfolding x 2 using 1 by (simp add: dragon_planes_selected)
qed

lemma x_sliced_registry:
  "meshes (x_sliced v) = meshes (both_loaded v)"
  "slice_pos (x_sliced v) AxisX = (slice_pos (car_selected v) AxisX)\<lparr>range_value := 5\<rparr>"
  "enabled (clipping (x_sliced v) AxisY) = enabled (clipping (car_selected v) AxisY)"
  "enabled (clipping (x_sliced v) AxisZ) = enabled (clipping (car_selected v) AxisZ)"
  by (simp_all add: x_sliced_def slice_checkbox_def slice_range_def Let_def)

lemma car_selected_enabled:
  "enabled (clipping (car_selected Part0) a) = False"
  by (simp add: car_selected_def selectMesh_def both_loaded_def car_loaded_def loadLocalSTL_def
      Let_def start_def init_state_def)

lemma select_empty_sliced:
  "applied_planes (selectMesh Part0 [] (x_sliced Part0)) (Suc 0) = [Plane (Vector3 (- 1) 0 0) 5]"
proof -
  let ?s2 = "(fold (select_entry []) (meshes (x_sliced Part0)) (x_sliced Part0))\<lparr>selectedMeshId := Some []\<rparr>"
  let ?e = "\<lparr>entry_id = ''obj-6-8'', entry_mesh = Suc 0, entry_slider = None\<rparr>"
  let ?es = "[\<lparr>entry_id = ''obj-5-7'', entry_mesh = 0, entry_slider = None\<rparr>,
      \<lparr>entry_id = ''obj-5-7'', entry_mesh = 0, entry_slider = None\<rparr>, ?e]"
  have m: "meshes ?s2 = ?es @ [?e]"
    by (simp add: x_sliced_registry)
  have u: "updateClippingPlanes_C ?s2 = clip_target ?e (fold clip_target ?es ?s2)"
    unfolding updateClippingPlanes_C_def Let_def m by (simp add: truthy_id_def)
  have nf: "find (\<lambda>m. entry_id m = []) (meshes (updateClippingPlanes_C ?s2)) = None"
    by (simp add: x_sliced_registry)
  have sel: "selectMesh Part0 [] (x_sliced Part0) = updateClippingPlanes_C ?s2"
    using nf by (simp add: selectMesh_def selectMesh_BC_def Let_def updateClippingPlanes_def)
  have en: "enabled_axes (fold clip_target ?es ?s2) = [AxisX]"
    by (simp add: enabled_axes_def x_sliced_registry car_selected_enabled)
  have "applied_planes (clip_target ?e (fold clip_target ?es ?s2)) (entry_mesh ?e)
      = map (\<lambda>a. Plane (axis_normal a) (range_value (slice_pos (fold clip_target ?es ?s2) a))) [AxisX]"
    unfolding applied_planes_C en ..
  then show ?thesis
    unfolding sel u by (simp add: axis_normal_def x_sliced_registry)
qed

section \<open>The claims\<close>

text \<open>
  Claim C1. Registering a mesh should lengthen the registry by one. In the first script
  of \<^verbatim>\<open>src/main.js\<close>, \<^verbatim>\<open>addMeshToList\<close> pushes the new record and its caller
  \<^verbatim>\<open>handleFileUpload\<close> pushes a second record with the same id and the same mesh: every
  upload of a file lengthens the registry by two. So does every upload in the second
  script, and every load of a bundled model in all three. The upload of \<^verbatim>\<open>part_000\<close> does
  without the second push and lengthens it by one (\<open>upload_registers_once_Part0\<close>).
\<close>

theorem upload_registers_twice:
  "length (meshes (handleFileUpload MainA (Some (fname, geom)) now rnd s)) = length (meshes s) + 2
 \<and> length (meshes (handleFileUpload MainB (Some (fname, geom)) now rnd s)) = length (meshes s) + 2
 \<and> length (meshes (loadLocalSTL v path nm geom now rnd s)) = length (meshes s) + 2"
  by (simp add: handleFileUpload_def handleFileUpload_AB_def loadLocalSTL_def meshes_register_twice
      Let_def)

text \<open>
  Claim C2. After \<^verbatim>\<open>selectMesh(id)\<close> exactly one record should be visible. In the second
  script of \<^verbatim>\<open>src/main.js\<close>, once the bundled model has loaded, the registry holds two
  records of it, and selecting it leaves both of them visible. The sweep itself is
  right: on a registry whose records have distinct ids and distinct meshes it leaves
  visible exactly the records with the id, at most one (\<open>select_exactly_one\<close>).
\<close>

theorem select_shows_both_copies:
  "map (\<lambda>e. (entry_id e, visible (mesh_store (selectMesh MainB (make_id 5 7) (car_loaded MainB)) (entry_mesh e))))
       (meshes (selectMesh MainB (make_id 5 7) (car_loaded MainB)))
   = [(make_id 5 7, Some True), (make_id 5 7, Some True)]"
  by (simp add: selectMesh_def selectMesh_BC_visible)

text \<open>
  Claim C3, as amended. Whenever the selected mesh is found in the registry,
  \<^verbatim>\<open>updateClippingPlanes\<close> gives its material exactly one plane per enabled axis, in the
  order X, Y, Z, and none when no axis is enabled. In the first script of
  \<^verbatim>\<open>src/main.js\<close> these are the configured planes themselves; in the second script each
  is a new plane with the axis's normal, whose constant is the configured constant minus
  the coordinate of the centre of the selected mesh's box on that axis. So moving the X
  slider to 5 and ticking X alone yields one plane, with constant 5 in the first script
  and \<open>5 - center.x\<close> in the second; unticking X yields no plane in both.
\<close>

theorem recompute_planes:
  assumes "find_selected s = Some obj" and "planes_allocated s"
  shows "applied_planes (updateClippingPlanes MainA s) (entry_mesh obj) = map (configured s) (enabled_axes s)
       \<and> applied_planes (updateClippingPlanes MainB s) (entry_mesh obj) =
           map (\<lambda>a. Plane (axis_normal a)
                  (plane_constant (configured s a) - coord a (mesh_center s (entry_mesh obj))))
               (enabled_axes s)
       \<and> length (applied_planes (updateClippingPlanes MainA s) (entry_mesh obj)) = length (enabled_axes s)
       \<and> length (applied_planes (updateClippingPlanes MainB s) (entry_mesh obj)) = length (enabled_axes s)
       \<and> (\<not> enabled (clipping s AxisY) \<and> \<not> enabled (clipping s AxisZ) \<longrightarrow>
            map plane_constant (applied_planes
                (slice_checkbox MainA AxisX True (slice_range MainA AxisX 5 s)) (entry_mesh obj)) = [5]
          \<and> applied_planes
                (slice_checkbox MainB AxisX True (slice_range MainB AxisX 5 s)) (entry_mesh obj)
              = [Plane (Vector3 (- 1) 0 0) (5 - vx (mesh_center s (entry_mesh obj)))]
          \<and> applied_planes (slice_checkbox MainA AxisX False
                (slice_checkbox MainA AxisX True (slice_range MainA AxisX 5 s))) (entry_mesh obj) = []
          \<and> applied_planes (slice_checkbox MainB AxisX False
                (slice_checkbox MainB AxisX True (slice_range MainB AxisX 5 s))) (entry_mesh obj) = [])"
proof -
  have A: "applied_planes (updateClippingPlanes MainA s) (entry_mesh obj) = map (configured s) (enabled_axes s)"
    by (simp add: updateClippingPlanes_def applied_planes_A [OF assms(1)])
  have B: "applied_planes (updateClippingPlanes MainB s) (entry_mesh obj) =
           map (\<lambda>a. Plane (axis_normal a)
                  (plane_constant (configured s a) - coord a (mesh_center s (entry_mesh obj))))
               (enabled_axes s)"
    by (simp add: updateClippingPlanes_def applied_planes_B [OF assms] mesh_center_def)
  show ?thesis
    using only_x_A [OF assms(1), of 5] only_x_B [OF assms, of 5]
    by (simp add: A B)
qed

text \<open>The car's box has its centre at \<open>x = 2\<close>: the plane's constant is 3 in the second script.\<close>

theorem recompute_planes_witness:
  "find_selected (car_selected MainB) = Some \<lparr>entry_id = ''obj-5-7'', entry_mesh = 0, entry_slider = None\<rparr>
 \<and> planes_allocated (car_selected MainB)
 \<and> enabled_axes (car_selected MainB) = []
 \<and> applied_planes (updateClippingPlanes MainB (car_selected MainB)) 0 = []
 \<and> applied_planes (slice_checkbox MainB AxisX True (slice_range MainB AxisX 5 (car_selected MainB))) 0
      = [Plane (Vector3 (- 1) 0 0) 3]
 \<and> applied_planes (slice_checkbox MainB AxisX False
      (slice_checkbox MainB AxisX True (slice_range MainB AxisX 5 (car_selected MainB)))) 0 = []
 \<and> find_selected (car_selected MainA) = Some \<lparr>entry_id = ''obj-5-7'', entry_mesh = 0, entry_slider = Some 0\<rparr>
 \<and> planes_allocated (car_selected MainA)
 \<and> map plane_constant (applied_planes
      (slice_checkbox MainA AxisX True (slice_range MainA AxisX 5 (car_selected MainA))) 0) = [5]
 \<and> applied_planes (slice_checkbox MainA AxisX False
      (slice_checkbox MainA AxisX True (slice_range MainA AxisX 5 (car_selected MainA)))) 0 = []"
  using recompute_planes [of "car_selected MainB" "\<lparr>entry_id = ''obj-5-7'', entry_mesh = 0, entry_slider = None\<rparr>"]
        recompute_planes [of "car_selected MainA" "\<lparr>entry_id = ''obj-5-7'', entry_mesh = 0, entry_slider = Some 0\<rparr>"]
  by (simp add: enabled_axes_def)

text \<open>
  As stated, the claim fails in the second script: X is the one enabled axis and is
  configured with the constant 5, and the one plane applied has the constant 3.
\<close>

theorem recompute_planes_counterexample:
  "enabled_axes (slice_checkbox MainB AxisX True (slice_range MainB AxisX 5 (car_selected MainB))) = [AxisX]
 \<and> plane_constant (configured
      (slice_checkbox MainB AxisX True (slice_range MainB AxisX 5 (car_selected MainB))) AxisX) = 5
 \<and> map plane_constant (applied_planes
      (slice_checkbox MainB AxisX True (slice_range MainB AxisX 5 (car_selected MainB))) 0) = [3]"
  using only_x_B [of "car_selected MainB" "\<lparr>entry_id = ''obj-5-7'', entry_mesh = 0, entry_slider = None\<rparr>" 5]
  by simp

text \<open>
  Claim C4. On an empty registry \<^verbatim>\<open>fitCameraToObjects()\<close> puts the camera at
  \<open>(0,0,250)\<close> and the target at \<open>(0,0,0)\<close>. On a registry with at least one record and
  a field of view between 0 and 180 degrees (it stays at 60, \<open>camera_fov_run\<close>), the box it computes
  is the minimal box of the vertices of all registered meshes, whatever their visible
  flags are; the camera is put at the centre of that box moved along z by
  \<open>max(50, (D/2)/tan(fov/2)*1.4)\<close>, \<open>D\<close> being the largest dimension of the box, and
  looks at the centre, which is also the target. \<^verbatim>\<open>cameraPosition\<close> of \<^verbatim>\<open>part_000\<close> is
  the same function.
\<close>

theorem fitToAll:
  "(meshes s = [] \<longrightarrow>
       camera_position (fitCameraToObjects 1.4 s) = Vector3 0 0 250
     \<and> controls_target (fitCameraToObjects 1.4 s) = Vector3 0 0 0)
 \<and> (meshes s \<noteq> [] \<and> 0 < camera_fov s \<and> camera_fov s < 180 \<longrightarrow>
       camera_position (fitCameraToObjects 1.4 s) =
         Vector3 (vx (getCenter (minimal_box (registered_vertices s))))
                 (vy (getCenter (minimal_box (registered_vertices s))))
                 (vz (getCenter (minimal_box (registered_vertices s)))
                    + max 50 (max_dimension (minimal_box (registered_vertices s)) / 2
                                / tan (camera_fov s * (pi / 180) / 2) * 1.4))
     \<and> controls_target (fitCameraToObjects 1.4 s) = getCenter (minimal_box (registered_vertices s))
     \<and> camera_lookAt (fitCameraToObjects 1.4 s) = getCenter (minimal_box (registered_vertices s)))
 \<and> registered_vertices (s\<lparr>mesh_store := \<lambda>r. (mesh_store s r)\<lparr>visible := flags r\<rparr>\<rparr>) = registered_vertices s
 \<and> cameraPosition 1.4 s = fitCameraToObjects 1.4 s"
proof -
  have empty: "meshes s = [] \<Longrightarrow>
       camera_position (fitCameraToObjects 1.4 s) = Vector3 0 0 250
     \<and> controls_target (fitCameraToObjects 1.4 s) = Vector3 0 0 0"
    by (simp add: fitCameraToObjects_def controls_update_def)
  have full: "camera_position (fitCameraToObjects 1.4 s) =
         Vector3 (vx (getCenter (minimal_box (registered_vertices s))))
                 (vy (getCenter (minimal_box (registered_vertices s))))
                 (vz (getCenter (minimal_box (registered_vertices s)))
                    + max 50 (max_dimension (minimal_box (registered_vertices s)) / 2
                                / tan (camera_fov s * (pi / 180) / 2) * 1.4))
     \<and> controls_target (fitCameraToObjects 1.4 s) = getCenter (minimal_box (registered_vertices s))
     \<and> camera_lookAt (fitCameraToObjects 1.4 s) = getCenter (minimal_box (registered_vertices s))"
    if ne: "meshes s \<noteq> []" and fov: "0 < camera_fov s" "camera_fov s < 180"
  proof -
    have t: "0 < tan (camera_fov s * (pi / 180) / 2)"
      using fov by (rule tan_half_fov_pos)
    have "0 \<le> max_dimension (minimal_box (registered_vertices s)) / 2 / tan (camera_fov s * (pi / 180) / 2)"
      using max_dimension_nonneg [of "registered_vertices s"] t by simp
    then have a: "\<bar>max_dimension (minimal_box (registered_vertices s)) / 2 / tan (camera_fov s * (pi / 180) / 2)\<bar>
        = max_dimension (minimal_box (registered_vertices s)) / 2 / tan (camera_fov s * (pi / 180) / 2)"
      by (rule abs_of_nonneg)
    have ne': "(length (meshes s) = 0) = False" using ne by simp
    have eq: "fitCameraToObjects 1.4 s = controls_update
        (s\<lparr>camera_position :=
             Vector3 (vx (getCenter (minimal_box (registered_vertices s))))
                     (vy (getCenter (minimal_box (registered_vertices s))))
                     (vz (getCenter (minimal_box (registered_vertices s)))
                        + max (\<bar>max_dimension (minimal_box (registered_vertices s)) / 2
                                 / tan (camera_fov s * (pi / 180) / 2)\<bar> * 1.4) 50),
           camera_lookAt := getCenter (minimal_box (registered_vertices s)),
           controls_target := getCenter (minimal_box (registered_vertices s))\<rparr>)"
      by (simp only: fitCameraToObjects_def Let_def union_of_registry max_dimension_def ne' if_False)
    show ?thesis
      unfolding eq a by (simp add: controls_update_def max.commute)
  qed
  have vis: "registered_vertices (s\<lparr>mesh_store := \<lambda>r. (mesh_store s r)\<lparr>visible := flags r\<rparr>\<rparr>) = registered_vertices s"
    by (simp add: registered_vertices_def)
  show ?thesis
    using empty full vis by (simp add: cameraPosition_def)
qed

text \<open>
  The two bundled models together fill the box from \<open>(0,0,0)\<close> to \<open>(4,5,2)\<close>: \<open>D = 5\<close>, the
  formula gives less than 50, and the camera stands 50 in front of the centre.
\<close>

theorem fitToAll_witness:
  "meshes start = []
 \<and> camera_position (fitCameraToObjects 1.4 start) = Vector3 0 0 250
 \<and> controls_target (fitCameraToObjects 1.4 start) = Vector3 0 0 0
 \<and> meshes (both_loaded Part0) \<noteq> []
 \<and> 0 < camera_fov (both_loaded Part0) \<and> camera_fov (both_loaded Part0) < 180
 \<and> max_dimension (minimal_box (registered_vertices (both_loaded Part0))) = 5
 \<and> camera_position (cameraPosition 1.4 (both_loaded Part0)) = Vector3 2 (5 / 2) 51
 \<and> controls_target (cameraPosition 1.4 (both_loaded Part0)) = Vector3 2 (5 / 2) 1"
proof -
  have d: "max_dimension (minimal_box (registered_vertices (both_loaded Part0))) = 5"
    by (simp add: both_loaded_box max_dimension_def getSize_def)
  have c: "getCenter (minimal_box (registered_vertices (both_loaded Part0))) = Vector3 2 (5 / 2) 1"
    by (simp add: both_loaded_box getCenter_def)
  show ?thesis
    using fitToAll [of start "\<lambda>r. None"] fitToAll [of "both_loaded Part0" "\<lambda>r. None"]
    by (simp only: d c small_model_distance both_loaded_camera) simp
qed

text \<open>
  Claim C5. The two computations of \<^verbatim>\<open>src/main.js\<close> are not equivalent: whenever the
  selected mesh is found, some axis is enabled and the centre of the mesh's box is off
  the origin on that axis, the first script (the configured planes) and the second (the
  planes shifted by the centre) apply different planes. (In \<^verbatim>\<open>part_000\<close> the centre
  enters the point the plane is laid through but not the plane: its constant is the
  slider's value, \<open>applied_planes_C\<close>.)
\<close>

theorem variants_differ:
  assumes "find_selected s = Some obj" and "planes_allocated s"
      and "enabled (clipping s a)" and "coord a (mesh_center s (entry_mesh obj)) \<noteq> 0"
  shows "applied_planes (updateClippingPlanes MainA s) (entry_mesh obj)
           \<noteq> applied_planes (updateClippingPlanes MainB s) (entry_mesh obj)"
proof
  assume eq: "applied_planes (updateClippingPlanes MainA s) (entry_mesh obj)
           = applied_planes (updateClippingPlanes MainB s) (entry_mesh obj)"
  have mem: "a \<in> set (enabled_axes s)"
    using assms(3) by (cases a) (simp_all add: enabled_axes_def)
  from eq have "map (configured s) (enabled_axes s) =
           map (\<lambda>a. Plane (axis_normal a)
                  (plane_constant (configured s a) - coord a (mesh_center s (entry_mesh obj))))
               (enabled_axes s)"
    by (simp add: updateClippingPlanes_def applied_planes_A [OF assms(1)]
        applied_planes_B [OF assms(1,2)] mesh_center_def)
  then have "configured s a = Plane (axis_normal a)
                  (plane_constant (configured s a) - coord a (mesh_center s (entry_mesh obj)))"
    using mem by (simp add: map_eq_conv)
  then have "plane_constant (configured s a) =
                  plane_constant (configured s a) - coord a (mesh_center s (entry_mesh obj))"
    by (metis plane.sel(2))
  with assms(4) show False by simp
qed

theorem variants_differ_witness:
  "find_selected (x_sliced MainB) = Some \<lparr>entry_id = ''obj-5-7'', entry_mesh = 0, entry_slider = None\<rparr>
 \<and> planes_allocated (x_sliced MainB)
 \<and> enabled (clipping (x_sliced MainB) AxisX)
 \<and> coord AxisX (mesh_center (x_sliced MainB) 0) = 2
 \<and> applied_planes (updateClippingPlanes MainA (x_sliced MainB)) 0
      \<noteq> applied_planes (updateClippingPlanes MainB (x_sliced MainB)) 0"
  using variants_differ [of "x_sliced MainB" "\<lparr>entry_id = ''obj-5-7'', entry_mesh = 0, entry_slider = None\<rparr>" AxisX]
  by (simp add: coord_def)

text \<open>
  Claim C6, as amended. For an id that no record of the registry has,
  \<^verbatim>\<open>selectMesh(id)\<close> leaves all state unchanged apart from the visibility sweep and the
  recorded current selection, which becomes the id. The sweep hides every registered
  mesh and takes the highlight from the list entries of the registered ids. Everything
  else is as before: the meshes that are not registered, every other field of the
  registered ones and so every mesh's material, the registry, the clipping
  configuration and the planes, the static button and slider, the slice sliders and the
  camera. This holds in the second script of \<^verbatim>\<open>src/main.js\<close> for every such id, and in
  \<^verbatim>\<open>part_000\<close> for every such id but the empty string.
\<close>

theorem select_absent:
  assumes "i \<notin> entry_id ` set (meshes s)"
  shows "selectMesh MainB i s =
           s\<lparr>selectedMeshId := Some i,
             mesh_store := (\<lambda>r. if r \<in> entry_mesh ` set (meshes s)
                                 then (mesh_store s r)\<lparr>visible := Some False\<rparr> else mesh_store s r),
             objects_list := fold (\<lambda>e. toggle_selected (entry_id e) False) (meshes s) (objects_list s)\<rparr>
       \<and> (i \<noteq> [] \<longrightarrow>
            selectMesh Part0 i s =
              s\<lparr>selectedMeshId := Some i,
                mesh_store := (\<lambda>r. if r \<in> entry_mesh ` set (meshes s)
                                    then (mesh_store s r)\<lparr>visible := Some False\<rparr> else mesh_store s r),
                objects_list := fold (\<lambda>e. toggle_selected (entry_id e) False) (meshes s) (objects_list s)\<rparr>)
       \<and> selectedMeshId (selectMesh MainB i s) = Some i
       \<and> meshes (selectMesh MainB i s) = meshes s
       \<and> clipping (selectMesh MainB i s) = clipping s
       \<and> plane_store (selectMesh MainB i s) = plane_store s
       \<and> (\<forall>r. material (mesh_store (selectMesh MainB i s) r) = material (mesh_store s r))
       \<and> (\<forall>e \<in> set (meshes s). visible (mesh_store (selectMesh MainB i s) (entry_mesh e)) = Some False)
       \<and> (i \<noteq> [] \<longrightarrow>
            selectedMeshId (selectMesh Part0 i s) = Some i
          \<and> meshes (selectMesh Part0 i s) = meshes s
          \<and> clipping (selectMesh Part0 i s) = clipping s
          \<and> plane_store (selectMesh Part0 i s) = plane_store s
          \<and> (\<forall>r. material (mesh_store (selectMesh Part0 i s) r) = material (mesh_store s r))
          \<and> (\<forall>e \<in> set (meshes s). visible (mesh_store (selectMesh Part0 i s) (entry_mesh e)) = Some False))"
proof -
  let ?s1 = "fold (select_entry i) (meshes s) s"
  let ?s2 = "?s1\<lparr>selectedMeshId := Some i\<rparr>"
  let ?t = "s\<lparr>selectedMeshId := Some i,
             mesh_store := (\<lambda>r. if r \<in> entry_mesh ` set (meshes s)
                                 then (mesh_store s r)\<lparr>visible := Some False\<rparr> else mesh_store s r),
             objects_list := fold (\<lambda>e. toggle_selected (entry_id e) False) (meshes s) (objects_list s)\<rparr>"
  have abs2: "find_selected ?s2 = None"
    using assms by (intro find_selected_absent) simp_all
  have B: "updateClippingPlanes MainB ?s2 = ?s2"
    by (simp add: updateClippingPlanes_def updateClippingPlanes_B_def abs2)
  have C: "i \<noteq> [] \<Longrightarrow> updateClippingPlanes Part0 ?s2 = ?s2"
    by (simp add: updateClippingPlanes_def updateClippingPlanes_C_def abs2 truthy_id_def)
  have nf: "find (\<lambda>m. entry_id m = i) (meshes s) = None"
    using assms by (rule find_absent)
  have st: "?s2 = ?t"
    by (simp add: sweep_absent_state [OF assms])
  have selB: "selectMesh MainB i s = ?t"
    unfolding st [symmetric] by (simp add: selectMesh_def selectMesh_BC_def Let_def B nf)
  have selC: "selectMesh Part0 i s = ?t" if "i \<noteq> []"
    unfolding st [symmetric] by (simp add: selectMesh_def selectMesh_BC_def Let_def C [OF that] nf)
  have rest: "selectedMeshId ?t = Some i \<and> meshes ?t = meshes s \<and> clipping ?t = clipping s
      \<and> plane_store ?t = plane_store s
      \<and> (\<forall>r. material (mesh_store ?t r) = material (mesh_store s r))
      \<and> (\<forall>e \<in> set (meshes s). visible (mesh_store ?t (entry_mesh e)) = Some False)"
    by simp
  have mainB: "selectedMeshId (selectMesh MainB i s) = Some i
       \<and> meshes (selectMesh MainB i s) = meshes s
       \<and> clipping (selectMesh MainB i s) = clipping s
       \<and> plane_store (selectMesh MainB i s) = plane_store s
       \<and> (\<forall>r. material (mesh_store (selectMesh MainB i s) r) = material (mesh_store s r))
       \<and> (\<forall>e \<in> set (meshes s). visible (mesh_store (selectMesh MainB i s) (entry_mesh e)) = Some False)"
    unfolding selB using rest by blast
  have part0: "selectedMeshId (selectMesh Part0 i s) = Some i
          \<and> meshes (selectMesh Part0 i s) = meshes s
          \<and> clipping (selectMesh Part0 i s) = clipping s
          \<and> plane_store (selectMesh Part0 i s) = plane_store s
          \<and> (\<forall>r. material (mesh_store (selectMesh Part0 i s) r) = material (mesh_store s r))
          \<and> (\<forall>e \<in> set (meshes s). visible (mesh_store (selectMesh Part0 i s) (entry_mesh e)) = Some False)"
    if ne: "i \<noteq> []"
    unfolding selC [OF ne] using rest by blast
  show ?thesis
    using selB selC mainB part0 by blast
qed

theorem select_absent_witness:
  "''ghost'' \<notin> entry_id ` set (meshes (car_selected MainB))
 \<and> selectedMeshId (selectMesh MainB ''ghost'' (car_selected MainB)) = Some ''ghost''
 \<and> clipping (selectMesh MainB ''ghost'' (car_selected MainB)) = clipping (car_selected MainB)
 \<and> material (mesh_store (selectMesh MainB ''ghost'' (car_selected MainB)) 0)
      = material (mesh_store (car_selected MainB) 0)
 \<and> visible (mesh_store (selectMesh MainB ''ghost'' (car_selected MainB)) 0) = Some False
 \<and> visBtn_show (selectMesh MainB ''ghost'' (car_selected MainB)) = visBtn_show (car_selected MainB)
 \<and> opacitySlider (selectMesh MainB ''ghost'' (car_selected MainB)) = opacitySlider (car_selected MainB)
 \<and> slice_pos (selectMesh MainB ''ghost'' (car_selected MainB)) = slice_pos (car_selected MainB)
 \<and> camera_position (selectMesh MainB ''ghost'' (car_selected MainB)) = camera_position (car_selected MainB)
 \<and> ''ghost'' \<notin> entry_id ` set (meshes (car_selected Part0))
 \<and> selectedMeshId (selectMesh Part0 ''ghost'' (car_selected Part0)) = Some ''ghost''
 \<and> clipping (selectMesh Part0 ''ghost'' (car_selected Part0)) = clipping (car_selected Part0)
 \<and> visible (mesh_store (selectMesh Part0 ''ghost'' (car_selected Part0)) 0) = Some False
 \<and> visBtn_show (selectMesh Part0 ''ghost'' (car_selected Part0)) = visBtn_show (car_selected Part0)
 \<and> opacitySlider (selectMesh Part0 ''ghost'' (car_selected Part0)) = opacitySlider (car_selected Part0)
 \<and> camera_position (selectMesh Part0 ''ghost'' (car_selected Part0)) = camera_position (car_selected Part0)"
proof -
  have g: "''ghost'' \<notin> entry_id ` set (meshes (car_selected MainB))"
      "''ghost'' \<notin> entry_id ` set (meshes (car_selected Part0))" "''ghost'' \<noteq> []"
    by simp_all
  note B = select_absent [OF g(1)]
  note C = select_absent [OF g(2)]
  have eB: "selectMesh MainB ''ghost'' (car_selected MainB) = (car_selected MainB)
           \<lparr>selectedMeshId := Some ''ghost'',
             mesh_store := (\<lambda>r. if r \<in> entry_mesh ` set (meshes (car_selected MainB))
                 then (mesh_store (car_selected MainB) r)\<lparr>visible := Some False\<rparr>
                 else mesh_store (car_selected MainB) r),
             objects_list := fold (\<lambda>e. toggle_selected (entry_id e) False)
                 (meshes (car_selected MainB)) (objects_list (car_selected MainB))\<rparr>"
    using B by blast
  have eC: "selectMesh Part0 ''ghost'' (car_selected Part0) = (car_selected Part0)
           \<lparr>selectedMeshId := Some ''ghost'',
             mesh_store := (\<lambda>r. if r \<in> entry_mesh ` set (meshes (car_selected Part0))
                 then (mesh_store (car_selected Part0) r)\<lparr>visible := Some False\<rparr>
                 else mesh_store (car_selected Part0) r),
             objects_list := fold (\<lambda>e. toggle_selected (entry_id e) False)
                 (meshes (car_selected Part0)) (objects_list (car_selected Part0))\<rparr>"
    using C g(3) by blast
  show ?thesis
    unfolding eB eC using g by simp
qed

text \<open>
  As stated, the claim fails: the car is selected, no record has the id \<open>ghost\<close>, and
  after \<^verbatim>\<open>selectMesh('ghost')\<close> the recorded selection is \<open>ghost\<close>. In \<^verbatim>\<open>part_000\<close> the
  empty id fails it further: with the car selected and sliced along X, no record has the
  empty id, the other mesh is not clipped, and after \<^verbatim>\<open>selectMesh('')\<close> its material has
  the plane through the X slider's value.
\<close>

theorem select_absent_counterexample:
  "''ghost'' \<notin> entry_id ` set (meshes (car_selected MainB))
 \<and> selectedMeshId (car_selected MainB) = Some ''obj-5-7''
 \<and> selectedMeshId (selectMesh MainB ''ghost'' (car_selected MainB)) = Some ''ghost''
 \<and> [] \<notin> entry_id ` set (meshes (x_sliced Part0))
 \<and> applied_planes (x_sliced Part0) 1 = []
 \<and> applied_planes (selectMesh Part0 [] (x_sliced Part0)) 1 = [Plane (Vector3 (- 1) 0 0) 5]
 \<and> material (mesh_store (selectMesh Part0 [] (x_sliced Part0)) 1)
      \<noteq> material (mesh_store (x_sliced Part0) 1)"
proof -
  have a: "applied_planes (x_sliced Part0) 1 = []"
    by (simp add: applied_planes_def dragon_planes_sliced)
  have b: "applied_planes (selectMesh Part0 [] (x_sliced Part0)) 1 = [Plane (Vector3 (- 1) 0 0) 5]"
    using select_empty_sliced by simp
  have c: "clippingPlanes (material (mesh_store (selectMesh Part0 [] (x_sliced Part0)) 1))
      \<noteq> clippingPlanes (material (mesh_store (x_sliced Part0) 1))"
    using b by (auto simp: applied_planes_def dragon_planes_sliced split: option.splits)
  have d: "material (mesh_store (selectMesh Part0 [] (x_sliced Part0)) 1)
      \<noteq> material (mesh_store (x_sliced Part0) 1)"
    using c by metis
  have e: "''ghost'' \<notin> entry_id ` set (meshes (car_selected MainB))
 \<and> selectedMeshId (car_selected MainB) = Some ''obj-5-7''
 \<and> selectedMeshId (selectMesh MainB ''ghost'' (car_selected MainB)) = Some ''ghost''
 \<and> [] \<notin> entry_id ` set (meshes (x_sliced Part0))"
    by (simp add: x_sliced_registry)
  show ?thesis
    using a b d e by blast
qed

text \<open>
  Claim C7. With a mesh selected and found, \<^verbatim>\<open>setOpacityForSelected(value)\<close> stores
  \<open>value\<close> as it is, whatever it is, in the opacity of that mesh's material and changes
  no other field of this mesh and no other mesh; the registry and the selection stay.
  With nothing selected, or with a selection that no record has, the state is unchanged.
  \<^verbatim>\<open>dynamicSelectedOpacity\<close> of \<^verbatim>\<open>part_000\<close> does the same.
\<close>

theorem setOpacity_exact:
  "(truthy_id (selectedMeshId s) \<and> find_selected s = Some obj \<longrightarrow>
      mesh_store (setOpacityForSelected value s) =
        (mesh_store s)(entry_mesh obj :=
           (mesh_store s (entry_mesh obj))\<lparr>material := (material (mesh_store s (entry_mesh obj)))\<lparr>opacity := value\<rparr>\<rparr>)
    \<and> opacity (material (mesh_store (setOpacityForSelected value s) (entry_mesh obj))) = value
    \<and> (\<forall>r. r \<noteq> entry_mesh obj \<longrightarrow> mesh_store (setOpacityForSelected value s) r = mesh_store s r)
    \<and> meshes (setOpacityForSelected value s) = meshes s
    \<and> selectedMeshId (setOpacityForSelected value s) = selectedMeshId s)
 \<and> (\<not> truthy_id (selectedMeshId s) \<or> find_selected s = None \<longrightarrow> setOpacityForSelected value s = s)
 \<and> dynamicSelectedOpacity value s = setOpacityForSelected value s"
  by (auto simp: setOpacityForSelected_def dynamicSelectedOpacity_def set_opacity_def Let_def)

theorem setOpacity_exact_witness:
  "truthy_id (selectedMeshId (car_selected MainB))
 \<and> find_selected (car_selected MainB) = Some \<lparr>entry_id = ''obj-5-7'', entry_mesh = 0, entry_slider = None\<rparr>
 \<and> opacity (material (mesh_store (setOpacityForSelected 7 (car_selected MainB)) 0)) = 7
 \<and> mesh_store (setOpacityForSelected 7 (car_selected MainB)) 1 = mesh_store (car_selected MainB) 1
 \<and> setOpacityForSelected 7 start = start
 \<and> dynamicSelectedOpacity (- 2) (car_selected Part0) = setOpacityForSelected (- 2) (car_selected Part0)"
  using setOpacity_exact [of "car_selected MainB" "\<lparr>entry_id = ''obj-5-7'', entry_mesh = 0, entry_slider = None\<rparr>" 7]
        setOpacity_exact [of start "\<lparr>entry_id = [], entry_mesh = 0, entry_slider = None\<rparr>" 7]
        setOpacity_exact [of "car_selected Part0" "\<lparr>entry_id = [], entry_mesh = 0, entry_slider = None\<rparr>" "- 2"]
  by (simp add: truthy_id_def)

text \<open>
  Claim C8, as amended. The static visibility button of the second script of
  \<^verbatim>\<open>src/main.js\<close> and of \<^verbatim>\<open>part_000\<close> flips the visible flag of the selected mesh and
  changes no other field and no other mesh; with nothing selected, or with a selection
  that no record has, it changes nothing; a click on it runs this listener and no
  other. In the first script of \<^verbatim>\<open>src/main.js\<close> every list entry has a button of its
  own. The listener of that button (lines 135 to 141)
  always flips the per-mesh flag \<^verbatim>\<open>userData.visible\<close> of its entry's mesh, flips that
  mesh's visible flag only if its entry is the selected one, and changes no other mesh.
  The button lies inside its entry, so a click on it goes on to the click listener of
  the entry (line 127), which selects the entry. After the whole click the entry is
  the selection, whichever entry was selected before; the per-mesh flag of the entry's
  mesh is flipped and no other per-mesh flag has changed; the visible flag of a mesh
  whose last record has the id of the entry is its per-mesh flag, and that of a mesh
  whose last record has another id is \<^verbatim>\<open>false\<close>; the registry and every mesh's name,
  geometry and opacity are as before.
\<close>

theorem toggleVisibility_frame:
  "(truthy_id (selectedMeshId s) \<and> find_selected s = Some obj \<longrightarrow>
      mesh_store (visBtn_click s) =
        (mesh_store s)(entry_mesh obj :=
           (mesh_store s (entry_mesh obj))\<lparr>visible := Some (\<not> truthy (visible (mesh_store s (entry_mesh obj))))\<rparr>)
    \<and> (\<forall>r. r \<noteq> entry_mesh obj \<longrightarrow> mesh_store (visBtn_click s) r = mesh_store s r)
    \<and> meshes (visBtn_click s) = meshes s
    \<and> selectedMeshId (visBtn_click s) = selectedMeshId s)
 \<and> (\<not> truthy_id (selectedMeshId s) \<or> find_selected s = None \<longrightarrow> visBtn_click s = s)
 \<and> step MainB VisClick s = visBtn_click s
 \<and> step Part0 VisClick s = visBtn_click s
 \<and> (k < length (objects_list s) \<and> item_ctrl (objects_list s ! k) \<noteq> None \<longrightarrow>
      name (mesh_store (item_visBtn_click k s) (item_mesh (objects_list s ! k)))
        = name (mesh_store s (item_mesh (objects_list s ! k)))
    \<and> geometry (mesh_store (item_visBtn_click k s) (item_mesh (objects_list s ! k)))
        = geometry (mesh_store s (item_mesh (objects_list s ! k)))
    \<and> material (mesh_store (item_visBtn_click k s) (item_mesh (objects_list s ! k)))
        = material (mesh_store s (item_mesh (objects_list s ! k)))
    \<and> userData_visible (mesh_store (item_visBtn_click k s) (item_mesh (objects_list s ! k))) =
        Some (\<not> truthy (userData_visible (mesh_store s (item_mesh (objects_list s ! k)))))
    \<and> visible (mesh_store (item_visBtn_click k s) (item_mesh (objects_list s ! k))) =
        (if selectedMeshId s = Some (item_id (objects_list s ! k))
         then Some (\<not> truthy (visible (mesh_store s (item_mesh (objects_list s ! k)))))
         else visible (mesh_store s (item_mesh (objects_list s ! k))))
    \<and> (\<forall>r. r \<noteq> item_mesh (objects_list s ! k) \<longrightarrow> mesh_store (item_visBtn_click k s) r = mesh_store s r)
    \<and> meshes (item_visBtn_click k s) = meshes s
    \<and> selectedMeshId (item_visBtn_click k s) = selectedMeshId s)
 \<and> (k < length (objects_list s) \<and> item_ctrl (objects_list s ! k) \<noteq> None \<longrightarrow>
      step MainA (ItemVis k) s
        = selectMesh MainA (item_id (objects_list s ! k)) (item_visBtn_click k s)
    \<and> selectedMeshId (step MainA (ItemVis k) s) = Some (item_id (objects_list s ! k))
    \<and> meshes (step MainA (ItemVis k) s) = meshes s
    \<and> (\<forall>r. userData_visible (mesh_store (step MainA (ItemVis k) s) r) =
            (if r = item_mesh (objects_list s ! k)
             then Some (\<not> truthy (userData_visible (mesh_store s r)))
             else userData_visible (mesh_store s r)))
    \<and> (\<forall>r. visible (mesh_store (step MainA (ItemVis k) s) r) =
            (case find (\<lambda>e. entry_mesh e = r) (rev (meshes s)) of
               None \<Rightarrow> visible (mesh_store (item_visBtn_click k s) r)
             | Some e \<Rightarrow> if entry_id e = item_id (objects_list s ! k)
                         then userData_visible (mesh_store (step MainA (ItemVis k) s) r)
                         else Some False))
    \<and> (\<forall>r. name (mesh_store (step MainA (ItemVis k) s) r) = name (mesh_store s r)
           \<and> geometry (mesh_store (step MainA (ItemVis k) s) r) = geometry (mesh_store s r)
           \<and> opacity (material (mesh_store (step MainA (ItemVis k) s) r))
               = opacity (material (mesh_store s r))))"
proof -
  have listeners: "(truthy_id (selectedMeshId s) \<and> find_selected s = Some obj \<longrightarrow>
      mesh_store (visBtn_click s) =
        (mesh_store s)(entry_mesh obj :=
           (mesh_store s (entry_mesh obj))\<lparr>visible := Some (\<not> truthy (visible (mesh_store s (entry_mesh obj))))\<rparr>)
    \<and> (\<forall>r. r \<noteq> entry_mesh obj \<longrightarrow> mesh_store (visBtn_click s) r = mesh_store s r)
    \<and> meshes (visBtn_click s) = meshes s
    \<and> selectedMeshId (visBtn_click s) = selectedMeshId s)
 \<and> (\<not> truthy_id (selectedMeshId s) \<or> find_selected s = None \<longrightarrow> visBtn_click s = s)
 \<and> step MainB VisClick s = visBtn_click s
 \<and> step Part0 VisClick s = visBtn_click s
 \<and> (k < length (objects_list s) \<and> item_ctrl (objects_list s ! k) \<noteq> None \<longrightarrow>
      name (mesh_store (item_visBtn_click k s) (item_mesh (objects_list s ! k)))
        = name (mesh_store s (item_mesh (objects_list s ! k)))
    \<and> geometry (mesh_store (item_visBtn_click k s) (item_mesh (objects_list s ! k)))
        = geometry (mesh_store s (item_mesh (objects_list s ! k)))
    \<and> material (mesh_store (item_visBtn_click k s) (item_mesh (objects_list s ! k)))
        = material (mesh_store s (item_mesh (objects_list s ! k)))
    \<and> userData_visible (mesh_store (item_visBtn_click k s) (item_mesh (objects_list s ! k))) =
        Some (\<not> truthy (userData_visible (mesh_store s (item_mesh (objects_list s ! k)))))
    \<and> visible (mesh_store (item_visBtn_click k s) (item_mesh (objects_list s ! k))) =
        (if selectedMeshId s = Some (item_id (objects_list s ! k))
         then Some (\<not> truthy (visible (mesh_store s (item_mesh (objects_list s ! k)))))
         else visible (mesh_store s (item_mesh (objects_list s ! k))))
    \<and> (\<forall>r. r \<noteq> item_mesh (objects_list s ! k) \<longrightarrow> mesh_store (item_visBtn_click k s) r = mesh_store s r)
    \<and> meshes (item_visBtn_click k s) = meshes s
    \<and> selectedMeshId (item_visBtn_click k s) = selectedMeshId s)"
    by (auto simp: visBtn_click_def item_visBtn_click_def js_not_def Let_def)
  have click: "step MainA (ItemVis k) s
        = selectMesh MainA (item_id (objects_list s ! k)) (item_visBtn_click k s)
    \<and> selectedMeshId (step MainA (ItemVis k) s) = Some (item_id (objects_list s ! k))
    \<and> meshes (step MainA (ItemVis k) s) = meshes s
    \<and> (\<forall>r. userData_visible (mesh_store (step MainA (ItemVis k) s) r) =
            (if r = item_mesh (objects_list s ! k)
             then Some (\<not> truthy (userData_visible (mesh_store s r)))
             else userData_visible (mesh_store s r)))
    \<and> (\<forall>r. visible (mesh_store (step MainA (ItemVis k) s) r) =
            (case find (\<lambda>e. entry_mesh e = r) (rev (meshes s)) of
               None \<Rightarrow> visible (mesh_store (item_visBtn_click k s) r)
             | Some e \<Rightarrow> if entry_id e = item_id (objects_list s ! k)
                         then userData_visible (mesh_store (step MainA (ItemVis k) s) r)
                         else Some False))
    \<and> (\<forall>r. name (mesh_store (step MainA (ItemVis k) s) r) = name (mesh_store s r)
           \<and> geometry (mesh_store (step MainA (ItemVis k) s) r) = geometry (mesh_store s r)
           \<and> opacity (material (mesh_store (step MainA (ItemVis k) s) r))
               = opacity (material (mesh_store s r)))"
    if k: "k < length (objects_list s)" and c: "item_ctrl (objects_list s ! k) \<noteq> None"
  proof -
    note v = vis_click_A [OF k]
    have u: "userData_visible (mesh_store (step MainA (ItemVis k) s) r) =
            (if r = item_mesh (objects_list s ! k)
             then Some (\<not> truthy (userData_visible (mesh_store s r)))
             else userData_visible (mesh_store s r))" for r
      unfolding v(4) using k c by (simp add: item_visBtn_click_userData)
    have w: "visible (mesh_store (step MainA (ItemVis k) s) r) =
            (case find (\<lambda>e. entry_mesh e = r) (rev (meshes s)) of
               None \<Rightarrow> visible (mesh_store (item_visBtn_click k s) r)
             | Some e \<Rightarrow> if entry_id e = item_id (objects_list s ! k)
                         then userData_visible (mesh_store (step MainA (ItemVis k) s) r)
                         else Some False)" for r
      by (simp only: v(5) v(4))
    have e: "step MainA (ItemVis k) s
        = selectMesh MainA (item_id (objects_list s ! k)) (item_visBtn_click k s)"
      by (simp only: v(1) selectMesh_def script.case)
    show ?thesis
      using e v(2,3,6,7,8) u w by blast
  qed
  show ?thesis
    using listeners click by blast
qed

theorem toggleVisibility_frame_witness:
  "truthy_id (selectedMeshId (car_selected MainB))
 \<and> find_selected (car_selected MainB) = Some \<lparr>entry_id = ''obj-5-7'', entry_mesh = 0, entry_slider = None\<rparr>
 \<and> visible (mesh_store (visBtn_click (car_selected MainB)) 0) = Some False
 \<and> mesh_store (visBtn_click (car_selected MainB)) 1 = mesh_store (car_selected MainB) 1
 \<and> visBtn_click start = start
 \<and> (1::nat) < length (objects_list (car_selected MainA))
 \<and> item_ctrl (objects_list (car_selected MainA) ! 1) \<noteq> None
 \<and> item_mesh (objects_list (car_selected MainA) ! 1) = 1
 \<and> userData_visible (mesh_store (item_visBtn_click 1 (car_selected MainA)) 1) = Some True
 \<and> visible (mesh_store (item_visBtn_click 1 (car_selected MainA)) 1) = Some False
 \<and> mesh_store (item_visBtn_click 1 (car_selected MainA)) 0 = mesh_store (car_selected MainA) 0
 \<and> item_id (objects_list (car_selected MainA) ! 1) = ''obj-6-8''
 \<and> selectedMeshId (step MainA (ItemVis 1) (car_selected MainA)) = Some ''obj-6-8''
 \<and> userData_visible (mesh_store (step MainA (ItemVis 1) (car_selected MainA)) 1) = Some True
 \<and> visible (mesh_store (step MainA (ItemVis 1) (car_selected MainA)) 1) = Some True
 \<and> visible (mesh_store (step MainA (ItemVis 1) (car_selected MainA)) 0) = Some False"
proof -
  note B = toggleVisibility_frame [of "car_selected MainB" "\<lparr>entry_id = ''obj-5-7'', entry_mesh = 0, entry_slider = None\<rparr>" 1]
  note S = toggleVisibility_frame [of start "\<lparr>entry_id = ''obj-5-7'', entry_mesh = 0, entry_slider = None\<rparr>" 1]
  note A = toggleVisibility_frame [of "car_selected MainA" "\<lparr>entry_id = ''obj-5-7'', entry_mesh = 0, entry_slider = Some 0\<rparr>" 1]
  have k: "(1::nat) < length (objects_list (car_selected MainA))
         \<and> item_ctrl (objects_list (car_selected MainA) ! 1) \<noteq> None"
    by simp
  have sel: "selectedMeshId (step MainA (ItemVis 1) (car_selected MainA)) = Some ''obj-6-8''"
    using A k by simp
  have u: "userData_visible (mesh_store (step MainA (ItemVis 1) (car_selected MainA)) r) =
            (if r = item_mesh (objects_list (car_selected MainA) ! 1)
             then Some (\<not> truthy (userData_visible (mesh_store (car_selected MainA) r)))
             else userData_visible (mesh_store (car_selected MainA) r))" for r
    using A k by blast
  have w: "visible (mesh_store (step MainA (ItemVis 1) (car_selected MainA)) r) =
            (case find (\<lambda>e. entry_mesh e = r) (rev (meshes (car_selected MainA))) of
               None \<Rightarrow> visible (mesh_store (item_visBtn_click 1 (car_selected MainA)) r)
             | Some e \<Rightarrow> if entry_id e = item_id (objects_list (car_selected MainA) ! 1)
                         then userData_visible (mesh_store (step MainA (ItemVis 1) (car_selected MainA)) r)
                         else Some False)" for r
    using A k by blast
  have u1: "userData_visible (mesh_store (step MainA (ItemVis 1) (car_selected MainA)) 1) = Some True"
    unfolding u by (simp add: truthy_def)
  have w1: "visible (mesh_store (step MainA (ItemVis 1) (car_selected MainA)) 1) = Some True"
    unfolding w u by (simp add: truthy_def)
  have w0: "visible (mesh_store (step MainA (ItemVis 1) (car_selected MainA)) 0) = Some False"
    unfolding w u by (simp add: truthy_def)
  have old: "truthy_id (selectedMeshId (car_selected MainB))
 \<and> find_selected (car_selected MainB) = Some \<lparr>entry_id = ''obj-5-7'', entry_mesh = 0, entry_slider = None\<rparr>
 \<and> visible (mesh_store (visBtn_click (car_selected MainB)) 0) = Some False
 \<and> mesh_store (visBtn_click (car_selected MainB)) 1 = mesh_store (car_selected MainB) 1
 \<and> visBtn_click start = start
 \<and> (1::nat) < length (objects_list (car_selected MainA))
 \<and> item_ctrl (objects_list (car_selected MainA) ! 1) \<noteq> None
 \<and> item_mesh (objects_list (car_selected MainA) ! 1) = 1
 \<and> userData_visible (mesh_store (item_visBtn_click 1 (car_selected MainA)) 1) = Some True
 \<and> visible (mesh_store (item_visBtn_click 1 (car_selected MainA)) 1) = Some False
 \<and> mesh_store (item_visBtn_click 1 (car_selected MainA)) 0 = mesh_store (car_selected MainA) 0
 \<and> item_id (objects_list (car_selected MainA) ! 1) = ''obj-6-8''"
    using B S A by (simp add: truthy_id_def truthy_def)
  show ?thesis
    using old sel u1 w1 w0 by blast
qed

text \<open>
  As stated, the claim fails in the first script: the car is selected, and the button
  of the other entry changes the per-mesh flag of the other mesh. The whole click changes
  more: the other entry becomes the selection, its mesh is shown and the car is hidden.
\<close>

theorem toggleVisibility_counterexample:
  "selectedMeshId (car_selected MainA) = Some ''obj-5-7''
 \<and> item_id (objects_list (car_selected MainA) ! 1) = ''obj-6-8''
 \<and> item_mesh (objects_list (car_selected MainA) ! 1) = 1
 \<and> userData_visible (mesh_store (car_selected MainA) 1) = None
 \<and> userData_visible (mesh_store (item_visBtn_click 1 (car_selected MainA)) 1) = Some True
 \<and> visible (mesh_store (car_selected MainA) 1) = Some False
 \<and> visible (mesh_store (car_selected MainA) 0) = None
 \<and> selectedMeshId (step MainA (ItemVis 1) (car_selected MainA)) = Some ''obj-6-8''
 \<and> userData_visible (mesh_store (step MainA (ItemVis 1) (car_selected MainA)) 1) = Some True
 \<and> visible (mesh_store (step MainA (ItemVis 1) (car_selected MainA)) 1) = Some True
 \<and> visible (mesh_store (step MainA (ItemVis 1) (car_selected MainA)) 0) = Some False"
proof -
  have k: "1 < length (objects_list (car_selected MainA))"
    by simp
  note v = vis_click_A [OF k]
  have a: "userData_visible (mesh_store (item_visBtn_click 1 (car_selected MainA)) 1) = Some True"
    by (simp add: item_visBtn_click_userData truthy_def)
  have b: "selectedMeshId (step MainA (ItemVis 1) (car_selected MainA)) = Some ''obj-6-8''"
    unfolding v(2) by simp
  have c: "userData_visible (mesh_store (step MainA (ItemVis 1) (car_selected MainA)) 1) = Some True"
    unfolding v(4) by (rule a)
  have d: "visible (mesh_store (step MainA (ItemVis 1) (car_selected MainA)) 1) = Some True"
    unfolding v(5) using a by simp
  have e: "visible (mesh_store (step MainA (ItemVis 1) (car_selected MainA)) 0) = Some False"
    unfolding v(5) by simp
  have f: "selectedMeshId (car_selected MainA) = Some ''obj-5-7''
 \<and> item_id (objects_list (car_selected MainA) ! 1) = ''obj-6-8''
 \<and> item_mesh (objects_list (car_selected MainA) ! 1) = 1
 \<and> userData_visible (mesh_store (car_selected MainA) 1) = None
 \<and> visible (mesh_store (car_selected MainA) 1) = Some False
 \<and> visible (mesh_store (car_selected MainA) 0) = None"
    by simp
  show ?thesis
    using a b c d e f by blast
qed

text \<open>
  Claim C9. In each of the three scripts, after any sequence of loads, selections,
  recomputations and listener calls from the start state, the plane configured for an
  axis has that axis's fixed normal: \<open>(-1,0,0)\<close>, \<open>(0,-1,0)\<close> or \<open>(0,0,-1)\<close>.
\<close>

theorem normals_never_change:
  "normal (configured (run v evs (init_state sliders op_value icon)) a) = axis_normal a"
  using clip_ok_run [OF clip_ok_init, of v evs sliders op_value icon]
  by (cases a) (simp_all add: clip_ok_def normals_fixed_def axis_normal_def)


theorem normals_never_change_witness:
  "normal (configured (run Part0
      [LocalLoaded ''./assets/models/car.stl'' ''car'' triangle 5 7, Select ''obj-5-7'',
       SetAxisEnabled AxisX True, SetAxisOffset AxisX 5, Upload (Some (''a.stl'', triangle)) 9 1,
       Recompute] start) AxisX) = Vector3 (- 1) 0 0"
  using normals_never_change [of Part0
      "[LocalLoaded ''./assets/models/car.stl'' ''car'' triangle 5 7, Select ''obj-5-7'',
        SetAxisEnabled AxisX True, SetAxisOffset AxisX 5, Upload (Some (''a.stl'', triangle)) 9 1,
        Recompute]" page_sliders 1 True AxisX]
  by (simp add: start_def axis_normal_def)

text \<open>
  Claim C10, as amended. In the first script of \<^verbatim>\<open>src/main.js\<close>, selecting sets the
  visible flag of a mesh whose last record has the selected id to the mesh's per-mesh
  flag \<^verbatim>\<open>userData.visible\<close>, and that of a mesh whose last record has another id to
  \<^verbatim>\<open>false\<close>. Registration never initialises the per-mesh flag: from any state the script
  can reach, a load registers a mesh whose per-mesh flag is undefined and whose visible
  flag is \<^verbatim>\<open>false\<close>. Therefore, immediately after \<^verbatim>\<open>selectMesh(id)\<close> is called on it, the
  visible flag of a freshly registered mesh is undefined: it is no longer \<^verbatim>\<open>false\<close>, and
  it is not \<^verbatim>\<open>true\<close>. Whatever happens next, the visible flag is not \<^verbatim>\<open>true\<close> as long as
  the visibility button of its list entry has not been clicked. One click on that
  button, after the selection or without one, makes the visible flag \<^verbatim>\<open>true\<close>.
\<close>

theorem fresh_mesh_flag_never_true:
  assumes "s = run MainA evs0 (init_state sliders op_value icon)"
      and "ld = Upload (Some (fname, geom)) now rnd \<or> ld = LocalLoaded path nm geom now rnd"
  shows "visible (mesh_store (selectMesh MainA i t) r) =
           (case find (\<lambda>e. entry_mesh e = r) (rev (meshes t)) of
              None \<Rightarrow> visible (mesh_store t r)
            | Some e \<Rightarrow> if entry_id e = i then userData_visible (mesh_store t r) else Some False)
       \<and> userData_visible (mesh_store (step MainA ld s) (n_meshes s)) = None
       \<and> visible (mesh_store (step MainA ld s) (n_meshes s)) = Some False
       \<and> visible (mesh_store (selectMesh MainA (make_id now rnd) (step MainA ld s)) (n_meshes s)) = None
       \<and> (ItemVis (length (objects_list s)) \<notin> set evs \<longrightarrow>
            \<not> truthy (visible (mesh_store (run MainA evs (step MainA ld s)) (n_meshes s))))
       \<and> visible (mesh_store (step MainA (ItemVis (length (objects_list s)))
              (selectMesh MainA (make_id now rnd) (step MainA ld s))) (n_meshes s)) = Some True
       \<and> visible (mesh_store (step MainA (ItemVis (length (objects_list s))) (step MainA ld s))
              (n_meshes s)) = Some True"
proof -
  obtain mo where mo: "userData_visible mo = None"
      and reg: "step MainA ld s = register_twice MainA mo now rnd s"
    using load_is_registration [OF assms(2)] by blast
  let ?s1 = "register_twice MainA mo now rnd s"
  let ?m = "n_meshes s" and ?k = "length (objects_list s)" and ?i = "make_id now rnd"
  have ok: "items_ok s"
    unfolding assms(1) by (intro items_ok_run items_ok_init)
  have u1: "userData_visible (mesh_store ?s1 ?m) = None" and v1: "visible (mesh_store ?s1 ?m) = Some False"
    using mo by simp_all
  have ms: "meshes ?s1 = meshes s @
      [\<lparr>entry_id = ?i, entry_mesh = ?m, entry_slider = Some ?k\<rparr>,
       \<lparr>entry_id = ?i, entry_mesh = ?m, entry_slider = None\<rparr>]"
    by (simp add: meshes_register_twice)
  have sel: "visible (mesh_store (selectMesh MainA ?i ?s1) ?m) = None"
    using last_entry_selected [OF ms, of ?m ?i] u1 by (simp add: selectMesh_def)
  have dorm: "dormant ?m ?k ?s1"
    using ok mo by (rule dormant_after_registration)
  have inv: "\<not> truthy (visible (mesh_store (run MainA evs ?s1) ?m))" if "ItemVis ?k \<notin> set evs"
    using dormant_run [OF dorm that] by (simp add: dormant_def truthy_def)
  have c1: "visible (mesh_store (step MainA (ItemVis ?k) (selectMesh MainA ?i ?s1)) ?m) = Some True"
  proof (rule click_shows)
    show "skeleton (objects_list (selectMesh MainA ?i ?s1)) = skeleton (objects_list s) @ [(?i, ?m, False)]"
      by (simp add: skeleton_register_twice_A)
    show "meshes (selectMesh MainA ?i ?s1) = meshes s @
      [\<lparr>entry_id = ?i, entry_mesh = ?m, entry_slider = Some ?k\<rparr>,
       \<lparr>entry_id = ?i, entry_mesh = ?m, entry_slider = None\<rparr>]"
      by (simp add: ms)
    show "userData_visible (mesh_store (selectMesh MainA ?i ?s1) ?m) = None"
      using u1 by (simp add: selectMesh_def)
  qed simp_all
  have c2: "visible (mesh_store (step MainA (ItemVis ?k) ?s1) ?m) = Some True"
    by (rule click_shows [OF skeleton_register_twice_A ms _ _ u1]) simp_all
  have g: "visible (mesh_store (selectMesh MainA i t) r) =
           (case find (\<lambda>e. entry_mesh e = r) (rev (meshes t)) of
              None \<Rightarrow> visible (mesh_store t r)
            | Some e \<Rightarrow> if entry_id e = i then userData_visible (mesh_store t r) else Some False)"
    by (simp add: selectMesh_def selectMesh_A_visible)
  show ?thesis
    unfolding reg using g u1 v1 sel inv c1 c2 by blast
qed

text \<open>
  The car, the first model loaded: hidden after its load, its flag undefined after it is
  selected and still not true after a slice and an opacity preset, true after one click
  on its visibility button.
\<close>

theorem fresh_mesh_flag_never_true_witness:
  "userData_visible (mesh_store (car_loaded MainA) 0) = None
 \<and> visible (mesh_store (car_loaded MainA) 0) = Some False
 \<and> visible (mesh_store (selectMesh MainA ''obj-5-7'' (car_loaded MainA)) 0) = None
 \<and> ItemVis 0 \<notin> set [Select ''obj-5-7'', SetAxisEnabled AxisX True, ItemOpacity 0 0.5]
 \<and> \<not> truthy (visible (mesh_store
        (run MainA [Select ''obj-5-7'', SetAxisEnabled AxisX True, ItemOpacity 0 0.5] (car_loaded MainA)) 0))
 \<and> visible (mesh_store (step MainA (ItemVis 0) (selectMesh MainA ''obj-5-7'' (car_loaded MainA))) 0)
      = Some True
 \<and> visible (mesh_store (step MainA (ItemVis 0) (car_loaded MainA)) 0) = Some True"
proof -
  have s: "init_state page_sliders 1 True = run MainA [] (init_state page_sliders 1 True)"
    by (simp add: run_def)
  have l: "LocalLoaded ''./assets/models/car.stl'' ''car'' triangle 5 7
             = Upload (Some (''car.stl'', triangle)) 5 7
         \<or> LocalLoaded ''./assets/models/car.stl'' ''car'' triangle 5 7
             = LocalLoaded ''./assets/models/car.stl'' ''car'' triangle 5 7"
    by simp
  have c: "step MainA (LocalLoaded ''./assets/models/car.stl'' ''car'' triangle 5 7)
             (init_state page_sliders 1 True) = car_loaded MainA"
    by (simp add: car_loaded_def start_def)
  have n: "n_meshes (init_state page_sliders 1 True) = 0"
     "length (objects_list (init_state page_sliders 1 True)) = 0"
    by (simp_all add: init_state_def)
  show ?thesis
    using fresh_mesh_flag_never_true [OF s l,
        where evs = "[Select ''obj-5-7'', SetAxisEnabled AxisX True, ItemOpacity 0 0.5]"
          and i = "''obj-5-7''" and t = "car_loaded MainA" and r = 0]
    unfolding c n by simp
qed

text \<open>
  As stated, the claim fails: the car, the first model loaded, has the visible flag
  \<^verbatim>\<open>false\<close> after its load, and selecting it at once leaves the flag undefined, which is
  not \<^verbatim>\<open>false\<close>. The mesh does not remain as its load left it.
\<close>

theorem fresh_mesh_flag_counterexample:
  "visible (mesh_store (car_loaded MainA) 0) = Some False
 \<and> visible (mesh_store (selectMesh MainA ''obj-5-7'' (car_loaded MainA)) 0) = None
 \<and> visible (mesh_store (selectMesh MainA ''obj-5-7'' (car_loaded MainA)) 0) \<noteq> Some False"
  by (simp add: selectMesh_def selectMesh_A_visible)

end
